theory Spec2Isabelle
  imports Main "HOL-Library.Word" "HOL-Library.Multiset" "HOL-Library.Char_ord"
    "HOL-Library.List_Lexorder" "HOL-Library.Product_Lexorder"
begin

section \<open>Strings as the Go code uses them\<close>

text \<open>
  Go strings are byte sequences; they are modelled as \<^typ>\<open>string\<close>. The three
  functions of package \<^verbatim>\<open>strings\<close> that the providers call are written out.
\<close>

definition HasSuffix :: "string \<Rightarrow> string \<Rightarrow> bool" where
  "HasSuffix s suf =
     (length suf \<le> length s \<and> drop (length s - length suf) s = suf)"

definition HasPrefix :: "string \<Rightarrow> string \<Rightarrow> bool" where
  "HasPrefix s pre = (take (length pre) s = pre)"

definition TrimPrefix :: "string \<Rightarrow> string \<Rightarrow> string" where
  "TrimPrefix s pre = (if HasPrefix s pre then drop (length pre) s else s)"

text \<open>
  \<^verbatim>\<open>strings.Split(s, sep)\<close> for a one-byte separator: the result always has one
  field more than \<open>s\<close> has separators (so the empty string splits into one empty field).
\<close>

fun Split :: "string \<Rightarrow> char \<Rightarrow> string list" where
  "Split [] sep = [[]]"
| "Split (c # cs) sep =
     (if c = sep then [] # Split cs sep
      else (case Split cs sep of [] \<Rightarrow> [[c]] | p # ps \<Rightarrow> (c # p) # ps))"

text \<open>
  \<^verbatim>\<open>strings.ToLower\<close> on the ASCII letters. The code only ever compares the result
  with the all-ASCII words \<open>on\<close>, \<open>off\<close> and \<open>full\<close>; no byte outside \<open>A..Z\<close> is
  mapped to one of their letters, so the ASCII map decides these comparisons as Go does.
\<close>

definition lowerChar :: "char \<Rightarrow> char" where
  "lowerChar c =
     (if 65 \<le> (of_char c :: nat) \<and> (of_char c :: nat) \<le> 90
      then char_of ((of_char c :: nat) + 32) else c)"

definition ToLower :: "string \<Rightarrow> string" where
  "ToLower s = map lowerChar s"

text \<open>\<^verbatim>\<open>%d\<close> of \<^verbatim>\<open>fmt.Sprintf\<close> on a non-negative integer.\<close>

definition digit :: "nat \<Rightarrow> char" where
  "digit d = ''0123456789'' ! d"

function showNat :: "nat \<Rightarrow> string" where
  "showNat n = (if n < 10 then [digit n] else showNat (n div 10) @ [digit (n mod 10)])"
  by pat_completeness auto
termination
  by (relation "measure id") auto

declare showNat.simps [simp del]

section \<open>The canonical record model\<close>

text \<open>
  \<^verbatim>\<open>models.RecordConfig\<close> and \<^verbatim>\<open>models.DomainConfig\<close> are declared outside the files
  at hand; the records below carry the fields that the providers read and write. The
  getters \<^verbatim>\<open>GetLabel\<close>, \<^verbatim>\<open>GetLabelFQDN\<close> and \<^verbatim>\<open>GetTargetField\<close> read the fields
  \<open>Name\<close>, \<open>NameFQDN\<close> and \<open>Target\<close>; \<^verbatim>\<open>SetTarget\<close> writes \<open>Target\<close>.

  A Go \<^verbatim>\<open>map[string]string\<close> is a partial map; reading a missing key gives the empty
  string (\<open>meta\<close>). A nil map and an empty map read alike and are both \<open>Map.empty\<close>.
  The desired records are held by pointer in Go; each record is taken to be its own
  object (no pointer occurs twice in a record list), so a list of record values with
  in-place update \<open>xs[i := r]\<close> models the slice.
\<close>

type_synonym metadata = "string \<rightharpoonup> string"

definition meta :: "metadata \<Rightarrow> string \<Rightarrow> string" where
  "meta m k = (case m k of None \<Rightarrow> [] | Some v \<Rightarrow> v)"

type_synonym uint32 = "32 word"
type_synonym uint16 = "16 word"

record cfRecData =
  data_Target :: string
  data_Priority :: uint16
  data_Weight :: uint16
  data_Port :: uint16

record cfRecord =
  cf_ID :: string
  cf_Type :: string
  cf_Name :: string
  cf_Content :: string
  cf_Proxiable :: bool
  cf_Proxied :: bool
  cf_TTL :: uint32
  cf_Data :: "cfRecData option"
  cf_Priority :: string

record pageRule =
  pr_ID :: string

text \<open>
  The OVH \<^verbatim>\<open>Record\<close>: its integer fields are read through \<^verbatim>\<open>uint32(r.TTL)\<close>, so
  the native TTL is kept as the integer it denotes and the conversion is \<open>word_of_int\<close>.
\<close>

record ovhRecord =
  ovh_ID :: int
  ovh_FieldType :: string
  ovh_SubDomain :: string
  ovh_Target :: string
  ovh_TTL :: int

text \<open>The \<^verbatim>\<open>Original\<close> field is an interface value: nil, or one of the native records.\<close>

datatype original =
    NoOriginal
  | CfOriginal cfRecord
  | PrOriginal pageRule
  | OvhOriginal ovhRecord

record RecordConfig =
  Type :: string
  Name :: string
  NameFQDN :: string
  Target :: string
  TTL :: uint32
  Metadata :: metadata
  Original :: original

record DomainConfig =
  dc_Name :: string
  dc_Metadata :: metadata
  Records :: "RecordConfig list"

text \<open>
  How a call ends: a value is returned, an error is returned, the goroutine panics, or
  \<^verbatim>\<open>log.Fatalf\<close> ends the process.
\<close>

datatype error =
    ZoneNotListed string
  | BadProxyValue string
  | BadUniversalSSL string
  | ProxySetOnRecord string string string
  | ManageRedirectsRequired
  | InvalidRedirectData
  | InvalidIP string
  | NotAnSpfRecord
  | MustBeLast string
  | UnsupportedPart string
  | InIncludedSpf error
  | ErrNoExist string
  | External string

datatype 'a outcome =
    Returned 'a
  | Failed error
  | Panic string
  | Fatal string

fun obind :: "'a outcome \<Rightarrow> ('a \<Rightarrow> 'b outcome) \<Rightarrow> 'b outcome" where
  "obind (Returned x) f = f x"
| "obind (Failed e) f = Failed e"
| "obind (Panic s) f = Panic s"
| "obind (Fatal s) f = Fatal s"

text \<open>
  Functions of other packages that the providers call. \<open>'ip\<close> is \<^verbatim>\<open>net.IP\<close>;
  \<open>TransformIP\<close> is \<^verbatim>\<open>transform.TransformIP\<close> applied to the provider's conversion
  table. The methods of \<^verbatim>\<open>models.RecordConfig\<close> work on the record they are called
  on; \<open>PostProcessRecord\<close> is what \<^verbatim>\<open>models.PostProcessRecords\<close> does to one record of
  the slice it is given. \<open>TrimDomainName\<close> and \<open>AddOrigin\<close> are those of \<^verbatim>\<open>dnsutil\<close>,
  \<open>Int64\<close> is \<^verbatim>\<open>json.Number.Int64\<close> (\<open>None\<close> when it returns an error).
\<close>

record 'ip iplib =
  ParseIP :: "string \<Rightarrow> 'ip option"
  TransformIP :: "'ip \<Rightarrow> error + 'ip"
  IPString :: "'ip \<Rightarrow> string"

record models =
  SetLabel :: "string \<Rightarrow> string \<Rightarrow> RecordConfig \<Rightarrow> RecordConfig"
  SetLabelFromFQDN :: "string \<Rightarrow> string \<Rightarrow> RecordConfig \<Rightarrow> RecordConfig"
  PopulateFromString :: "string \<Rightarrow> string \<Rightarrow> string \<Rightarrow> RecordConfig \<Rightarrow> error + RecordConfig"
  SetTargetMX :: "uint16 \<Rightarrow> string \<Rightarrow> RecordConfig \<Rightarrow> error + RecordConfig"
  SetTargetSRV :: "uint16 \<Rightarrow> uint16 \<Rightarrow> uint16 \<Rightarrow> string \<Rightarrow> RecordConfig \<Rightarrow> error + RecordConfig"
  PostProcessRecord :: "RecordConfig \<Rightarrow> RecordConfig"
  Punycode :: "DomainConfig \<Rightarrow> DomainConfig"
  TrimDomainName :: "string \<Rightarrow> string \<Rightarrow> string"
  AddOrigin :: "string \<Rightarrow> string \<Rightarrow> string"
  Int64 :: "string \<Rightarrow> int option"

section \<open>Cloudflare: the normalizer\<close>

definition metaProxy :: string where
  "metaProxy = ''cloudflare_proxy''"

definition metaProxyDefault :: string where
  "metaProxyDefault = metaProxy @ ''_default''"

definition metaOriginalIP :: string where
  "metaOriginalIP = ''original_ip''"

definition metaUniversalSSL :: string where
  "metaUniversalSSL = ''cloudflare_universalssl''"

fun labelMatches :: "string \<Rightarrow> string list \<Rightarrow> bool" where
  "labelMatches label [] = False"
| "labelMatches label (tst # matches) =
     (if label = tst then True else labelMatches label matches)"

definition checkProxyVal :: "string \<Rightarrow> error + string" where
  "checkProxyVal v0 =
     (let v = ToLower v0
      in if v \<noteq> ''on'' \<and> v \<noteq> ''off'' \<and> v \<noteq> ''full'' then Inl (BadProxyValue v)
         else Inr v)"

text \<open>
  The two TTL statements at the head of the loop body of \<^verbatim>\<open>preprocessConfig\<close>, in
  the order of the source: the second reads what the first wrote.
\<close>

definition normalizeTTL :: "uint32 \<Rightarrow> uint32" where
  "normalizeTTL t0 =
     (let t1 = (if t0 = 0 \<or> t0 = 300 then 1 else t0)
      in if t1 \<noteq> 1 \<and> t1 < 120 then 120 else t1)"

text \<open>The body of the first loop of \<^verbatim>\<open>preprocessConfig\<close>, statement by statement.\<close>

definition proxiableType :: "string \<Rightarrow> bool" where
  "proxiableType ty = (\<not> (ty \<noteq> ''A'' \<and> ty \<noteq> ''CNAME'' \<and> ty \<noteq> ''AAAA'' \<and> ty \<noteq> ''ALIAS''))"

definition setProxy :: "string \<Rightarrow> RecordConfig \<Rightarrow> error + RecordConfig" where
  "setProxy defProxy rec =
     (if \<not> proxiableType (Type rec) then
        (if meta (Metadata rec) metaProxy \<noteq> []
         then Inl (ProxySetOnRecord (Type rec) (Name rec) (meta (Metadata rec) metaProxy))
         else Inr (rec\<lparr>Metadata := (Metadata rec)(metaProxy \<mapsto> ''off'')\<rparr>))
      else
        (let val = meta (Metadata rec) metaProxy
         in if val = [] then Inr (rec\<lparr>Metadata := (Metadata rec)(metaProxy \<mapsto> defProxy)\<rparr>)
            else (case checkProxyVal val of
                    Inl err \<Rightarrow> Inl err
                  | Inr v \<Rightarrow> Inr (rec\<lparr>Metadata := (Metadata rec)(metaProxy \<mapsto> v)\<rparr>))))"

definition isRedirect :: "RecordConfig \<Rightarrow> bool" where
  "isRedirect rec = (Type rec = ''CF_REDIRECT'' \<or> Type rec = ''CF_TEMP_REDIRECT'')"

definition encodeRedirect :: "bool \<Rightarrow> nat \<Rightarrow> RecordConfig \<Rightarrow> error + RecordConfig \<times> nat" where
  "encodeRedirect manage currentPrPrio rec =
     (if isRedirect rec then
        (if \<not> manage then Inl ManageRedirectsRequired
         else if length (Split (Target rec) (CHR '','')) \<noteq> 2 then Inl InvalidRedirectData
         else
           (let code = (if Type rec = ''CF_TEMP_REDIRECT'' then 302 else 301 :: nat)
            in Inr (rec\<lparr>Target := Target rec @ '','' @ showNat currentPrPrio @ '','' @ showNat code,
                         Type := ''PAGE_RULE''\<rparr>,
                    currentPrPrio + 1)))
      else Inr (rec, currentPrPrio))"

definition normalizeRecord ::
  "bool \<Rightarrow> string \<Rightarrow> nat \<Rightarrow> RecordConfig \<Rightarrow> error + RecordConfig \<times> nat" where
  "normalizeRecord manage defProxy currentPrPrio rec =
     (case setProxy defProxy (rec\<lparr>TTL := normalizeTTL (TTL rec)\<rparr>) of
        Inl err \<Rightarrow> Inl err
      | Inr rec' \<Rightarrow> encodeRedirect manage currentPrPrio rec')"

text \<open>
  \<^verbatim>\<open>for i := len(dc.Records) - 1; i >= 0; i--\<close>: the last argument is \<open>i + 1\<close>, the
  records are updated in place, the priority counter is threaded through.
\<close>

fun normalizeLoop ::
  "bool \<Rightarrow> string \<Rightarrow> nat \<Rightarrow> RecordConfig list \<Rightarrow> nat \<Rightarrow> error + RecordConfig list" where
  "normalizeLoop manage defProxy currentPrPrio recs 0 = Inr recs"
| "normalizeLoop manage defProxy currentPrPrio recs (Suc i) =
     (case normalizeRecord manage defProxy currentPrPrio (recs ! i) of
        Inl err \<Rightarrow> Inl err
      | Inr (rec, prio) \<Rightarrow> normalizeLoop manage defProxy prio (recs[i := rec]) i)"

text \<open>The second loop: the address rewrite of the \<open>full\<close>-proxied A records.\<close>

definition transformRecord :: "'ip iplib \<Rightarrow> RecordConfig \<Rightarrow> error + RecordConfig" where
  "transformRecord L rec =
     (if Type rec \<noteq> ''A'' then Inr rec
      else if meta (Metadata rec) metaProxy \<noteq> ''full'' then Inr rec
      else (case ParseIP L (Target rec) of
              None \<Rightarrow> Inl (InvalidIP (Target rec))
            | Some ip \<Rightarrow>
                (case TransformIP L ip of
                   Inl err \<Rightarrow> Inl err
                 | Inr newIP \<Rightarrow>
                     Inr (rec\<lparr>Metadata := (Metadata rec)(metaOriginalIP \<mapsto> Target rec),
                              Target := IPString L newIP\<rparr>))))"

fun transformLoop :: "'ip iplib \<Rightarrow> RecordConfig list \<Rightarrow> error + RecordConfig list" where
  "transformLoop L [] = Inr []"
| "transformLoop L (rec # recs) =
     (case transformRecord L rec of
        Inl err \<Rightarrow> Inl err
      | Inr rec' \<Rightarrow>
          (case transformLoop L recs of
             Inl err \<Rightarrow> Inl err
           | Inr recs' \<Rightarrow> Inr (rec' # recs')))"

record CloudflareApi =
  domainIndex :: "(string \<rightharpoonup> string) option"
  ignoredLabels :: "string list"
  manageRedirects :: bool

definition defaultProxy :: "DomainConfig \<Rightarrow> error + string" where
  "defaultProxy dc =
     (let defProxy = meta (dc_Metadata dc) metaProxyDefault
      in if defProxy = [] then Inr ''off'' else checkProxyVal defProxy)"

definition badUniversalSSL :: "DomainConfig \<Rightarrow> bool" where
  "badUniversalSSL dc =
     (let u = meta (dc_Metadata dc) metaUniversalSSL
      in u \<noteq> [] \<and> (ToLower u \<noteq> ''on'' \<and> ToLower u \<noteq> ''off''))"

definition preprocessConfig ::
  "'ip iplib \<Rightarrow> CloudflareApi \<Rightarrow> DomainConfig \<Rightarrow> error + DomainConfig" where
  "preprocessConfig L c dc =
     (case defaultProxy dc of
        Inl err \<Rightarrow> Inl err
      | Inr defProxy \<Rightarrow>
          if badUniversalSSL dc
          then Inl (BadUniversalSSL (ToLower (meta (dc_Metadata dc) metaUniversalSSL)))
          else (case normalizeLoop (manageRedirects c) defProxy 1 (Records dc)
                       (length (Records dc)) of
                  Inl err \<Rightarrow> Inl err
                | Inr recs \<Rightarrow>
                    (case transformLoop L recs of
                       Inl err \<Rightarrow> Inl err
                     | Inr recs' \<Rightarrow> Inr (dc\<lparr>Records := recs'\<rparr>))))"

subsection \<open>The apex NS records\<close>

text \<open>
  \<^verbatim>\<open>checkNSModifications\<close>; the targets it warns about are returned with the new
  configuration, in the order of the warnings.
\<close>

fun checkNSLoop ::
  "string \<Rightarrow> RecordConfig list \<Rightarrow> string list \<Rightarrow> RecordConfig list
     \<Rightarrow> string list \<times> RecordConfig list" where
  "checkNSLoop zone [] warned newList = (warned, newList)"
| "checkNSLoop zone (rec # recs) warned newList =
     (if Type rec = ''NS'' \<and> NameFQDN rec = zone then
        checkNSLoop zone recs
          (if \<not> HasSuffix (Target rec) ''.ns.cloudflare.com.'' then warned @ [Target rec]
           else warned)
          newList
      else checkNSLoop zone recs warned (newList @ [rec]))"

definition checkNSModifications :: "DomainConfig \<Rightarrow> string list \<times> DomainConfig" where
  "checkNSModifications dc =
     (case checkNSLoop (dc_Name dc) (Records dc) [] [] of
        (warned, newList) \<Rightarrow> (warned, dc\<lparr>Records := newList\<rparr>))"

subsection \<open>The zone-level setting\<close>

text \<open>
  \<^verbatim>\<open>checkUniversalSSL\<close>; its first argument is what \<^verbatim>\<open>c.getUniversalSSL(id)\<close>
  answered. The result is \<open>(changed, newState)\<close> or the error.
\<close>

definition checkUniversalSSL :: "error + bool \<Rightarrow> DomainConfig \<Rightarrow> error + bool \<times> bool" where
  "checkUniversalSSL answer dc =
     (let expected_str = meta (dc_Metadata dc) metaUniversalSSL
      in if expected_str = [] then Inl (External ''Metadata not set.'')
         else (case answer of
                 Inr actual \<Rightarrow>
                   (let expected = (if expected_str = ''off'' then False else True)
                    in if actual \<noteq> expected then Inr (True, expected)
                       else Inr (False, expected))
               | Inl err \<Rightarrow> Inl (External ''error receiving universal ssl state:'')))"

section \<open>The differ\<close>

record Correlation =
  Existing :: "RecordConfig option"
  Desired :: "RecordConfig option"

text \<open>
  Modelled from the spec: package \<^verbatim>\<open>providers/diff\<close> (\<^verbatim>\<open>diff.New\<close>,
  \<^verbatim>\<open>IncrementalDiff\<close>, \<^verbatim>\<open>Correlation.String\<close>) is not among the files at hand, so the
  differ follows section 4.2 of the specification. The matching key is
  \<open>(label, type, value)\<close>. Desired records are taken in their order; each is paired
  with the first actual record not yet paired that has its key (matching by value
  inside a \<open>(label, type)\<close> group pairs the same records). A pair whose TTL and
  comparator value agree is unchanged, any other pair is a modification; a desired
  record without partner is a creation, the actual records left over are deletions.
  Each category is then sorted by the key. The specification does not say which of two
  records with the same key comes first; the definition leaves them in the order of the
  listing, and the statements below are about inputs without such records or hold for
  every order.
  The comparator is the function handed to \<^verbatim>\<open>diff.New\<close>; when it does not return
  for one of the records, the differ does not either.
\<close>

definition recKey :: "RecordConfig \<Rightarrow> string \<times> string \<times> string" where
  "recKey r = (Name r, Type r, Target r)"

fun pick :: "('a \<Rightarrow> bool) \<Rightarrow> 'a list \<Rightarrow> ('a \<times> 'a list) option" where
  "pick P [] = None"
| "pick P (x # xs) =
     (if P x then Some (x, xs)
      else (case pick P xs of None \<Rightarrow> None | Some (y, ys) \<Rightarrow> Some (y, x # ys)))"

fun matchDesired ::
  "(RecordConfig \<Rightarrow> 'x) \<Rightarrow> RecordConfig list \<Rightarrow> RecordConfig list
     \<Rightarrow> Correlation list \<times> Correlation list \<times> RecordConfig list \<times> Correlation list" where
  "matchDesired cmp [] actual = ([], [], actual, [])"
| "matchDesired cmp (d # desired) actual =
     (case pick (\<lambda>a. recKey a = recKey d) actual of
        None \<Rightarrow>
          (case matchDesired cmp desired actual of
             (unchanged, create, rest, modify) \<Rightarrow>
               (unchanged, \<lparr>Existing = None, Desired = Some d\<rparr> # create, rest, modify))
      | Some (a, actual') \<Rightarrow>
          (case matchDesired cmp desired actual' of
             (unchanged, create, rest, modify) \<Rightarrow>
               if TTL a = TTL d \<and> cmp a = cmp d
               then (\<lparr>Existing = Some a, Desired = Some d\<rparr> # unchanged, create, rest, modify)
               else (unchanged, create, rest, \<lparr>Existing = Some a, Desired = Some d\<rparr> # modify)))"

definition corrKey :: "Correlation \<Rightarrow> string \<times> string \<times> string" where
  "corrKey c =
     (case Desired c of
        Some d \<Rightarrow> recKey d
      | None \<Rightarrow> (case Existing c of Some e \<Rightarrow> recKey e | None \<Rightarrow> ([], [], [])))"

definition isReturned :: "'a outcome \<Rightarrow> bool" where
  "isReturned x = (case x of Returned v \<Rightarrow> True | _ \<Rightarrow> False)"

definition IncrementalDiff ::
  "(RecordConfig \<Rightarrow> 'x outcome) \<Rightarrow> RecordConfig list \<Rightarrow> RecordConfig list
     \<Rightarrow> (Correlation list \<times> Correlation list \<times> Correlation list \<times> Correlation list) outcome" where
  "IncrementalDiff cmp desired existing =
     (if list_all (\<lambda>r. isReturned (cmp r)) (desired @ existing) then
        (case matchDesired cmp desired existing of
           (unchanged, create, rest, modify) \<Rightarrow>
             Returned
               (sort_key corrKey unchanged,
                sort_key corrKey create,
                sort_key corrKey (map (\<lambda>a. \<lparr>Existing = Some a, Desired = None\<rparr>) rest),
                sort_key corrKey modify))
      else Panic ''comparator'')"

text \<open>
  Modelled from the spec: what sections 4.2 and 8 ask of the differ of package
  \<^verbatim>\<open>providers/diff\<close>, whatever its code is: its answer does not depend on the order in
  which the actual records are listed. A differ takes the desired records and the
  actual records; \<open>listingIndependent differ actual\<close> says that it answers every listing
  of the records \<open>actual\<close> alike.
\<close>

type_synonym diffResult =
  "(Correlation list \<times> Correlation list \<times> Correlation list \<times> Correlation list) outcome"


text \<open>
  Modelled from the spec: \<^verbatim>\<open>Correlation.String\<close> (package \<^verbatim>\<open>providers/diff\<close>). Section 4.3
  asks that a message name the label, the type and the old and new values.
\<close>

definition content :: "RecordConfig \<Rightarrow> string" where
  "content r = Target r @ '' ttl='' @ showNat (unat (TTL r))"

definition String :: "Correlation \<Rightarrow> string" where
  "String c =
     (case (Existing c, Desired c) of
        (None, Some d) \<Rightarrow> ''CREATE '' @ Type d @ '' '' @ NameFQDN d @ '' '' @ content d
      | (Some e, None) \<Rightarrow> ''DELETE '' @ Type e @ '' '' @ NameFQDN e @ '' '' @ content e
      | (Some e, Some d) \<Rightarrow>
          ''MODIFY '' @ Type e @ '' '' @ NameFQDN e @ '': ('' @ content e @ '') -> (''
            @ content d @ '')''
      | (None, None) \<Rightarrow> [])"

section \<open>Corrections\<close>

text \<open>
  A correction pairs a message with a closure. The closure is kept as the call it will
  make, with the values it has captured: the records themselves where the closure reads
  them only when it runs (the page-rule closures), the values already computed where
  the source computes them while it builds the plan.
\<close>

datatype action =
    DeletePageRule RecordConfig string
  | DeleteRec cfRecord string
  | CreatePageRule string RecordConfig
  | CreateRec RecordConfig string
  | UpdatePageRule "RecordConfig option" string RecordConfig
  | ModifyRecord string string bool RecordConfig
  | ChangeUniversalSSL string bool
  | DeleteRecordFunc int string
  | CreateRecordFunc "RecordConfig option" string
  | UpdateRecordFunc ovhRecord "RecordConfig option" string
  | RefreshZone string

record Correction =
  Msg :: string
  F :: action

datatype category = DeleteC | CreateC | ModifyC | ZoneC

fun categoryOf :: "action \<Rightarrow> category" where
  "categoryOf (DeletePageRule ex zid) = DeleteC"
| "categoryOf (DeleteRec e zid) = DeleteC"
| "categoryOf (DeleteRecordFunc n zone) = DeleteC"
| "categoryOf (CreatePageRule zid des) = CreateC"
| "categoryOf (CreateRec des zid) = CreateC"
| "categoryOf (CreateRecordFunc des zone) = CreateC"
| "categoryOf (UpdatePageRule ex zid rec) = ModifyC"
| "categoryOf (ModifyRecord zid rid proxy rec) = ModifyC"
| "categoryOf (UpdateRecordFunc old new zone) = ModifyC"
| "categoryOf (ChangeUniversalSSL zid st) = ZoneC"
| "categoryOf (RefreshZone zone) = ZoneC"

fun rank :: "category \<Rightarrow> nat" where
  "rank DeleteC = 0"
| "rank CreateC = 1"
| "rank ModifyC = 2"
| "rank ZoneC = 3"

text \<open>
  Modelled from the spec: \<^verbatim>\<open>deleteRec\<close> and \<^verbatim>\<open>createRec\<close> of the Cloudflare provider
  are not among the files at hand. By section 3 of the specification a correction for a
  delete refers to exactly one actual record's native handle and a correction for a
  create to exactly one desired record; the message names label, type and value.
\<close>

definition deleteRec :: "cfRecord \<Rightarrow> string \<Rightarrow> Correction" where
  "deleteRec e zid =
     \<lparr>Msg = ''DELETE record: '' @ cf_Name e @ '' '' @ cf_Type e @ '' '' @ cf_Content e,
      F = DeleteRec e zid\<rparr>"

definition createRec :: "RecordConfig \<Rightarrow> string \<Rightarrow> Correction list" where
  "createRec des zid =
     [\<lparr>Msg = ''CREATE record: '' @ Name des @ '' '' @ Type des @ '' '' @ Target des,
       F = CreateRec des zid\<rparr>]"

section \<open>Cloudflare: the reconciliation pass\<close>

text \<open>
  What the provider's API answers during one pass; the calls are made by functions that
  are not among the files at hand, so their outcomes are given.
\<close>

record cfEnv =
  fetchDomainList :: "error + (string \<rightharpoonup> string)"
  getRecordsForDomain :: "string \<Rightarrow> string \<Rightarrow> RecordConfig list outcome"
  getPageRules :: "string \<Rightarrow> string \<Rightarrow> RecordConfig list outcome"
  getUniversalSSL :: "string \<Rightarrow> error + bool"

text \<open>
  \<^verbatim>\<open>for i := len(records) - 1; i >= 0; i--\<close> with the removal of \<open>records[i]\<close>; the
  last argument is \<open>i + 1\<close>. The type assertion panics on a record that is not
  Cloudflare's.
\<close>

fun dropIgnored ::
  "(string \<Rightarrow> string \<Rightarrow> string) \<Rightarrow> string list \<Rightarrow> string \<Rightarrow> RecordConfig list \<Rightarrow> nat
     \<Rightarrow> RecordConfig list outcome" where
  "dropIgnored trim ignored zone records 0 = Returned records"
| "dropIgnored trim ignored zone records (Suc i) =
     (case Original (records ! i) of
        CfOriginal e \<Rightarrow>
          if labelMatches (trim (cf_Name e) zone) ignored
          then dropIgnored trim ignored zone (take i records @ drop (Suc i) records) i
          else dropIgnored trim ignored zone records i
      | _ \<Rightarrow> Panic ''interface conversion'')"

text \<open>The loop over the desired records that follows the fetch.\<close>

definition forced :: "RecordConfig \<Rightarrow> RecordConfig" where
  "forced rec0 =
     (let rec1 = (if Type rec0 = ''ALIAS'' then rec0\<lparr>Type := ''CNAME''\<rparr> else rec0)
      in if meta (Metadata rec1) metaProxy \<noteq> ''off'' then rec1\<lparr>TTL := 1\<rparr> else rec1)"

definition forceDesired :: "string list \<Rightarrow> RecordConfig \<Rightarrow> RecordConfig outcome" where
  "forceDesired ignored rec0 =
     (let rec = forced rec0
      in if labelMatches (Name rec) ignored
         then Fatal ''FATAL: dnsconfig contains label that matches ignored_labels''
         else Returned rec)"

fun forceLoop :: "string list \<Rightarrow> RecordConfig list \<Rightarrow> RecordConfig list outcome" where
  "forceLoop ignored [] = Returned []"
| "forceLoop ignored (rec # recs) =
     obind (forceDesired ignored rec) (\<lambda>rec'.
       obind (forceLoop ignored recs) (\<lambda>recs'. Returned (rec' # recs')))"

definition Sprint :: "bool \<Rightarrow> string" where
  "Sprint b = (if b then ''true'' else ''false'')"

definition getProxyMetadata :: "RecordConfig \<Rightarrow> (string \<times> string) list option outcome" where
  "getProxyMetadata r =
     (if Type r \<noteq> ''A'' \<and> Type r \<noteq> ''AAAA'' \<and> Type r \<noteq> ''CNAME'' then Returned None
      else (case Original r of
              NoOriginal \<Rightarrow>
                Returned (Some [(''proxy'', Sprint (meta (Metadata r) metaProxy \<noteq> ''off''))])
            | CfOriginal e \<Rightarrow> Returned (Some [(''proxy'', Sprint (cf_Proxied e))])
            | _ \<Rightarrow> Panic ''interface conversion''))"

text \<open>The three loops that build the plan; \<open>corrections\<close> is the slice appended to.\<close>

definition deleteCorrection :: "string \<Rightarrow> Correlation \<Rightarrow> Correction outcome" where
  "deleteCorrection zid d =
     (case Existing d of
        None \<Rightarrow> Panic ''nil pointer dereference''
      | Some ex \<Rightarrow>
          if Type ex = ''PAGE_RULE'' then Returned \<lparr>Msg = String d, F = DeletePageRule ex zid\<rparr>
          else (case Original ex of
                  CfOriginal e \<Rightarrow> Returned (deleteRec e zid)
                | _ \<Rightarrow> Panic ''interface conversion''))"

fun deleteLoop :: "string \<Rightarrow> Correlation list \<Rightarrow> Correction list \<Rightarrow> Correction list outcome" where
  "deleteLoop zid [] corrections = Returned corrections"
| "deleteLoop zid (d # del) corrections =
     obind (deleteCorrection zid d) (\<lambda>c. deleteLoop zid del (corrections @ [c]))"

definition createCorrections :: "string \<Rightarrow> Correlation \<Rightarrow> Correction list outcome" where
  "createCorrections zid d =
     (case Desired d of
        None \<Rightarrow> Panic ''nil pointer dereference''
      | Some des \<Rightarrow>
          if Type des = ''PAGE_RULE'' then Returned [\<lparr>Msg = String d, F = CreatePageRule zid des\<rparr>]
          else Returned (createRec des zid))"

fun createLoop :: "string \<Rightarrow> Correlation list \<Rightarrow> Correction list \<Rightarrow> Correction list outcome" where
  "createLoop zid [] corrections = Returned corrections"
| "createLoop zid (d # create) corrections =
     obind (createCorrections zid d) (\<lambda>cs. createLoop zid create (corrections @ cs))"

definition modifyCorrection :: "string \<Rightarrow> Correlation \<Rightarrow> Correction outcome" where
  "modifyCorrection zid d =
     (case Desired d of
        None \<Rightarrow> Panic ''nil pointer dereference''
      | Some rec \<Rightarrow>
          if Type rec = ''PAGE_RULE''
          then Returned \<lparr>Msg = String d, F = UpdatePageRule (Existing d) zid rec\<rparr>
          else (case Existing d of
                  None \<Rightarrow> Panic ''nil pointer dereference''
                | Some ex \<Rightarrow>
                    (case Original ex of
                       CfOriginal e \<Rightarrow>
                         (let proxy = (cf_Proxiable e \<and> meta (Metadata rec) metaProxy \<noteq> ''off'')
                          in Returned \<lparr>Msg = String d, F = ModifyRecord zid (cf_ID e) proxy rec\<rparr>)
                     | _ \<Rightarrow> Panic ''interface conversion'')))"

fun modifyLoop :: "string \<Rightarrow> Correlation list \<Rightarrow> Correction list \<Rightarrow> Correction list outcome" where
  "modifyLoop zid [] corrections = Returned corrections"
| "modifyLoop zid (d # modify) corrections =
     obind (modifyCorrection zid d) (\<lambda>c. modifyLoop zid modify (corrections @ [c]))"

definition universalSSLCorrection :: "string \<Rightarrow> bool \<Rightarrow> Correction" where
  "universalSSLCorrection zid newState =
     \<lparr>Msg = ''Universal SSL will be '' @ (if newState then ''enabled'' else ''disabled'')
              @ '' for this domain.'',
      F = ChangeUniversalSSL zid newState\<rparr>"

definition addUniversalSSL ::
  "error + bool \<Rightarrow> DomainConfig \<Rightarrow> string \<Rightarrow> Correction list \<Rightarrow> Correction list" where
  "addUniversalSSL answer dc zid corrections =
     (case checkUniversalSSL answer dc of
        Inr (changed, newState) \<Rightarrow>
          if changed then corrections @ [universalSSLCorrection zid newState] else corrections
      | Inl err \<Rightarrow> corrections)"

definition lookupZone :: "cfEnv \<Rightarrow> CloudflareApi \<Rightarrow> string \<Rightarrow> string outcome" where
  "lookupZone env c zone =
     (case (case domainIndex c of None \<Rightarrow> fetchDomainList env | Some ix \<Rightarrow> Inr ix) of
        Inl err \<Rightarrow> Failed err
      | Inr ix \<Rightarrow> (case ix zone of None \<Rightarrow> Failed (ZoneNotListed zone) | Some zid \<Rightarrow> Returned zid))"

text \<open>
  The record list handed to the differ: the fetched records without the ignored labels,
  then the page rules when redirects are managed, all post-processed.
\<close>

definition actualRecords ::
  "models \<Rightarrow> cfEnv \<Rightarrow> CloudflareApi \<Rightarrow> string \<Rightarrow> string \<Rightarrow> RecordConfig list outcome" where
  "actualRecords M env c zid zone =
     obind (getRecordsForDomain env zid zone) (\<lambda>records.
       obind (dropIgnored (TrimDomainName M) (ignoredLabels c) zone records (length records))
         (\<lambda>records'.
           obind (if manageRedirects c
                  then obind (getPageRules env zid zone) (\<lambda>prs. Returned (records' @ prs))
                  else Returned records')
             Returned))"

definition buildPlan ::
  "string \<Rightarrow> Correlation list \<Rightarrow> Correlation list \<Rightarrow> Correlation list \<Rightarrow> Correction list outcome" where
  "buildPlan zid del create modify =
     obind (deleteLoop zid del []) (\<lambda>cs1.
       obind (createLoop zid create cs1) (\<lambda>cs2.
         modifyLoop zid modify cs2))"

text \<open>
  \<^verbatim>\<open>GetDomainCorrections\<close> in two parts, written for any differ that
  \<^verbatim>\<open>diff.New(dc, getProxyMetadata)\<close> may return. \<open>cloudflareDiffWith\<close> is the pass from
  \<^verbatim>\<open>preprocessConfig\<close> to the call of the differ; it returns the configuration as it
  is then, and the differ's four lists. \<open>cloudflare_GetDomainCorrectionsWith\<close> looks the
  zone up, runs \<open>cloudflareDiffWith\<close>, builds the plan and adds the zone-level correction.
  \<open>cloudflareDiff\<close> and \<open>cloudflare_GetDomainCorrections\<close> are the two with the differ of
  section 4.2 of the specification.
\<close>

definition cloudflareDiffWith ::
  "(RecordConfig list \<Rightarrow> RecordConfig list \<Rightarrow> diffResult)
     \<Rightarrow> 'ip iplib \<Rightarrow> models \<Rightarrow> cfEnv \<Rightarrow> CloudflareApi \<Rightarrow> DomainConfig \<Rightarrow> string
     \<Rightarrow> (DomainConfig \<times> Correlation list \<times> Correlation list \<times> Correlation list
          \<times> Correlation list) outcome" where
  "cloudflareDiffWith differ L M env c dc0 zid =
     (case preprocessConfig L c dc0 of
        Inl err \<Rightarrow> Failed err
      | Inr dc1 \<Rightarrow>
          obind (actualRecords M env c zid (dc_Name dc1)) (\<lambda>records.
            obind (forceLoop (ignoredLabels c) (Records dc1)) (\<lambda>recs.
              (let dc2 = snd (checkNSModifications (dc1\<lparr>Records := recs\<rparr>))
               in obind (differ (Records dc2) (map (PostProcessRecord M) records))
                    (\<lambda>parts. Returned (dc2, parts))))))"

definition cloudflare_GetDomainCorrectionsWith ::
  "(RecordConfig list \<Rightarrow> RecordConfig list \<Rightarrow> diffResult)
     \<Rightarrow> 'ip iplib \<Rightarrow> models \<Rightarrow> cfEnv \<Rightarrow> CloudflareApi \<Rightarrow> DomainConfig \<Rightarrow> Correction list outcome" where
  "cloudflare_GetDomainCorrectionsWith differ L M env c dc0 =
     obind (lookupZone env c (dc_Name dc0)) (\<lambda>zid.
       obind (cloudflareDiffWith differ L M env c dc0 zid)
         (\<lambda>(dc2, unchanged, create, del, modify).
           obind (buildPlan zid del create modify) (\<lambda>corrections.
             Returned (addUniversalSSL (getUniversalSSL env zid) dc2 zid corrections))))"

definition cloudflareDiff ::
  "'ip iplib \<Rightarrow> models \<Rightarrow> cfEnv \<Rightarrow> CloudflareApi \<Rightarrow> DomainConfig \<Rightarrow> string
     \<Rightarrow> (DomainConfig \<times> Correlation list \<times> Correlation list \<times> Correlation list
          \<times> Correlation list) outcome" where
  "cloudflareDiff L M env c dc0 zid =
     cloudflareDiffWith (IncrementalDiff getProxyMetadata) L M env c dc0 zid"

definition cloudflare_GetDomainCorrections ::
  "'ip iplib \<Rightarrow> models \<Rightarrow> cfEnv \<Rightarrow> CloudflareApi \<Rightarrow> DomainConfig \<Rightarrow> Correction list outcome" where
  "cloudflare_GetDomainCorrections L M env c dc0 =
     cloudflare_GetDomainCorrectionsWith (IncrementalDiff getProxyMetadata) L M env c dc0"

text \<open>\<^verbatim>\<open>nativeToRecord\<close> of the Cloudflare provider.\<close>

definition emptyRecord :: "uint32 \<Rightarrow> original \<Rightarrow> RecordConfig" where
  "emptyRecord ttl orig =
     \<lparr>Type = [], Name = [], NameFQDN = [], Target = [], TTL = ttl, Metadata = Map.empty,
      Original = orig\<rparr>"

definition cloudflare_nativeToRecord :: "models \<Rightarrow> cfRecord \<Rightarrow> string \<Rightarrow> RecordConfig outcome" where
  "cloudflare_nativeToRecord M c0 domain =
     (let c1 = (if cf_Type c0 = ''CNAME'' \<or> cf_Type c0 = ''MX'' \<or> cf_Type c0 = ''NS''
                   \<or> cf_Type c0 = ''SRV''
                then c0\<lparr>cf_Content := AddOrigin M (cf_Content c0 @ ''.'') domain\<rparr> else c0);
          c = (if cf_Type c1 = ''SPF'' then c1\<lparr>cf_Type := ''TXT''\<rparr> else c1);
          rc = SetLabelFromFQDN M (cf_Name c) domain (emptyRecord (cf_TTL c) (CfOriginal c))
      in if cf_Type c = ''MX'' then
           (case (if cf_Priority c = [] then Some 0 else Int64 M (cf_Priority c)) of
              None \<Rightarrow> Panic ''error decoding priority from cloudflare record''
            | Some p \<Rightarrow>
                (case SetTargetMX M (word_of_int p) (cf_Content c) rc of
                   Inl err \<Rightarrow> Panic ''unparsable MX record received from cloudflare''
                 | Inr rc' \<Rightarrow> Returned rc'))
         else if cf_Type c = ''SRV'' then
           (case cf_Data c of
              None \<Rightarrow> Panic ''nil pointer dereference''
            | Some data \<Rightarrow>
                (case SetTargetSRV M (data_Priority data) (data_Weight data) (data_Port data)
                        (AddOrigin M (data_Target data @ ''.'') domain) rc of
                   Inl err \<Rightarrow> Panic ''unparsable SRV record received from cloudflare''
                 | Inr rc' \<Rightarrow> Returned rc'))
         else
           (case PopulateFromString M (cf_Type c) (cf_Content c) domain rc of
              Inl err \<Rightarrow> Panic ''unparsable record received from cloudflare''
            | Inr rc' \<Rightarrow> Returned rc'))"

section \<open>OVH\<close>

record ovhProvider =
  zones :: "string \<rightharpoonup> bool"

definition ovh_nativeToRecord ::
  "models \<Rightarrow> ovhRecord \<Rightarrow> string \<Rightarrow> RecordConfig option outcome" where
  "ovh_nativeToRecord M r origin =
     (if ovh_FieldType r = ''SOA'' then Returned None
      else
        (let rec0 = emptyRecord (word_of_int (ovh_TTL r)) (OvhOriginal r);
             rtype = (if ovh_FieldType r = ''SPF'' \<or> ovh_FieldType r = ''DKIM'' then ''TXT''
                      else ovh_FieldType r);
             rec1 = SetLabel M (ovh_SubDomain r) origin rec0
         in (case PopulateFromString M rtype (ovh_Target r) origin rec1 of
               Inl err \<Rightarrow> Panic ''unparsable record received from ovh''
             | Inr rec \<Rightarrow> Returned (Some (if TTL rec = 0 then rec\<lparr>TTL := 3600\<rparr> else rec)))))"

fun convertLoop ::
  "models \<Rightarrow> string \<Rightarrow> ovhRecord list \<Rightarrow> RecordConfig list \<Rightarrow> RecordConfig list outcome" where
  "convertLoop M origin [] actual = Returned actual"
| "convertLoop M origin (r # records) actual =
     obind (ovh_nativeToRecord M r origin) (\<lambda>rec.
       convertLoop M origin records
         (case rec of None \<Rightarrow> actual | Some rec' \<Rightarrow> actual @ [rec']))"

definition ovhDelete :: "string \<Rightarrow> Correlation \<Rightarrow> Correction outcome" where
  "ovhDelete zone del =
     (case Existing del of
        None \<Rightarrow> Panic ''nil pointer dereference''
      | Some ex \<Rightarrow>
          (case Original ex of
             OvhOriginal rec \<Rightarrow> Returned \<lparr>Msg = String del, F = DeleteRecordFunc (ovh_ID rec) zone\<rparr>
           | _ \<Rightarrow> Panic ''interface conversion''))"

fun ovhDeleteLoop ::
  "string \<Rightarrow> Correlation list \<Rightarrow> Correction list \<Rightarrow> Correction list outcome" where
  "ovhDeleteLoop zone [] corrections = Returned corrections"
| "ovhDeleteLoop zone (del # rest) corrections =
     obind (ovhDelete zone del) (\<lambda>c. ovhDeleteLoop zone rest (corrections @ [c]))"

text \<open>
  \<^verbatim>\<open>rec := cre.Desired\<close> and \<^verbatim>\<open>newR := mod.Desired\<close> copy a pointer that the loop
  never reads through, so the closures capture it as it is.
\<close>

definition ovhCreate :: "string \<Rightarrow> Correlation \<Rightarrow> Correction outcome" where
  "ovhCreate zone cre = Returned \<lparr>Msg = String cre, F = CreateRecordFunc (Desired cre) zone\<rparr>"

fun ovhCreateLoop ::
  "string \<Rightarrow> Correlation list \<Rightarrow> Correction list \<Rightarrow> Correction list outcome" where
  "ovhCreateLoop zone [] corrections = Returned corrections"
| "ovhCreateLoop zone (cre # rest) corrections =
     obind (ovhCreate zone cre) (\<lambda>c. ovhCreateLoop zone rest (corrections @ [c]))"

definition ovhModify :: "string \<Rightarrow> Correlation \<Rightarrow> Correction outcome" where
  "ovhModify zone m =
     (case Existing m of
        None \<Rightarrow> Panic ''nil pointer dereference''
      | Some ex \<Rightarrow>
          (case Original ex of
             OvhOriginal oldR \<Rightarrow>
               Returned \<lparr>Msg = String m, F = UpdateRecordFunc oldR (Desired m) zone\<rparr>
           | _ \<Rightarrow> Panic ''interface conversion''))"

fun ovhModifyLoop ::
  "string \<Rightarrow> Correlation list \<Rightarrow> Correction list \<Rightarrow> Correction list outcome" where
  "ovhModifyLoop zone [] corrections = Returned corrections"
| "ovhModifyLoop zone (m # rest) corrections =
     obind (ovhModify zone m) (\<lambda>c. ovhModifyLoop zone rest (corrections @ [c]))"

definition refreshCorrection :: "string \<Rightarrow> Correction" where
  "refreshCorrection zone = \<lparr>Msg = ''REFRESH zone '' @ zone, F = RefreshZone zone\<rparr>"

definition addRefresh :: "string \<Rightarrow> Correction list \<Rightarrow> Correction list" where
  "addRefresh zone corrections =
     (if length corrections > 0 then corrections @ [refreshCorrection zone] else corrections)"

definition ovhBuildPlan ::
  "string \<Rightarrow> Correlation list \<Rightarrow> Correlation list \<Rightarrow> Correlation list \<Rightarrow> Correction list outcome" where
  "ovhBuildPlan zone del create modify =
     obind (ovhDeleteLoop zone del []) (\<lambda>cs1.
       obind (ovhCreateLoop zone create cs1) (\<lambda>cs2.
         ovhModifyLoop zone modify cs2))"

text \<open>
  \<^verbatim>\<open>GetDomainCorrections\<close> in two parts, as for Cloudflare, written for any differ
  that \<^verbatim>\<open>diff.New(dc)\<close> may return: \<open>ovhDiffWith\<close> runs up to the call of the differ and
  returns the zone name after \<^verbatim>\<open>dc.Punycode()\<close> with the differ's four lists. \<open>ovhDiff\<close>
  and \<open>ovh_GetDomainCorrections\<close> are the two with the differ of section 4.2 of the
  specification, which has no comparator here.
\<close>

definition ovhDiffWith ::
  "(RecordConfig list \<Rightarrow> RecordConfig list \<Rightarrow> diffResult)
     \<Rightarrow> models \<Rightarrow> (string \<Rightarrow> error + ovhRecord list) \<Rightarrow> ovhProvider \<Rightarrow> DomainConfig
     \<Rightarrow> (string \<times> Correlation list \<times> Correlation list \<times> Correlation list
          \<times> Correlation list) outcome" where
  "ovhDiffWith differ M fetchRecords c dc0 =
     (let dc = Punycode M dc0
      in if \<not> (case zones c (dc_Name dc) of None \<Rightarrow> False | Some b \<Rightarrow> b)
         then Failed (ErrNoExist (dc_Name dc))
         else (case fetchRecords (dc_Name dc) of
                 Inl err \<Rightarrow> Failed err
               | Inr records \<Rightarrow>
                   obind (convertLoop M (dc_Name dc) records []) (\<lambda>actual.
                     obind (differ (Records dc) (map (PostProcessRecord M) actual))
                       (\<lambda>parts. Returned (dc_Name dc, parts)))))"

definition ovh_GetDomainCorrectionsWith ::
  "(RecordConfig list \<Rightarrow> RecordConfig list \<Rightarrow> diffResult)
     \<Rightarrow> models \<Rightarrow> (string \<Rightarrow> error + ovhRecord list) \<Rightarrow> ovhProvider \<Rightarrow> DomainConfig
     \<Rightarrow> Correction list outcome" where
  "ovh_GetDomainCorrectionsWith differ M fetchRecords c dc0 =
     obind (ovhDiffWith differ M fetchRecords c dc0) (\<lambda>(zone, unchanged, create, del, modify).
       obind (ovhBuildPlan zone del create modify) (\<lambda>corrections.
         Returned (addRefresh zone corrections)))"

definition ovhDiff ::
  "models \<Rightarrow> (string \<Rightarrow> error + ovhRecord list) \<Rightarrow> ovhProvider \<Rightarrow> DomainConfig
     \<Rightarrow> (string \<times> Correlation list \<times> Correlation list \<times> Correlation list
          \<times> Correlation list) outcome" where
  "ovhDiff M fetchRecords c dc0 =
     ovhDiffWith (IncrementalDiff (\<lambda>r. Returned ())) M fetchRecords c dc0"

definition ovh_GetDomainCorrections ::
  "models \<Rightarrow> (string \<Rightarrow> error + ovhRecord list) \<Rightarrow> ovhProvider \<Rightarrow> DomainConfig
     \<Rightarrow> Correction list outcome" where
  "ovh_GetDomainCorrections M fetchRecords c dc0 =
     ovh_GetDomainCorrectionsWith (IncrementalDiff (\<lambda>r. Returned ())) M fetchRecords c dc0"

section \<open>The SPF parser\<close>

datatype SPFRecord = SPFRecord (Parts: "SPFPart list")
and SPFPart =
  SPFPart (Text: string) (IsLookup: bool) (IncludeRecord: "SPFRecord option")
    (IncludeDomain: string)

definition qualifiers :: "char \<Rightarrow> bool" where
  "qualifiers c = (c = CHR ''?'' \<or> c = CHR ''~'' \<or> c = CHR ''-'' \<or> c = CHR ''+'')"

text \<open>
  \<^verbatim>\<open>Parse\<close> calls itself for every include it resolves, and nothing in it bounds the
  nesting. The model counts the nesting: the first argument is the number of nested
  calls of \<^verbatim>\<open>Parse\<close> still allowed, and \<open>None\<close> says that this number did not
  suffice. The resolver is \<^verbatim>\<open>dnsres.GetSPF\<close>, or \<open>None\<close> for a nil resolver.
  \<open>parseLoop\<close> is the loop over \<^verbatim>\<open>parts[1:]\<close>: \<open>len\<close> is \<^verbatim>\<open>len(parts)\<close>, \<open>pi\<close>
  the loop index, \<open>acc\<close> the parts appended to \<^verbatim>\<open>rec.Parts\<close> so far.
\<close>

fun Parse ::
  "nat \<Rightarrow> string \<Rightarrow> (string \<Rightarrow> error + string) option \<Rightarrow> (error + SPFRecord) option"
and parseLoop ::
  "nat \<Rightarrow> (string \<Rightarrow> error + string) option \<Rightarrow> nat \<Rightarrow> nat \<Rightarrow> string list \<Rightarrow> SPFPart list
     \<Rightarrow> (error + SPFRecord) option" where
  "Parse 0 text dnsres = None"
| "Parse (Suc n) text dnsres =
     (if \<not> HasPrefix text ''v=spf1 '' then Some (Inl NotAnSpfRecord)
      else parseLoop n dnsres (length (Split text (CHR '' ''))) 0
             (tl (Split text (CHR '' ''))) [])"
| "parseLoop n dnsres len pi [] acc = Some (Inr (SPFRecord acc))"
| "parseLoop n dnsres len pi (part0 # rest) acc =
     (if part0 = [] then parseLoop n dnsres len (pi + 1) rest acc
      else
        (let part = (if qualifiers (hd part0) then tl part0 else part0)
         in if part = ''all'' then Some (Inr (SPFRecord (acc @ [SPFPart part0 False None []])))
            else if HasPrefix part ''a'' \<or> HasPrefix part ''mx'' then
              parseLoop n dnsres len (pi + 1) rest (acc @ [SPFPart part0 True None []])
            else if HasPrefix part ''ip4:'' \<or> HasPrefix part ''ip6:'' then
              parseLoop n dnsres len (pi + 1) rest (acc @ [SPFPart part0 False None []])
            else if HasPrefix part ''include:'' \<or> HasPrefix part ''redirect:'' then
              (if HasPrefix part ''redirect:'' \<and> pi + 2 \<noteq> len then Some (Inl (MustBeLast part))
               else
                 (let dom = (if HasPrefix part ''redirect:'' then TrimPrefix part ''redirect:''
                             else TrimPrefix part ''include:'')
                  in (case dnsres of
                        None \<Rightarrow>
                          parseLoop n dnsres len (pi + 1) rest (acc @ [SPFPart part0 True None dom])
                      | Some getSPF \<Rightarrow>
                          (case getSPF dom of
                             Inl err \<Rightarrow> Some (Inl err)
                           | Inr subRecord \<Rightarrow>
                               (case Parse n subRecord dnsres of
                                  None \<Rightarrow> None
                                | Some (Inl err) \<Rightarrow> Some (Inl (InIncludedSpf err))
                                | Some (Inr sub) \<Rightarrow>
                                    parseLoop n dnsres len (pi + 1) rest
                                      (acc @ [SPFPart part0 True (Some sub) dom]))))))
            else if HasPrefix part ''exists:'' \<or> HasPrefix part ''ptr:'' then
              parseLoop n dnsres len (pi + 1) rest (acc @ [SPFPart part0 True None []])
            else Some (Inl (UnsupportedPart part))))"

section \<open>Concrete inputs\<close>

text \<open>
  Stand-ins for the functions of other packages, simple enough to run, and a few zones
  and records; the statements below are evaluated on them.
\<close>

definition digitValue :: "char \<Rightarrow> int option" where
  "digitValue c = map_of (zip ''0123456789'' [0, 1, 2, 3, 4, 5, 6, 7, 8, 9]) c"

fun parseDecimal :: "string \<Rightarrow> int \<Rightarrow> int option" where
  "parseDecimal [] acc = Some acc"
| "parseDecimal (c # cs) acc =
     (case digitValue c of None \<Rightarrow> None | Some d \<Rightarrow> parseDecimal cs (10 * acc + d))"

definition plainModels :: models where
  "plainModels =
     \<lparr>SetLabel = (\<lambda>short origin r.
        r\<lparr>Name := short, NameFQDN := (if short = ''@'' then origin else short @ ''.'' @ origin)\<rparr>),
      SetLabelFromFQDN = (\<lambda>fqdn origin r. r\<lparr>Name := fqdn, NameFQDN := fqdn\<rparr>),
      PopulateFromString = (\<lambda>rtype contents origin r.
        if contents = [] then Inl (External ''empty target'')
        else Inr (r\<lparr>Type := rtype, Target := contents\<rparr>)),
      SetTargetMX = (\<lambda>pref target r. Inr (r\<lparr>Type := ''MX'', Target := target\<rparr>)),
      SetTargetSRV = (\<lambda>prio weight port target r. Inr (r\<lparr>Type := ''SRV'', Target := target\<rparr>)),
      PostProcessRecord = (\<lambda>r. r),
      Punycode = (\<lambda>dc. dc),
      TrimDomainName = (\<lambda>s origin. if s = origin then ''@'' else s),
      AddOrigin = (\<lambda>s origin. s),
      Int64 = (\<lambda>s. if s = [] then None else parseDecimal s 0)\<rparr>"

definition noConversions :: "string iplib" where
  "noConversions =
     \<lparr>ParseIP = (\<lambda>s. if s = [] then None else Some s), TransformIP = Inr, IPString = (\<lambda>ip. ip)\<rparr>"

definition cfApi :: CloudflareApi where
  "cfApi =
     \<lparr>domainIndex = Some (Map.empty(''example.com'' \<mapsto> ''zone1'')), ignoredLabels = [''skip''],
      manageRedirects = True\<rparr>"

definition desiredRecord :: "string \<Rightarrow> string \<Rightarrow> string \<Rightarrow> uint32 \<Rightarrow> RecordConfig" where
  "desiredRecord ty label target ttl =
     \<lparr>Type = ty, Name = label,
      NameFQDN = (if label = ''@'' then ''example.com'' else label @ ''.example.com''),
      Target = target, TTL = ttl, Metadata = Map.empty, Original = NoOriginal\<rparr>"

definition zoneOf :: "RecordConfig list \<Rightarrow> DomainConfig" where
  "zoneOf recs = \<lparr>dc_Name = ''example.com'', dc_Metadata = Map.empty, Records = recs\<rparr>"

definition apexNS :: RecordConfig where
  "apexNS = desiredRecord ''NS'' ''@'' ''amy.ns.cloudflare.com.'' 300"

definition ovhNative :: ovhRecord where
  "ovhNative =
     \<lparr>ovh_ID = 7, ovh_FieldType = ''A'', ovh_SubDomain = ''www'', ovh_Target = ''192.0.2.1'',
      ovh_TTL = 0\<rparr>"

definition ttlZone :: DomainConfig where
  "ttlZone =
     zoneOf [desiredRecord ''A'' ''www'' ''192.0.2.1'' 0, desiredRecord ''TXT'' ''t'' ''hello'' 60]"

definition withProxy :: "string \<Rightarrow> RecordConfig \<Rightarrow> RecordConfig" where
  "withProxy v r = r\<lparr>Metadata := (Metadata r)(''cloudflare_proxy'' \<mapsto> v)\<rparr>"

definition ovhCanon :: RecordConfig where
  "ovhCanon =
     \<lparr>Type = ''A'', Name = ''www'', NameFQDN = ''www.example.com'', Target = ''192.0.2.1'',
      TTL = 3600, Metadata = Map.empty, Original = OvhOriginal ovhNative\<rparr>"

definition validProxy :: "string \<Rightarrow> bool" where
  "validProxy v = (v = ''on'' \<or> v = ''off'' \<or> v = ''full'')"

definition shiftConversion :: "string iplib" where
  "shiftConversion =
     \<lparr>ParseIP = (\<lambda>s. if s = [] then None else Some s),
      TransformIP = (\<lambda>ip. Inr (if ip = ''192.0.2.1'' then ''198.51.100.1'' else ip)),
      IPString = (\<lambda>ip. ip)\<rparr>"

definition withOriginalIP :: "string \<Rightarrow> RecordConfig \<Rightarrow> RecordConfig" where
  "withOriginalIP v r = r\<lparr>Metadata := (Metadata r)(''original_ip'' \<mapsto> v)\<rparr>"

definition redirectZone :: DomainConfig where
  "redirectZone =
     zoneOf [desiredRecord ''CF_REDIRECT'' ''@'' ''example.com/old,example.com/new'' 300,
             desiredRecord ''A'' ''www'' ''192.0.2.1'' 300,
             desiredRecord ''CF_TEMP_REDIRECT'' ''@'' ''example.com/tmp,example.com/new'' 300]"

definition proxiedZone :: DomainConfig where
  "proxiedZone =
     zoneOf [withProxy ''ON'' (desiredRecord ''A'' ''www'' ''192.0.2.1'' 300),
             withProxy ''full'' (desiredRecord ''A'' ''app'' ''192.0.2.2'' 600),
             desiredRecord ''CNAME'' ''mail'' ''mx.example.net.'' 30]"

definition cycleResolver :: "string \<Rightarrow> error + string" where
  "cycleResolver domain =
     (if domain = ''a.example'' then Inr ''v=spf1 include:b.example''
      else Inr ''v=spf1 include:a.example'')"

definition flatResolver :: "string \<Rightarrow> error + string" where
  "flatResolver domain = Inr ''v=spf1 ip4:192.0.2.0/24 -all''"

section \<open>Notions used in the statements\<close>

text \<open>
  An actual record is ignored when the label of its native record, trimmed of the zone
  name, is on the provider's ignore list.
\<close>

definition ignoredActual ::
  "(string \<Rightarrow> string \<Rightarrow> string) \<Rightarrow> string list \<Rightarrow> string \<Rightarrow> RecordConfig \<Rightarrow> bool" where
  "ignoredActual trim ignored zone r =
     (case Original r of
        CfOriginal e \<Rightarrow> trim (cf_Name e) zone \<in> set ignored
      | _ \<Rightarrow> False)"

definition isCloudflareRecord :: "RecordConfig \<Rightarrow> bool" where
  "isCloudflareRecord r = (case Original r of CfOriginal e \<Rightarrow> True | _ \<Rightarrow> False)"

text \<open>
  The configured Universal SSL value as the configuration states it: nothing, on or off.
  The value is read without regard to case, as \<^verbatim>\<open>preprocessConfig\<close> validates it. The
  zone's setting differs from it when a value is configured, the setting could be read,
  and the two are not the same.
\<close>

definition configuredUniversalSSL :: "DomainConfig \<Rightarrow> bool option" where
  "configuredUniversalSSL dc =
     (let u = meta (dc_Metadata dc) metaUniversalSSL
      in if u = [] then None else Some (ToLower u = ''on''))"

definition universalSSLDiffers :: "error + bool \<Rightarrow> DomainConfig \<Rightarrow> bool" where
  "universalSSLDiffers answer dc =
     (case (configuredUniversalSSL dc, answer) of
        (Some expected, Inr actual) \<Rightarrow> actual \<noteq> expected
      | _ \<Rightarrow> False)"

text \<open>The category of a correction, as a number: deletes, creates, modifies, zone.\<close>

definition categoryRank :: "Correction \<Rightarrow> nat" where
  "categoryRank c = rank (categoryOf (F c))"



definition ovhAccount :: ovhProvider where
  "ovhAccount = \<lparr>zones = Map.empty(''example.com'' \<mapsto> True)\<rparr>"

definition cfNative :: cfRecord where
  "cfNative =
     \<lparr>cf_ID = ''rec1'', cf_Type = ''A'', cf_Name = ''old.example.com'',
      cf_Content = ''192.0.2.9'', cf_Proxiable = True, cf_Proxied = False, cf_TTL = 1,
      cf_Data = None, cf_Priority = []\<rparr>"

definition cfActual :: RecordConfig where
  "cfActual =
     \<lparr>Type = ''A'', Name = ''old'', NameFQDN = ''old.example.com'', Target = ''192.0.2.9'',
      TTL = 1, Metadata = Map.empty, Original = CfOriginal cfNative\<rparr>"

definition cfAnswers :: "RecordConfig list \<Rightarrow> bool \<Rightarrow> cfEnv" where
  "cfAnswers records ssl =
     \<lparr>fetchDomainList = Inl (External ''not asked''),
      getRecordsForDomain = (\<lambda>zid zone. Returned records),
      getPageRules = (\<lambda>zid zone. Returned []),
      getUniversalSSL = (\<lambda>zid. Inr ssl)\<rparr>"

definition sslZone :: DomainConfig where
  "sslZone =
     \<lparr>dc_Name = ''example.com'',
      dc_Metadata = Map.empty(''cloudflare_universalssl'' \<mapsto> ''on''), Records = []\<rparr>"





text \<open>
  A provider with two ignored labels, and a provider's API whose list of records cannot
  be fetched.
\<close>

definition cfIgnoring :: CloudflareApi where
  "cfIgnoring = cfApi\<lparr>ignoredLabels := [''private'', ''skip'']\<rparr>"

definition cfFetchFails :: cfEnv where
  "cfFetchFails =
     (cfAnswers [] True)
       \<lparr>getRecordsForDomain := (\<lambda>zid zone. Failed (External ''connection refused''))\<rparr>"

text \<open>A zone without records whose Universal SSL value is written in capitals.\<close>

definition sslOffZone :: DomainConfig where
  "sslOffZone =
     \<lparr>dc_Name = ''example.com'',
      dc_Metadata = Map.empty(''cloudflare_universalssl'' \<mapsto> ''OFF''), Records = []\<rparr>"

definition cfSkipped :: RecordConfig where
  "cfSkipped =
     \<lparr>Type = ''A'', Name = ''skip'', NameFQDN = ''skip.example.com'', Target = ''192.0.2.7'',
      TTL = 1, Metadata = Map.empty,
      Original = CfOriginal (cfNative\<lparr>cf_ID := ''rec2'', cf_Name := ''skip'',
                                        cf_Content := ''192.0.2.7''\<rparr>)\<rparr>"

text \<open>Two records that differ at most in their TTL.\<close>

definition ttlVariant :: "RecordConfig \<Rightarrow> RecordConfig \<Rightarrow> bool" where
  "ttlVariant r r2 = (\<exists>t. r2 = r\<lparr>TTL := t\<rparr>)"

definition cfProxied :: RecordConfig where
  "cfProxied =
     \<lparr>Type = ''A'', Name = ''www'', NameFQDN = ''www.example.com'', Target = ''192.0.2.1'',
      TTL = 1, Metadata = Map.empty,
      Original = CfOriginal (cfNative\<lparr>cf_ID := ''rec3'', cf_Name := ''www.example.com'',
                                        cf_Content := ''192.0.2.1'', cf_Proxied := True\<rparr>)\<rparr>"

text \<open>The record that OVH's conversion yields for a native record, if it yields one.\<close>

definition converted :: "models \<Rightarrow> string \<Rightarrow> ovhRecord \<Rightarrow> RecordConfig option" where
  "converted M origin r =
     (case ovh_nativeToRecord M r origin of Returned (Some rec) \<Rightarrow> Some rec | _ \<Rightarrow> None)"



section \<open>The passes with the differ of the specification\<close>

text \<open>The two passes with the differ of section 4.2, written out.\<close>

lemma cloudflareDiff_unfold:
  "cloudflareDiff L M env c dc0 zid =
     (case preprocessConfig L c dc0 of
        Inl err \<Rightarrow> Failed err
      | Inr dc1 \<Rightarrow>
          obind (actualRecords M env c zid (dc_Name dc1)) (\<lambda>records.
            obind (forceLoop (ignoredLabels c) (Records dc1)) (\<lambda>recs.
              (let dc2 = snd (checkNSModifications (dc1\<lparr>Records := recs\<rparr>))
               in obind (IncrementalDiff getProxyMetadata (Records dc2)
                          (map (PostProcessRecord M) records))
                    (\<lambda>parts. Returned (dc2, parts))))))"
  by (simp add: cloudflareDiff_def cloudflareDiffWith_def)

lemma cloudflare_GetDomainCorrections_unfold:
  "cloudflare_GetDomainCorrections L M env c dc0 =
     obind (lookupZone env c (dc_Name dc0)) (\<lambda>zid.
       obind (cloudflareDiff L M env c dc0 zid) (\<lambda>(dc2, unchanged, create, del, modify).
         obind (buildPlan zid del create modify) (\<lambda>corrections.
           Returned (addUniversalSSL (getUniversalSSL env zid) dc2 zid corrections))))"
  by (simp add: cloudflare_GetDomainCorrections_def cloudflare_GetDomainCorrectionsWith_def
      cloudflareDiff_def)

lemma ovhDiff_unfold:
  "ovhDiff M fetchRecords c dc0 =
     (let dc = Punycode M dc0
      in if \<not> (case zones c (dc_Name dc) of None \<Rightarrow> False | Some b \<Rightarrow> b)
         then Failed (ErrNoExist (dc_Name dc))
         else (case fetchRecords (dc_Name dc) of
                 Inl err \<Rightarrow> Failed err
               | Inr records \<Rightarrow>
                   obind (convertLoop M (dc_Name dc) records []) (\<lambda>actual.
                     obind (IncrementalDiff (\<lambda>r. Returned ()) (Records dc)
                              (map (PostProcessRecord M) actual))
                       (\<lambda>parts. Returned (dc_Name dc, parts)))))"
  by (simp add: ovhDiff_def ovhDiffWith_def)

lemma ovh_GetDomainCorrections_unfold:
  "ovh_GetDomainCorrections M fetchRecords c dc0 =
     obind (ovhDiff M fetchRecords c dc0) (\<lambda>(zone, unchanged, create, del, modify).
       obind (ovhBuildPlan zone del create modify) (\<lambda>corrections.
         Returned (addRefresh zone corrections)))"
  by (simp add: ovh_GetDomainCorrections_def ovh_GetDomainCorrectionsWith_def ovhDiff_def)

section \<open>Properties of the normalizer\<close>

lemma lowerChar_idem: "lowerChar (lowerChar c) = lowerChar c"
  by (auto simp: lowerChar_def)

lemma ToLower_idem: "ToLower (ToLower s) = ToLower s"
  by (simp add: ToLower_def lowerChar_idem)

lemma normalizeTTL_cases:
  "normalizeTTL t = (if t = 0 \<or> t = 300 \<or> t = 1 then 1 else if t < 120 then 120 else t)"
  by (auto simp: normalizeTTL_def Let_def)

lemma normalizeTTL_idem: "normalizeTTL (normalizeTTL t) = normalizeTTL t"
  by (auto simp: normalizeTTL_def Let_def)

lemma setProxy_frame:
  "setProxy dp r = Inr r' \<Longrightarrow>
     TTL r' = TTL r \<and> Type r' = Type r \<and> Name r' = Name r \<and> NameFQDN r' = NameFQDN r
     \<and> Target r' = Target r \<and> Original r' = Original r"
  by (auto simp: setProxy_def Let_def split: if_splits sum.splits)

lemma encodeRedirect_frame:
  "encodeRedirect m p r = Inr (r', p') \<Longrightarrow>
     TTL r' = TTL r \<and> Name r' = Name r \<and> NameFQDN r' = NameFQDN r
     \<and> Metadata r' = Metadata r \<and> Original r' = Original r
     \<and> p' = (if isRedirect r then p + 1 else p)"
  by (auto simp: encodeRedirect_def Let_def split: if_splits)

lemma normalizeRecord_frame:
  "normalizeRecord m dp p r = Inr (r', p') \<Longrightarrow>
     TTL r' = normalizeTTL (TTL r) \<and> Name r' = Name r \<and> NameFQDN r' = NameFQDN r
     \<and> Original r' = Original r \<and> p' = (if isRedirect r then p + 1 else p)"
  by (auto simp: normalizeRecord_def isRedirect_def split: sum.splits
      dest!: setProxy_frame encodeRedirect_frame)

lemma transformRecord_frame:
  "transformRecord L r = Inr r' \<Longrightarrow>
     TTL r' = TTL r \<and> Type r' = Type r \<and> Name r' = Name r \<and> NameFQDN r' = NameFQDN r
     \<and> Original r' = Original r \<and> meta (Metadata r') metaProxy = meta (Metadata r) metaProxy"
  by (auto simp: transformRecord_def meta_def metaProxy_def metaOriginalIP_def
      split: if_splits option.splits sum.splits)

lemma transformLoop_all2:
  "transformLoop L recs = Inr recs' \<longleftrightarrow>
     list_all2 (\<lambda>r r'. transformRecord L r = Inr r') recs recs'"
proof (induction recs arbitrary: recs')
  case Nil
  show ?case by auto
next
  case (Cons r recs)
  show ?case
  proof (cases "transformRecord L r")
    case (Inl e)
    then show ?thesis by (auto simp: list_all2_Cons1)
  next
    case (Inr a)
    show ?thesis
    proof (cases "transformLoop L recs")
      case (Inl e)
      then have "\<not> list_all2 (\<lambda>r r'. transformRecord L r = Inr r') recs ys" for ys
        using Cons.IH[of ys] by simp
      then show ?thesis using Inl Inr by (auto simp: list_all2_Cons1)
    next
      case (Inr as)
      then have "list_all2 (\<lambda>r r'. transformRecord L r = Inr r') recs ys \<longleftrightarrow> ys = as" for ys
        using Cons.IH[of ys] by auto
      then show ?thesis
        using Inr \<open>transformRecord L r = Inr a\<close> by (auto simp: list_all2_Cons1)
    qed
  qed
qed

text \<open>
  The first loop, read off its result: the record at index \<open>i\<close> is normalized with the
  priority counter advanced once for every redirect record behind it.
\<close>

lemma normalizeLoop_spec:
  "normalizeLoop m dp prio recs n = Inr recs' \<Longrightarrow> n \<le> length recs \<Longrightarrow>
     length recs' = length recs \<and>
     (\<forall>i<n. \<exists>p'. normalizeRecord m dp
                (prio + length (filter isRedirect (drop (Suc i) (take n recs))))
                (recs ! i) = Inr (recs' ! i, p')) \<and>
     (\<forall>i. n \<le> i \<longrightarrow> i < length recs \<longrightarrow> recs' ! i = recs ! i)"
proof (induction n arbitrary: prio recs)
  case 0
  then show ?case by simp
next
  case (Suc n)
  from Suc.prems obtain r p1 where
    step: "normalizeRecord m dp prio (recs ! n) = Inr (r, p1)" and
    rest: "normalizeLoop m dp p1 (recs[n := r]) n = Inr recs'"
    by (auto split: sum.splits)
  have n: "n < length recs" using Suc.prems by simp
  have p1: "p1 = (if isRedirect (recs ! n) then prio + 1 else prio)"
    using normalizeRecord_frame[OF step] by simp
  from Suc.IH[OF rest] n
  have len: "length recs' = length recs"
    and low: "\<forall>i<n. \<exists>p'. normalizeRecord m dp
                (p1 + length (filter isRedirect (drop (Suc i) (take n (recs[n := r])))))
                ((recs[n := r]) ! i) = Inr (recs' ! i, p')"
    and high: "\<forall>i. n \<le> i \<longrightarrow> i < length recs \<longrightarrow> recs' ! i = (recs[n := r]) ! i"
    by auto
  have cnt: "p1 + length (filter isRedirect (drop (Suc i) (take n recs)))
           = prio + length (filter isRedirect (drop (Suc i) (take (Suc n) recs)))"
    if "i < n" for i
    using that n p1 by (simp add: take_Suc_conv_app_nth)
  have "\<exists>p'. normalizeRecord m dp
                (prio + length (filter isRedirect (drop (Suc i) (take (Suc n) recs))))
                (recs ! i) = Inr (recs' ! i, p')" if i: "i < Suc n" for i
  proof (cases "i = n")
    case True
    have "recs' ! n = r" using high n by simp
    then show ?thesis using step True n by simp
  next
    case False
    then have "i < n" using i by simp
    then show ?thesis using low cnt[of i] by auto
  qed
  moreover have "recs' ! i = recs ! i" if "Suc n \<le> i" "i < length recs" for i
    using high that by simp
  ultimately show ?case using len by blast
qed

text \<open>What a successful \<^verbatim>\<open>preprocessConfig\<close> did, record by record.\<close>

lemma preprocessConfig_spec:
  assumes "preprocessConfig L c dc = Inr dc'"
  shows "\<exists>dp recs.
           defaultProxy dc = Inr dp \<and> \<not> badUniversalSSL dc \<and>
           length recs = length (Records dc) \<and>
           length (Records dc') = length (Records dc) \<and>
           dc' = dc\<lparr>Records := Records dc'\<rparr> \<and>
           (\<forall>i<length (Records dc).
              (\<exists>p'. normalizeRecord (manageRedirects c) dp
                       (1 + length (filter isRedirect (drop (Suc i) (Records dc))))
                       (Records dc ! i) = Inr (recs ! i, p')) \<and>
              transformRecord L (recs ! i) = Inr (Records dc' ! i))"
proof -
  from assms obtain dp recs where
    dp: "defaultProxy dc = Inr dp" and ssl: "\<not> badUniversalSSL dc" and
    loop: "normalizeLoop (manageRedirects c) dp 1 (Records dc) (length (Records dc)) = Inr recs"
    and tr: "transformLoop L recs = Inr (Records dc')" and eq: "dc' = dc\<lparr>Records := Records dc'\<rparr>"
    by (auto simp: preprocessConfig_def split: sum.splits if_splits)
  from normalizeLoop_spec[OF loop]
  have len: "length recs = length (Records dc)"
    and each: "\<forall>i<length (Records dc). \<exists>p'. normalizeRecord (manageRedirects c) dp
                (1 + length (filter isRedirect (drop (Suc i) (Records dc))))
                (Records dc ! i) = Inr (recs ! i, p')"
    by auto
  from tr have all2: "list_all2 (\<lambda>r r'. transformRecord L r = Inr r') recs (Records dc')"
    by (simp add: transformLoop_all2)
  have "transformRecord L (recs ! i) = Inr (Records dc' ! i)" if "i < length (Records dc)" for i
    using list_all2_nthD[OF all2] that len by simp
  then show ?thesis
    using dp ssl len each list_all2_lengthD[OF all2] eq by (intro exI[of _ dp] exI[of _ recs]) auto
qed

lemma preprocessConfig_TTL:
  assumes "preprocessConfig L c dc = Inr dc'"
  shows "map TTL (Records dc') = map (\<lambda>r. normalizeTTL (TTL r)) (Records dc)"
proof -
  from preprocessConfig_spec[OF assms] obtain dp recs where
    len: "length (Records dc') = length (Records dc)" and
    each: "\<forall>i<length (Records dc).
              (\<exists>p'. normalizeRecord (manageRedirects c) dp
                       (1 + length (filter isRedirect (drop (Suc i) (Records dc))))
                       (Records dc ! i) = Inr (recs ! i, p')) \<and>
              transformRecord L (recs ! i) = Inr (Records dc' ! i)"
    by blast
  show ?thesis
  proof (rule nth_equalityI)
    show "length (map TTL (Records dc')) = length (map (\<lambda>r. normalizeTTL (TTL r)) (Records dc))"
      using len by simp
  next
    fix i assume "i < length (map TTL (Records dc'))"
    then have i: "i < length (Records dc)" using len by simp
    from each i obtain p' where
      n: "normalizeRecord (manageRedirects c) dp
            (1 + length (filter isRedirect (drop (Suc i) (Records dc)))) (Records dc ! i)
          = Inr (recs ! i, p')"
      and t: "transformRecord L (recs ! i) = Inr (Records dc' ! i)"
      by blast
    have "TTL (Records dc' ! i) = normalizeTTL (TTL (Records dc ! i))"
      using normalizeRecord_frame[OF n] transformRecord_frame[OF t] by simp
    then show "map TTL (Records dc') ! i = map (\<lambda>r. normalizeTTL (TTL r)) (Records dc) ! i"
      using i len by simp
  qed
qed

lemma ovh_nativeToRecord_TTL:
  assumes "\<forall>short origin r. TTL (SetLabel M short origin r) = TTL r"
    and "\<forall>rtype contents origin r r'.
           PopulateFromString M rtype contents origin r = Inr r' \<longrightarrow> TTL r' = TTL r"
    and "ovh_nativeToRecord M r origin = Returned (Some rec)"
  shows "TTL rec = (if (word_of_int (ovh_TTL r) :: uint32) = 0 then 3600
                    else word_of_int (ovh_TTL r))"
proof -
  from assms(3) obtain rec' where
    pop: "PopulateFromString M
            (if ovh_FieldType r = ''SPF'' \<or> ovh_FieldType r = ''DKIM'' then ''TXT''
             else ovh_FieldType r)
            (ovh_Target r) origin
            (SetLabel M (ovh_SubDomain r) origin
               (emptyRecord (word_of_int (ovh_TTL r)) (OvhOriginal r))) = Inr rec'"
    and rec: "rec = (if TTL rec' = 0 then rec'\<lparr>TTL := 3600\<rparr> else rec')"
    by (auto simp: ovh_nativeToRecord_def Let_def split: if_splits sum.splits)
  have "TTL rec' = word_of_int (ovh_TTL r)"
    using assms(1,2) pop by (simp add: emptyRecord_def)
  then show ?thesis using rec by simp
qed

text \<open>
  C2. The Cloudflare normalizer replaces each desired record's TTL by \<open>normalizeTTL\<close> of
  it: 0 and 300 become 1, 1 stays, any other TTL below 120 becomes 120, every other TTL
  stays. The OVH conversion of a native record turns a native TTL of 0 into 3600 and
  keeps every other one. Both results depend on the input TTL alone. (For OVH the
  methods of package \<^verbatim>\<open>models\<close> that the conversion calls are taken to leave the TTL
  field alone.)
\<close>

theorem ttl_normalization:
  assumes "\<forall>short origin r. TTL (SetLabel M short origin r) = TTL r"
    and "\<forall>rtype contents origin r r'.
           PopulateFromString M rtype contents origin r = Inr r' \<longrightarrow> TTL r' = TTL r"
  shows "normalizeTTL t = (if t = 0 \<or> t = 300 \<or> t = 1 then 1 else if t < 120 then 120 else t)
    \<and> (preprocessConfig L c dc = Inr dc' \<longrightarrow>
         map TTL (Records dc') = map (\<lambda>r. normalizeTTL (TTL r)) (Records dc))
    \<and> (ovh_nativeToRecord M r origin = Returned (Some rec) \<longrightarrow>
         TTL rec = (if (word_of_int (ovh_TTL r) :: uint32) = 0 then 3600
                    else word_of_int (ovh_TTL r)))"
  using normalizeTTL_cases preprocessConfig_TTL ovh_nativeToRecord_TTL[OF assms] by blast

lemmas normalizer_defs =
  preprocessConfig_def defaultProxy_def badUniversalSSL_def normalizeRecord_def setProxy_def
  encodeRedirect_def isRedirect_def transformRecord_def proxiableType_def normalizeTTL_def
  meta_def metaProxy_def metaProxyDefault_def metaUniversalSSL_def metaOriginalIP_def
  checkProxyVal_def Let_def

lemmas input_defs = zoneOf_def desiredRecord_def withProxy_def cfApi_def noConversions_def

lemma ttlZone_normalized:
  "preprocessConfig noConversions cfApi ttlZone =
     Inr (zoneOf [withProxy ''off'' (desiredRecord ''A'' ''www'' ''192.0.2.1'' 1),
                  withProxy ''off'' (desiredRecord ''TXT'' ''t'' ''hello'' 120)])"
  by (simp add: ttlZone_def normalizer_defs input_defs)

lemma ovhNative_converted:
  "ovh_nativeToRecord plainModels ovhNative ''example.com'' = Returned (Some ovhCanon)"
  by (simp add: ovh_nativeToRecord_def plainModels_def ovhNative_def ovhCanon_def
      emptyRecord_def Let_def)

theorem ttl_normalization_witness:
  "normalizeTTL 60 = 120
   \<and> preprocessConfig noConversions cfApi ttlZone =
       Inr (zoneOf [withProxy ''off'' (desiredRecord ''A'' ''www'' ''192.0.2.1'' 1),
                    withProxy ''off'' (desiredRecord ''TXT'' ''t'' ''hello'' 120)])
   \<and> map TTL (Records (zoneOf [withProxy ''off'' (desiredRecord ''A'' ''www'' ''192.0.2.1'' 1),
                    withProxy ''off'' (desiredRecord ''TXT'' ''t'' ''hello'' 120)])) =
       map (\<lambda>r. normalizeTTL (TTL r)) (Records ttlZone)
   \<and> ovh_TTL ovhNative = 0
   \<and> ovh_nativeToRecord plainModels ovhNative ''example.com'' = Returned (Some ovhCanon)
   \<and> TTL ovhCanon = 3600"
proof -
  have h1: "\<forall>short origin r. TTL (SetLabel plainModels short origin r) = TTL r"
    by (simp add: plainModels_def)
  have h2: "\<forall>rtype contents origin r r'.
              PopulateFromString plainModels rtype contents origin r = Inr r' \<longrightarrow> TTL r' = TTL r"
    by (auto simp: plainModels_def split: if_splits)
  show ?thesis
    using ttl_normalization[OF h1 h2, of 60 noConversions cfApi ttlZone _ ovhNative
        "''example.com''" ovhCanon]
      ttlZone_normalized ovhNative_converted
    by (simp add: ovhNative_def)
qed

subsection \<open>The apex NS records\<close>

lemma checkNSLoop_eq:
  "checkNSLoop zone recs warned newList =
     (warned @ map Target (filter (\<lambda>r. (Type r = ''NS'' \<and> NameFQDN r = zone)
                 \<and> \<not> HasSuffix (Target r) ''.ns.cloudflare.com.'') recs),
      newList @ filter (\<lambda>r. \<not> (Type r = ''NS'' \<and> NameFQDN r = zone)) recs)"
  by (induction recs arbitrary: warned newList) auto

lemma checkNSModifications_Records:
  "Records (snd (checkNSModifications dc)) =
     filter (\<lambda>r. \<not> (Type r = ''NS'' \<and> NameFQDN r = dc_Name dc)) (Records dc)"
  by (simp add: checkNSModifications_def checkNSLoop_eq)

lemma checkNSModifications_frame:
  "dc_Name (snd (checkNSModifications dc)) = dc_Name dc
   \<and> dc_Metadata (snd (checkNSModifications dc)) = dc_Metadata dc"
  by (simp add: checkNSModifications_def checkNSLoop_eq)

text \<open>
  C3, as the code has it. \<^verbatim>\<open>checkNSModifications\<close> removes every NS record at the zone
  apex, whatever its target: the \<^verbatim>\<open>continue\<close> follows the test of the target, which
  only decides whether a warning is printed. The warnings are those for the apex NS
  records whose target does not end in \<open>.ns.cloudflare.com.\<close>; every record that is not
  an apex NS record is kept, in its order.
\<close>

theorem checkNSModifications_drops_every_apex_NS:
  "Records (snd (checkNSModifications dc)) =
     filter (\<lambda>r. \<not> (Type r = ''NS'' \<and> NameFQDN r = dc_Name dc)) (Records dc)
   \<and> fst (checkNSModifications dc) =
       map Target (filter (\<lambda>r. (Type r = ''NS'' \<and> NameFQDN r = dc_Name dc)
                     \<and> \<not> HasSuffix (Target r) ''.ns.cloudflare.com.'') (Records dc))
   \<and> dc_Name (snd (checkNSModifications dc)) = dc_Name dc
   \<and> dc_Metadata (snd (checkNSModifications dc)) = dc_Metadata dc"
  by (simp add: checkNSModifications_def checkNSLoop_eq)

text \<open>
  C3, as the claim has it, fails: an apex NS record that points into Cloudflare's own
  nameservers is removed too, and without a warning.
\<close>

theorem apex_cloudflare_NS_is_removed:
  "Type apexNS = ''NS''
   \<and> NameFQDN apexNS = dc_Name (zoneOf [apexNS])
   \<and> HasSuffix (Target apexNS) ''.ns.cloudflare.com.''
   \<and> Records (zoneOf [apexNS]) = [apexNS]
   \<and> Records (snd (checkNSModifications (zoneOf [apexNS]))) = []
   \<and> fst (checkNSModifications (zoneOf [apexNS])) = []"
  by (simp add: checkNSModifications_def apexNS_def zoneOf_def desiredRecord_def HasSuffix_def)

subsection \<open>Redirect records\<close>

lemma Split_nonempty: "Split s sep \<noteq> []"
  by (induction s) (auto split: list.splits)

lemma Split_no_sep: "sep \<notin> set s \<Longrightarrow> Split s sep = [s]"
  by (induction s) auto

lemma Split_append_sep: "Split (a @ sep # b) sep = Split a sep @ Split b sep"
proof (induction a)
  case Nil
  show ?case by simp
next
  case (Cons c a)
  obtain p ps where "Split a sep = p # ps"
    using Split_nonempty[of a sep] by (cases "Split a sep") auto
  then show ?case using Cons by simp
qed

lemma digit_no_comma: "d < 10 \<Longrightarrow> CHR '','' \<noteq> digit d"
proof -
  assume "d < 10"
  then have "digit d \<in> set ''0123456789''"
    unfolding digit_def by (intro nth_mem) simp
  then show ?thesis by auto
qed

lemma showNat_no_comma: "CHR '','' \<notin> set (showNat n)"
proof (induction n rule: showNat.induct)
  case (1 n)
  show ?case
  proof (cases "n < 10")
    case True
    then show ?thesis by (subst showNat.simps) (simp add: digit_no_comma)
  next
    case False
    then show ?thesis using 1 by (subst showNat.simps) (simp add: digit_no_comma)
  qed
qed

lemma Split_encoded:
  "Split (t @ '','' @ showNat p @ '','' @ showNat code) (CHR '','')
     = Split t (CHR '','') @ [showNat p, showNat code]"
proof -
  have "Split (showNat p @ CHR '','' # showNat code) (CHR '','') = [showNat p, showNat code]"
    by (simp add: Split_append_sep Split_no_sep showNat_no_comma)
  then show ?thesis
    using Split_append_sep[of t "CHR '',''" "showNat p @ CHR '','' # showNat code"] by simp
qed

lemma normalizeRecord_redirect:
  assumes "normalizeRecord m dp p r = Inr (r', p')" "isRedirect r"
  shows "m \<and> length (Split (Target r) (CHR '','')) = 2 \<and> Type r' = ''PAGE_RULE''
     \<and> Target r' = Target r @ '','' @ showNat p @ '','' @
         showNat (if Type r = ''CF_TEMP_REDIRECT'' then 302 else 301)"
proof -
  from assms(1) obtain r0 where s: "setProxy dp (r\<lparr>TTL := normalizeTTL (TTL r)\<rparr>) = Inr r0"
    and e: "encodeRedirect m p r0 = Inr (r', p')"
    by (auto simp: normalizeRecord_def split: sum.splits)
  have f: "Type r0 = Type r" "Target r0 = Target r" using setProxy_frame[OF s] by simp_all
  then have "isRedirect r0" using assms(2) by (simp add: isRedirect_def)
  then show ?thesis using e f by (auto simp: encodeRedirect_def Let_def split: if_splits)
qed

lemma transformRecord_not_A: "Type r \<noteq> ''A'' \<Longrightarrow> transformRecord L r = Inr r"
  by (simp add: transformRecord_def)

text \<open>
  C5. A desired set that holds a \<open>CF_REDIRECT\<close> or \<open>CF_TEMP_REDIRECT\<close> record is
  rejected by \<^verbatim>\<open>preprocessConfig\<close> when \<open>manage_redirects\<close> is off, and when the target
  of such a record does not split into exactly two fields at its commas. When
  \<^verbatim>\<open>preprocessConfig\<close> succeeds, each such record has become a \<open>PAGE_RULE\<close> whose target
  is the old target (the two fields from and to), then the priority, then the status
  code, separated by commas: four fields. The code is 302 for \<open>CF_TEMP_REDIRECT\<close> and 301
  for \<open>CF_REDIRECT\<close>; the priority is one more than the number of redirect records
  declared after the record, so the priorities are 1, 2, 3, ... from the last declared
  redirect back to the first.
\<close>

theorem redirect_encoding:
  "(r \<in> set (Records dc) \<and> isRedirect r
      \<and> (\<not> manageRedirects c \<or> length (Split (Target r) (CHR '','')) \<noteq> 2)
      \<longrightarrow> (\<exists>err. preprocessConfig L c dc = Inl err))
   \<and> (preprocessConfig L c dc = Inr dc' \<and> i < length (Records dc) \<and> isRedirect (Records dc ! i)
      \<longrightarrow> Type (Records dc' ! i) = ''PAGE_RULE''
        \<and> Target (Records dc' ! i) =
            Target (Records dc ! i) @ '','' @
            showNat (1 + length (filter isRedirect (drop (Suc i) (Records dc)))) @ '','' @
            showNat (if Type (Records dc ! i) = ''CF_TEMP_REDIRECT'' then 302 else 301)
        \<and> Split (Target (Records dc' ! i)) (CHR '','') =
            Split (Target (Records dc ! i)) (CHR '','') @
            [showNat (1 + length (filter isRedirect (drop (Suc i) (Records dc)))),
             showNat (if Type (Records dc ! i) = ''CF_TEMP_REDIRECT'' then 302 else 301)]
        \<and> length (Split (Target (Records dc ! i)) (CHR '','')) = 2)"
proof -
  have ok: "manageRedirects c \<and> length (Split (Target (Records dc ! j)) (CHR '','')) = 2
      \<and> Type (Records dc1 ! j) = ''PAGE_RULE''
      \<and> Target (Records dc1 ! j) =
            Target (Records dc ! j) @ '','' @
            showNat (1 + length (filter isRedirect (drop (Suc j) (Records dc)))) @ '','' @
            showNat (if Type (Records dc ! j) = ''CF_TEMP_REDIRECT'' then 302 else 301)"
    if pc: "preprocessConfig L c dc = Inr dc1" and j: "j < length (Records dc)"
      and red: "isRedirect (Records dc ! j)" for dc1 j
  proof -
    from preprocessConfig_spec[OF pc] j obtain dp recs p' where
      n: "normalizeRecord (manageRedirects c) dp
            (1 + length (filter isRedirect (drop (Suc j) (Records dc)))) (Records dc ! j)
          = Inr (recs ! j, p')"
      and t: "transformRecord L (recs ! j) = Inr (Records dc1 ! j)"
      by blast
    note nr = normalizeRecord_redirect[OF n red]
    then have "Type (recs ! j) \<noteq> ''A''" by simp
    then have "Records dc1 ! j = recs ! j" using t by (simp add: transformRecord_not_A)
    then show ?thesis using nr by simp
  qed
  have first: "\<exists>err. preprocessConfig L c dc = Inl err"
    if "r \<in> set (Records dc)" "isRedirect r"
      "\<not> manageRedirects c \<or> length (Split (Target r) (CHR '','')) \<noteq> 2"
  proof (cases "preprocessConfig L c dc")
    case (Inl e)
    then show ?thesis by blast
  next
    case (Inr dc1)
    from that(1) obtain j where "j < length (Records dc)" "Records dc ! j = r"
      by (auto simp: in_set_conv_nth)
    with ok[OF Inr] that(2,3) show ?thesis by auto
  qed
  show ?thesis using first ok[of dc' i] by (auto simp: Split_encoded simp del: append.simps)
qed

lemma redirectZone_normalized:
  "preprocessConfig noConversions cfApi redirectZone =
     Inr (zoneOf [withProxy ''off''
                    (desiredRecord ''PAGE_RULE'' ''@'' ''example.com/old,example.com/new,2,301'' 1),
                  withProxy ''off'' (desiredRecord ''A'' ''www'' ''192.0.2.1'' 1),
                  withProxy ''off''
                    (desiredRecord ''PAGE_RULE'' ''@'' ''example.com/tmp,example.com/new,1,302'' 1)])"
  by (simp add: redirectZone_def normalizer_defs input_defs showNat.simps digit_def)

theorem redirect_encoding_witness:
  "preprocessConfig noConversions cfApi redirectZone =
     Inr (zoneOf [withProxy ''off''
                    (desiredRecord ''PAGE_RULE'' ''@'' ''example.com/old,example.com/new,2,301'' 1),
                  withProxy ''off'' (desiredRecord ''A'' ''www'' ''192.0.2.1'' 1),
                  withProxy ''off''
                    (desiredRecord ''PAGE_RULE'' ''@'' ''example.com/tmp,example.com/new,1,302'' 1)])
   \<and> isRedirect (Records redirectZone ! 0)
   \<and> Split ''example.com/old,example.com/new,2,301'' (CHR '','') =
       [''example.com/old'', ''example.com/new'', ''2'', ''301'']
   \<and> isRedirect (Records redirectZone ! 2)
   \<and> Split ''example.com/tmp,example.com/new,1,302'' (CHR '','') =
       [''example.com/tmp'', ''example.com/new'', ''1'', ''302'']
   \<and> (\<exists>err. preprocessConfig noConversions (cfApi\<lparr>manageRedirects := False\<rparr>) redirectZone
              = Inl err)
   \<and> (\<exists>err. preprocessConfig noConversions cfApi
               (zoneOf [desiredRecord ''CF_REDIRECT'' ''@'' ''example.com/old'' 300]) = Inl err)"
proof -
  let ?out = "zoneOf [withProxy ''off''
                    (desiredRecord ''PAGE_RULE'' ''@'' ''example.com/old,example.com/new,2,301'' 1),
                  withProxy ''off'' (desiredRecord ''A'' ''www'' ''192.0.2.1'' 1),
                  withProxy ''off''
                    (desiredRecord ''PAGE_RULE'' ''@'' ''example.com/tmp,example.com/new,1,302'' 1)]"
  let ?bad = "desiredRecord ''CF_REDIRECT'' ''@'' ''example.com/old'' 300"
  have a: "Split (Target (Records ?out ! 0)) (CHR '','') =
      [''example.com/old'', ''example.com/new'', ''2'', ''301'']"
    using redirect_encoding[of _ redirectZone cfApi noConversions ?out 0] redirectZone_normalized
    by (simp add: redirectZone_def input_defs isRedirect_def showNat.simps digit_def)
  have b: "Split (Target (Records ?out ! 2)) (CHR '','') =
      [''example.com/tmp'', ''example.com/new'', ''1'', ''302'']"
    using redirect_encoding[of _ redirectZone cfApi noConversions ?out 2] redirectZone_normalized
    by (simp add: redirectZone_def input_defs isRedirect_def showNat.simps digit_def)
  have c: "\<exists>err. preprocessConfig noConversions (cfApi\<lparr>manageRedirects := False\<rparr>) redirectZone
              = Inl err"
    using redirect_encoding[of "Records redirectZone ! 0" redirectZone
        "cfApi\<lparr>manageRedirects := False\<rparr>" noConversions]
    by (simp add: redirectZone_def input_defs isRedirect_def)
  have d: "\<exists>err. preprocessConfig noConversions cfApi (zoneOf [?bad]) = Inl err"
    using redirect_encoding[of ?bad "zoneOf [?bad]" cfApi noConversions]
    by (simp add: input_defs isRedirect_def)
  show ?thesis
    using a b c d redirectZone_normalized
    by (simp add: redirectZone_def input_defs isRedirect_def)
qed

subsection \<open>Running the normalizer twice\<close>

lemma ToLower_proxy_words:
  "ToLower ''on'' = ''on''" "ToLower ''off'' = ''off''" "ToLower ''full'' = ''full''"
  "ToLower ''ON'' = ''on''" "ToLower ''OFF'' = ''off''"
  by code_simp+

lemma checkProxyVal_valid: "checkProxyVal v = Inr v' \<Longrightarrow> validProxy v'"
  by (auto simp: checkProxyVal_def validProxy_def Let_def split: if_splits)

lemma checkProxyVal_fix: "validProxy v \<Longrightarrow> checkProxyVal v = Inr v"
  by (auto simp: checkProxyVal_def validProxy_def Let_def ToLower_proxy_words)

lemma defaultProxy_valid: "defaultProxy dc = Inr dp \<Longrightarrow> validProxy dp"
  by (auto simp: defaultProxy_def Let_def validProxy_def split: if_splits
      dest: checkProxyVal_valid)

lemma setProxy_proxiable:
  assumes "setProxy dp r = Inr r1" "proxiableType (Type r)" "validProxy dp"
  shows "\<exists>v. validProxy v \<and> r1 = r\<lparr>Metadata := (Metadata r)(metaProxy \<mapsto> v)\<rparr>"
  using assms
  by (auto simp: setProxy_def Let_def split: if_splits sum.splits dest: checkProxyVal_valid)

lemma proxiable_not_redirect: "proxiableType (Type r) \<Longrightarrow> \<not> isRedirect r"
  by (auto simp: proxiableType_def isRedirect_def)

lemma setProxy_fix:
  assumes "proxiableType (Type r)" "Metadata r metaProxy = Some v" "validProxy v"
  shows "setProxy dp r = Inr r"
proof -
  have "meta (Metadata r) metaProxy = v" using assms(2) by (simp add: meta_def)
  moreover have "v \<noteq> []" using assms(3) by (auto simp: validProxy_def)
  moreover have "(Metadata r)(metaProxy \<mapsto> v) = Metadata r"
    using assms(2) by (simp add: map_upd_triv)
  ultimately show ?thesis
    using assms(1,3) by (simp add: setProxy_def Let_def checkProxyVal_fix)
qed

lemma normalizeRecord_fix:
  assumes "proxiableType (Type r)" "Metadata r metaProxy = Some v" "validProxy v"
    "normalizeTTL (TTL r) = TTL r"
  shows "normalizeRecord m dp p r = Inr (r, p)"
proof -
  have "r\<lparr>TTL := normalizeTTL (TTL r)\<rparr> = r" using assms(4) by simp
  then show ?thesis
    using setProxy_fix[OF assms(1-3), of dp] proxiable_not_redirect[OF assms(1)]
    by (simp add: normalizeRecord_def encodeRedirect_def)
qed

lemma normalizeLoop_fix:
  "n \<le> length recs \<Longrightarrow> (\<forall>i<n. \<forall>p. normalizeRecord m dp p (recs ! i) = Inr (recs ! i, p))
     \<Longrightarrow> normalizeLoop m dp prio recs n = Inr recs"
  by (induction n arbitrary: prio) auto

lemma normalizeRecord_proxiable:
  assumes "normalizeRecord m dp p r = Inr (r1, p')" "proxiableType (Type r)" "validProxy dp"
  shows "\<exists>v. validProxy v \<and>
           r1 = r\<lparr>TTL := normalizeTTL (TTL r), Metadata := (Metadata r)(metaProxy \<mapsto> v)\<rparr>"
proof -
  from assms(1) obtain r0 where s: "setProxy dp (r\<lparr>TTL := normalizeTTL (TTL r)\<rparr>) = Inr r0"
    and e: "encodeRedirect m p r0 = Inr (r1, p')"
    by (auto simp: normalizeRecord_def split: sum.splits)
  from setProxy_proxiable[OF s] assms(2,3) obtain v where v: "validProxy v"
    and r0: "r0 = r\<lparr>TTL := normalizeTTL (TTL r), Metadata := (Metadata r)(metaProxy \<mapsto> v)\<rparr>"
    by auto
  have "\<not> isRedirect r0" using r0 assms(2) by (auto simp: proxiableType_def isRedirect_def)
  then have "r1 = r0" using e by (simp add: encodeRedirect_def)
  then show ?thesis using v r0 by blast
qed

lemma transformRecord_proxy:
  "transformRecord L r = Inr r' \<Longrightarrow> Metadata r' metaProxy = Metadata r metaProxy"
  by (auto simp: transformRecord_def metaProxy_def metaOriginalIP_def
      split: if_splits option.splits sum.splits)

lemma transformRecord_fix:
  assumes "transformRecord L r1 = Inr r'"
    and "Type r' = ''A'' \<and> meta (Metadata r') metaProxy = ''full'' \<longrightarrow> Target r' = Target r1"
  shows "transformRecord L r' = Inr r'"
proof (cases "Type r1 = ''A'' \<and> meta (Metadata r1) metaProxy = ''full''")
  case False
  then have "r' = r1" using assms(1) by (auto simp: transformRecord_def split: if_splits)
  then show ?thesis using False by (auto simp: transformRecord_def)
next
  case True
  with assms(1) obtain ip newIP where p: "ParseIP L (Target r1) = Some ip"
    and t: "TransformIP L ip = Inr newIP"
    and r': "r' = r1\<lparr>Metadata := (Metadata r1)(metaOriginalIP \<mapsto> Target r1),
                     Target := IPString L newIP\<rparr>"
    by (auto simp: transformRecord_def split: option.splits sum.splits)
  have full: "Type r' = ''A'' \<and> meta (Metadata r') metaProxy = ''full''"
    using transformRecord_frame[OF assms(1)] True by simp
  with assms(2) have tgt: "Target r' = Target r1" by simp
  then have ip: "IPString L newIP = Target r1" using r' by simp
  have "r'\<lparr>Metadata := (Metadata r')(metaOriginalIP \<mapsto> Target r'),
           Target := IPString L newIP\<rparr> = r'"
    using r' ip by simp
  then show ?thesis using full tgt p t by (simp add: transformRecord_def)
qed

text \<open>
  C4, as the code has it. If every desired record is of a type that may be proxied
  (\<open>A\<close>, \<open>AAAA\<close>, \<open>CNAME\<close>, \<open>ALIAS\<close>) and \<^verbatim>\<open>preprocessConfig\<close> succeeds, and the address
  rewrite left the target of every \<open>full\<close>-proxied \<open>A\<close> record as it was, then running
  \<^verbatim>\<open>preprocessConfig\<close> on the result succeeds and returns that same result: no field of
  no record changes.
\<close>

theorem preprocessConfig_idempotent:
  assumes ok: "preprocessConfig L c dc = Inr dc'"
    and types: "\<forall>r \<in> set (Records dc). proxiableType (Type r)"
    and full: "\<forall>i<length (Records dc).
                 Type (Records dc' ! i) = ''A''
                   \<and> meta (Metadata (Records dc' ! i)) metaProxy = ''full''
                 \<longrightarrow> Target (Records dc' ! i) = Target (Records dc ! i)"
  shows "preprocessConfig L c dc' = Inr dc'"
proof -
  from preprocessConfig_spec[OF ok] obtain dp recs where
    dp: "defaultProxy dc = Inr dp" and ssl: "\<not> badUniversalSSL dc" and
    len: "length (Records dc') = length (Records dc)" and
    eq: "dc' = dc\<lparr>Records := Records dc'\<rparr>" and
    each: "\<forall>i<length (Records dc).
              (\<exists>p'. normalizeRecord (manageRedirects c) dp
                       (1 + length (filter isRedirect (drop (Suc i) (Records dc))))
                       (Records dc ! i) = Inr (recs ! i, p')) \<and>
              transformRecord L (recs ! i) = Inr (Records dc' ! i)"
    by blast
  have meta_eq: "dc_Metadata dc' = dc_Metadata dc"
    by (subst eq) simp
  have dp': "defaultProxy dc' = Inr dp" using dp meta_eq by (simp add: defaultProxy_def)
  have ssl': "\<not> badUniversalSSL dc'" using ssl meta_eq by (simp add: badUniversalSSL_def)
  have vdp: "validProxy dp" using dp by (rule defaultProxy_valid)
  have fixd: "(\<forall>p. normalizeRecord (manageRedirects c) dp p (Records dc' ! i)
                     = Inr (Records dc' ! i, p))
               \<and> transformRecord L (Records dc' ! i) = Inr (Records dc' ! i)"
    if i: "i < length (Records dc)" for i
  proof -
    let ?r = "Records dc ! i" and ?r1 = "recs ! i" and ?r' = "Records dc' ! i"
    from each i obtain p' where
      n: "normalizeRecord (manageRedirects c) dp
            (1 + length (filter isRedirect (drop (Suc i) (Records dc)))) ?r = Inr (?r1, p')"
      and t: "transformRecord L ?r1 = Inr ?r'" by blast
    have pt: "proxiableType (Type ?r)" using types i by simp
    from normalizeRecord_proxiable[OF n pt vdp] obtain v where v: "validProxy v"
      and r1: "?r1 = ?r\<lparr>TTL := normalizeTTL (TTL ?r),
                         Metadata := (Metadata ?r)(metaProxy \<mapsto> v)\<rparr>"
      by blast
    have tf: "TTL ?r' = TTL ?r1" "Type ?r' = Type ?r1"
      using transformRecord_frame[OF t] by simp_all
    have m1: "Metadata ?r1 metaProxy = Some v" by (subst r1) simp
    have m': "Metadata ?r' metaProxy = Some v"
      using transformRecord_proxy[OF t] m1 by simp
    have ty: "proxiableType (Type ?r')" using tf(2) pt by (subst (asm) r1) simp
    have ttl: "normalizeTTL (TTL ?r') = TTL ?r'"
      using tf(1) by (subst (asm) r1) (simp add: normalizeTTL_idem)
    have a: "\<forall>p. normalizeRecord (manageRedirects c) dp p ?r' = Inr (?r', p)"
      using normalizeRecord_fix[OF ty m' v ttl] by blast
    have "Target ?r1 = Target ?r" by (subst r1) simp
    then have "Type ?r' = ''A'' \<and> meta (Metadata ?r') metaProxy = ''full''
                 \<longrightarrow> Target ?r' = Target ?r1"
      using full i by simp
    from transformRecord_fix[OF t this] a show ?thesis by blast
  qed
  have loop: "normalizeLoop (manageRedirects c) dp 1 (Records dc') (length (Records dc'))
                = Inr (Records dc')"
    using fixd len by (intro normalizeLoop_fix) auto
  have "list_all2 (\<lambda>r r'. transformRecord L r = Inr r') (Records dc') (Records dc')"
    using fixd len by (auto simp: list_all2_conv_all_nth)
  then have tr: "transformLoop L (Records dc') = Inr (Records dc')"
    by (simp add: transformLoop_all2)
  have "dc'\<lparr>Records := Records dc'\<rparr> = dc'" by simp
  then show ?thesis using dp' ssl' loop tr by (simp add: preprocessConfig_def)
qed

lemma proxiedZone_normalized:
  "preprocessConfig noConversions cfApi proxiedZone =
     Inr (zoneOf [withProxy ''on'' (desiredRecord ''A'' ''www'' ''192.0.2.1'' 1),
                  withOriginalIP ''192.0.2.2''
                    (withProxy ''full'' (desiredRecord ''A'' ''app'' ''192.0.2.2'' 600)),
                  withProxy ''off'' (desiredRecord ''CNAME'' ''mail'' ''mx.example.net.'' 120)])"
  by (simp add: proxiedZone_def normalizer_defs input_defs withOriginalIP_def
      ToLower_proxy_words)

theorem preprocessConfig_idempotent_witness:
  "preprocessConfig noConversions cfApi proxiedZone =
     Inr (zoneOf [withProxy ''on'' (desiredRecord ''A'' ''www'' ''192.0.2.1'' 1),
                  withOriginalIP ''192.0.2.2''
                    (withProxy ''full'' (desiredRecord ''A'' ''app'' ''192.0.2.2'' 600)),
                  withProxy ''off'' (desiredRecord ''CNAME'' ''mail'' ''mx.example.net.'' 120)])
   \<and> preprocessConfig noConversions cfApi
       (zoneOf [withProxy ''on'' (desiredRecord ''A'' ''www'' ''192.0.2.1'' 1),
                withOriginalIP ''192.0.2.2''
                  (withProxy ''full'' (desiredRecord ''A'' ''app'' ''192.0.2.2'' 600)),
                withProxy ''off'' (desiredRecord ''CNAME'' ''mail'' ''mx.example.net.'' 120)]) =
     Inr (zoneOf [withProxy ''on'' (desiredRecord ''A'' ''www'' ''192.0.2.1'' 1),
                  withOriginalIP ''192.0.2.2''
                    (withProxy ''full'' (desiredRecord ''A'' ''app'' ''192.0.2.2'' 600)),
                  withProxy ''off'' (desiredRecord ''CNAME'' ''mail'' ''mx.example.net.'' 120)])"
proof -
  have types: "\<forall>r \<in> set (Records proxiedZone). proxiableType (Type r)"
    by (simp add: proxiedZone_def input_defs proxiableType_def)
  show ?thesis
    using preprocessConfig_idempotent[OF proxiedZone_normalized types] proxiedZone_normalized
    by (simp add: proxiedZone_def input_defs withOriginalIP_def All_less_Suc)
qed

text \<open>
  C4, as the claim has it, fails twice. A record of any other type (here \<open>TXT\<close>) comes
  out of the first run with \<open>cloudflare_proxy\<close> set to \<open>off\<close>, and the second run
  rejects a record of such a type that has the key set. A \<open>full\<close>-proxied \<open>A\<close> record
  whose address the conversion table maps elsewhere comes out of the second run with
  another \<open>original_ip\<close> than out of the first.
\<close>

theorem preprocessConfig_twice_differs:
  "preprocessConfig noConversions cfApi (zoneOf [desiredRecord ''TXT'' ''t'' ''hello'' 300]) =
     Inr (zoneOf [withProxy ''off'' (desiredRecord ''TXT'' ''t'' ''hello'' 1)])
   \<and> preprocessConfig noConversions cfApi
       (zoneOf [withProxy ''off'' (desiredRecord ''TXT'' ''t'' ''hello'' 1)]) =
     Inl (ProxySetOnRecord ''TXT'' ''t'' ''off'')
   \<and> preprocessConfig shiftConversion cfApi
       (zoneOf [withProxy ''full'' (desiredRecord ''A'' ''app'' ''192.0.2.1'' 600)]) =
     Inr (zoneOf [withOriginalIP ''192.0.2.1''
                    (withProxy ''full'' (desiredRecord ''A'' ''app'' ''198.51.100.1'' 600))])
   \<and> preprocessConfig shiftConversion cfApi
       (zoneOf [withOriginalIP ''192.0.2.1''
                  (withProxy ''full'' (desiredRecord ''A'' ''app'' ''198.51.100.1'' 600))]) =
     Inr (zoneOf [withOriginalIP ''198.51.100.1''
                    (withProxy ''full'' (desiredRecord ''A'' ''app'' ''198.51.100.1'' 600))])"
  by (simp add: normalizer_defs input_defs withOriginalIP_def shiftConversion_def
      ToLower_proxy_words)

section \<open>Properties of the SPF parser\<close>

lemma Parse_cycle_step:
  "Parse (Suc n) ''v=spf1 include:a.example'' (Some cycleResolver) =
     (case Parse n ''v=spf1 include:b.example'' (Some cycleResolver) of
        None \<Rightarrow> None
      | Some (Inl err) \<Rightarrow> Some (Inl (InIncludedSpf err))
      | Some (Inr sub) \<Rightarrow>
          Some (Inr (SPFRecord [SPFPart ''include:a.example'' True (Some sub) ''a.example''])))"
  "Parse (Suc n) ''v=spf1 include:b.example'' (Some cycleResolver) =
     (case Parse n ''v=spf1 include:a.example'' (Some cycleResolver) of
        None \<Rightarrow> None
      | Some (Inl err) \<Rightarrow> Some (Inl (InIncludedSpf err))
      | Some (Inr sub) \<Rightarrow>
          Some (Inr (SPFRecord [SPFPart ''include:b.example'' True (Some sub) ''b.example''])))"
  by (simp_all add: HasPrefix_def TrimPrefix_def qualifiers_def cycleResolver_def Let_def
      split: option.splits sum.splits)

lemma Parse_cycle_None:
  "Parse n ''v=spf1 include:a.example'' (Some cycleResolver) = None
   \<and> Parse n ''v=spf1 include:b.example'' (Some cycleResolver) = None"
proof (induction n)
  case 0
  show ?case by simp
next
  case (Suc n)
  then show ?case by (simp only: Parse_cycle_step option.case simp_thms)
qed

lemma Parse_flat:
  "Parse 2 ''v=spf1 include:c.example -all'' (Some flatResolver) =
     Some (Inr (SPFRecord
       [SPFPart ''include:c.example'' True
          (Some (SPFRecord [SPFPart ''ip4:192.0.2.0/24'' False None [],
                            SPFPart ''-all'' False None []])) ''c.example'',
        SPFPart ''-all'' False None []]))"
  by (simp add: numeral_2_eq_2 HasPrefix_def TrimPrefix_def qualifiers_def flatResolver_def
      Let_def)

text \<open>
  The bound on the nesting of calls only cuts runs short: a result returned within \<open>n\<close>
  nested calls is the result within any larger number of them.
\<close>

lemma parseLoop_mono:
  assumes P: "\<And>t v. Parse n t dnsres = Some v \<Longrightarrow> Parse (Suc n) t dnsres = Some v"
  shows "parseLoop n dnsres len k parts acc = Some v
     \<Longrightarrow> parseLoop (Suc n) dnsres len k parts acc = Some v"
proof (induction parts arbitrary: k acc)
  case Nil
  then show ?case by simp
next
  case (Cons part0 rest)
  note IH = Cons.IH
  show ?case
  proof (cases "part0 = []")
    case True
    then show ?thesis using Cons.prems IH by simp
  next
    case False
    define part where "part = (if qualifiers (hd part0) then tl part0 else part0)"
    show ?thesis
    proof (cases "HasPrefix part ''include:'' \<or> HasPrefix part ''redirect:''")
      case False
      then show ?thesis
        using Cons.prems IH \<open>part0 \<noteq> []\<close>
        by (auto simp add: part_def[symmetric] Let_def simp del: Parse.simps split: if_splits)
    next
      case True
      show ?thesis
      proof (cases dnsres)
        case None
        then show ?thesis
          using Cons.prems IH \<open>part0 \<noteq> []\<close>
          by (auto simp add: part_def[symmetric] Let_def simp del: Parse.simps split: if_splits)
      next
        case (Some getSPF)
        define dom where "dom = (if HasPrefix part ''redirect:'' then TrimPrefix part ''redirect:''
                             else TrimPrefix part ''include:'')"
        show ?thesis
        proof (cases "getSPF dom")
          case (Inl e)
          then show ?thesis
            using Cons.prems IH \<open>part0 \<noteq> []\<close> Some
            by (auto simp add: part_def[symmetric] dom_def Let_def simp del: Parse.simps split: if_splits)
        next
          case (Inr sub)
          show ?thesis
          proof (cases "Parse n sub dnsres")
            case None
            then show ?thesis
              using Cons.prems IH \<open>part0 \<noteq> []\<close> Some Inr
              by (auto simp add: part_def[symmetric] dom_def Let_def simp del: Parse.simps split: if_splits)
          next
            case (Some w)
            note w = P[OF Some]
            show ?thesis
              using Cons.prems IH \<open>part0 \<noteq> []\<close> \<open>dnsres = Some getSPF\<close> Inr Some w
              by (cases w) (auto simp add: part_def[symmetric] dom_def Let_def simp del: Parse.simps split: if_splits)
          qed
        qed
      qed
    qed
  qed
qed

lemma Parse_mono: "Parse n t dnsres = Some v \<Longrightarrow> Parse (Suc n) t dnsres = Some v"
proof (induction n arbitrary: t v)
  case 0
  then show ?case by simp
next
  case (Suc n)
  show ?case
    using Suc.prems parseLoop_mono[of n dnsres, OF Suc.IH]
    by (simp split: if_splits)
qed

lemma Parse_mono_le:
  "Parse n t dnsres = Some v \<Longrightarrow> n \<le> m \<Longrightarrow> Parse m t dnsres = Some v"
proof (induction m)
  case 0
  then show ?case by simp
next
  case (Suc m)
  show ?case
  proof (cases "n = Suc m")
    case True
    then show ?thesis using Suc.prems by simp
  next
    case False
    then have "n \<le> m" using Suc.prems by simp
    then have "Parse m t dnsres = Some v" using Suc by blast
    then show ?thesis by (rule Parse_mono)
  qed
qed

text \<open>
  C9. \<^verbatim>\<open>Parse\<close> has no bound on the nesting of includes and does not detect cycles.
  \<open>cycleResolver\<close> answers \<open>a.example\<close> with a record that includes \<open>b.example\<close> and
  \<open>b.example\<close> with one that includes \<open>a.example\<close>. On the record that includes
  \<open>a.example\<close>, no number of nested calls suffices for \<^verbatim>\<open>Parse\<close> to return: it recurses
  for ever. So no depth is enough for every resolver. (On a resolver without a cycle the
  same function returns: two nested calls parse a record with one include.)
\<close>

theorem Parse_does_not_terminate_on_cycle:
  "cycleResolver ''a.example'' = Inr ''v=spf1 include:b.example''
   \<and> cycleResolver ''b.example'' = Inr ''v=spf1 include:a.example''
   \<and> (\<forall>n. Parse n ''v=spf1 include:a.example'' (Some cycleResolver) = None)
   \<and> (\<forall>depth. \<exists>dnsres t. Parse depth t (Some dnsres) = None)
   \<and> Parse 2 ''v=spf1 include:c.example -all'' (Some flatResolver) =
       Some (Inr (SPFRecord
         [SPFPart ''include:c.example'' True
            (Some (SPFRecord [SPFPart ''ip4:192.0.2.0/24'' False None [],
                              SPFPart ''-all'' False None []])) ''c.example'',
          SPFPart ''-all'' False None []]))"
proof -
  have a: "\<forall>n. Parse n ''v=spf1 include:a.example'' (Some cycleResolver) = None"
    using Parse_cycle_None by blast
  then have "\<forall>depth. \<exists>dnsres t. Parse depth t (Some dnsres) = None"
    by blast
  then show ?thesis using a Parse_flat by (simp add: cycleResolver_def)
qed

section \<open>Properties of the plan builder and the differ\<close>

lemma obind_Returned: "obind x f = Returned y \<longleftrightarrow> (\<exists>v. x = Returned v \<and> f v = Returned y)"
  by (cases x) auto

lemma deleteLoop_Returned:
  "deleteLoop zid del acc = Returned cs \<longleftrightarrow>
     (\<exists>ds. list_all2 (\<lambda>d c. deleteCorrection zid d = Returned c) del ds \<and> cs = acc @ ds)"
proof (induction del arbitrary: acc)
  case Nil
  show ?case by auto
next
  case (Cons d del)
  show ?case
    by (auto simp: obind_Returned Cons.IH list_all2_Cons1)
qed

lemma createCorrections_single:
  "createCorrections zid d = Returned v \<Longrightarrow> \<exists>c. v = [c]"
  by (auto simp: createCorrections_def createRec_def split: option.splits if_splits)

lemma createLoop_Returned:
  "createLoop zid create acc = Returned cs \<longleftrightarrow>
     (\<exists>crs. list_all2 (\<lambda>d c. createCorrections zid d = Returned [c]) create crs \<and> cs = acc @ crs)"
proof (induction create arbitrary: acc)
  case Nil
  show ?case by auto
next
  case (Cons d create)
  show ?case
  proof
    assume "createLoop zid (d # create) acc = Returned cs"
    then obtain v crs where v: "createCorrections zid d = Returned v"
      and r: "list_all2 (\<lambda>d c. createCorrections zid d = Returned [c]) create crs"
      and cs: "cs = (acc @ v) @ crs"
      by (auto simp: obind_Returned Cons.IH)
    from createCorrections_single[OF v] obtain c where "v = [c]" by blast
    then show "\<exists>crs. list_all2 (\<lambda>d c. createCorrections zid d = Returned [c]) (d # create) crs
        \<and> cs = acc @ crs"
      using v r cs by (intro exI[of _ "c # crs"]) simp
  next
    assume "\<exists>crs. list_all2 (\<lambda>d c. createCorrections zid d = Returned [c]) (d # create) crs
        \<and> cs = acc @ crs"
    then show "createLoop zid (d # create) acc = Returned cs"
      by (auto simp: obind_Returned Cons.IH list_all2_Cons1)
  qed
qed

lemma modifyLoop_Returned:
  "modifyLoop zid ms acc = Returned cs \<longleftrightarrow>
     (\<exists>ds. list_all2 (\<lambda>d c. modifyCorrection zid d = Returned c) ms ds \<and> cs = acc @ ds)"
proof (induction ms arbitrary: acc)
  case Nil
  show ?case by auto
next
  case (Cons d ms)
  show ?case
    by (auto simp: obind_Returned Cons.IH list_all2_Cons1)
qed

lemma deleteCorrection_category:
  "deleteCorrection zid d = Returned c \<Longrightarrow> categoryOf (F c) = DeleteC"
  by (auto simp: deleteCorrection_def deleteRec_def split: option.splits if_splits original.splits)

lemma createCorrections_category:
  "createCorrections zid d = Returned [c] \<Longrightarrow> categoryOf (F c) = CreateC"
  by (auto simp: createCorrections_def createRec_def split: option.splits if_splits)

lemma modifyCorrection_category:
  "modifyCorrection zid d = Returned c \<Longrightarrow> categoryOf (F c) = ModifyC"
  by (auto simp: modifyCorrection_def Let_def split: option.splits if_splits original.splits)

lemma buildPlan_Returned:
  assumes "buildPlan zid del create modify = Returned plan"
  shows "\<exists>ds crs ms. plan = ds @ crs @ ms
      \<and> list_all2 (\<lambda>d c. deleteCorrection zid d = Returned c) del ds
      \<and> list_all2 (\<lambda>d c. createCorrections zid d = Returned [c]) create crs
      \<and> list_all2 (\<lambda>d c. modifyCorrection zid d = Returned c) modify ms"
proof -
  from assms obtain ds crs ms where
    "list_all2 (\<lambda>d c. deleteCorrection zid d = Returned c) del ds"
    "list_all2 (\<lambda>d c. createCorrections zid d = Returned [c]) create crs"
    "list_all2 (\<lambda>d c. modifyCorrection zid d = Returned c) modify ms"
    "plan = (ds @ crs) @ ms"
    by (auto simp: buildPlan_def obind_Returned deleteLoop_Returned createLoop_Returned
      modifyLoop_Returned)
  then show ?thesis by (intro exI[of _ ds] exI[of _ crs] exI[of _ ms]) simp
qed

lemma all2_category:
  "list_all2 (\<lambda>d c. P d c) ds cs \<Longrightarrow> (\<And>d c. P d c \<Longrightarrow> categoryOf (F c) = k)
     \<Longrightarrow> map (\<lambda>c. categoryOf (F c)) cs = replicate (length ds) k"
  by (induction ds cs rule: list_all2_induct) auto

lemma sorted_rank_segments:
  "sorted (map rank (replicate a DeleteC @ replicate b CreateC @ replicate c ModifyC @ replicate d ZoneC))"
  by (auto simp: sorted_append)

lemma buildPlan_categories:
  assumes "buildPlan zid del create modify = Returned plan"
  shows "map (\<lambda>c. categoryOf (F c)) plan =
     replicate (length del) DeleteC @ replicate (length create) CreateC @ replicate (length modify) ModifyC"
proof -
  from buildPlan_Returned[OF assms] obtain ds crs ms where plan: "plan = ds @ crs @ ms"
    and ds: "list_all2 (\<lambda>d c. deleteCorrection zid d = Returned c) del ds"
    and crs: "list_all2 (\<lambda>d c. createCorrections zid d = Returned [c]) create crs"
    and ms: "list_all2 (\<lambda>d c. modifyCorrection zid d = Returned c) modify ms"
    by blast
  show ?thesis
    unfolding plan map_append
    using all2_category[OF ds deleteCorrection_category]
      all2_category[OF crs createCorrections_category]
      all2_category[OF ms modifyCorrection_category]
    by simp
qed










lemma pick_set: "pick P xs = Some (y, ys) \<Longrightarrow> y \<in> set xs \<and> set ys \<subseteq> set xs"
  by (induction xs arbitrary: ys) (auto split: if_splits option.splits)

lemma matchDesired_members:
  "matchDesired cmp D A = (u, c, rest, m) \<Longrightarrow>
     set rest \<subseteq> set A
     \<and> (\<forall>x\<in>set c. Existing x = None \<and> (\<exists>d\<in>set D. Desired x = Some d))
     \<and> (\<forall>x\<in>set u \<union> set m. (\<exists>a\<in>set A. Existing x = Some a) \<and> (\<exists>d\<in>set D. Desired x = Some d))"
proof (induction D arbitrary: A u c rest m)
  case Nil
  then show ?case by auto
next
  case (Cons d D)
  show ?case
  proof (cases "pick (\<lambda>a. recKey a = recKey d) A")
    case None
    obtain u0 c0 r0 m0 where md: "matchDesired cmp D A = (u0, c0, r0, m0)"
      by (cases "matchDesired cmp D A") auto
    from Cons.IH[OF md] Cons.prems None md show ?thesis by auto
  next
    case (Some p)
    obtain a A1 where p: "p = (a, A1)" by (cases p)
    obtain u0 c0 r0 m0 where md: "matchDesired cmp D A1 = (u0, c0, r0, m0)"
      by (cases "matchDesired cmp D A1") auto
    have ps: "a \<in> set A \<and> set A1 \<subseteq> set A" using Some p pick_set by fastforce
    from Cons.IH[OF md] have
      i1: "set r0 \<subseteq> set A1" and
      i2: "\<forall>x\<in>set c0. Existing x = None \<and> (\<exists>d\<in>set D. Desired x = Some d)" and
      i3: "\<forall>x\<in>set u0 \<union> set m0. (\<exists>a\<in>set A1. Existing x = Some a) \<and> (\<exists>d\<in>set D. Desired x = Some d)"
      by auto
    have i3': "\<forall>x\<in>set u0 \<union> set m0. (\<exists>a\<in>set A. Existing x = Some a) \<and> (\<exists>d\<in>set (d # D). Desired x = Some d)"
      using i3 ps by (meson list.set_intros(2) subsetD)
    have i2': "\<forall>x\<in>set c0. Existing x = None \<and> (\<exists>d\<in>set (d # D). Desired x = Some d)"
      using i2 by (meson list.set_intros(2))
    have new: "(\<exists>a'\<in>set A. Existing \<lparr>Existing = Some a, Desired = Some d\<rparr> = Some a')
      \<and> (\<exists>d'\<in>set (d # D). Desired \<lparr>Existing = Some a, Desired = Some d\<rparr> = Some d')"
      using ps by simp
    show ?thesis
    proof (cases "TTL a = TTL d \<and> cmp a = cmp d")
      case True
      then have "u = \<lparr>Existing = Some a, Desired = Some d\<rparr> # u0" "c = c0" "rest = r0" "m = m0"
        using Cons.prems Some p md by auto
      then show ?thesis using i1 i2' i3' new ps by auto
    next
      case False
      then have "u = u0" "c = c0" "rest = r0" "m = \<lparr>Existing = Some a, Desired = Some d\<rparr> # m0"
        using Cons.prems Some p md by auto
      then show ?thesis using i1 i2' i3' new ps by auto
    qed
  qed
qed

lemma IncrementalDiff_members:
  assumes "IncrementalDiff cmp D A = Returned (u, c, dl, m)"
  shows "(\<forall>x\<in>set dl. Desired x = None \<and> (\<exists>a\<in>set A. Existing x = Some a))
     \<and> (\<forall>x\<in>set c. Existing x = None \<and> (\<exists>d\<in>set D. Desired x = Some d))
     \<and> (\<forall>x\<in>set u \<union> set m. (\<exists>a\<in>set A. Existing x = Some a) \<and> (\<exists>d\<in>set D. Desired x = Some d))"
proof -
  obtain u0 c0 r0 m0 where md: "matchDesired cmp D A = (u0, c0, r0, m0)"
    by (cases "matchDesired cmp D A") auto
  with assms have eqs: "u = sort_key corrKey u0" "c = sort_key corrKey c0"
    "dl = sort_key corrKey (map (\<lambda>a. \<lparr>Existing = Some a, Desired = None\<rparr>) r0)"
    "m = sort_key corrKey m0"
    by (auto simp: IncrementalDiff_def split: if_splits)
  from matchDesired_members[OF md] show ?thesis
    unfolding eqs by auto
qed

lemma labelMatches_iff: "labelMatches label matches \<longleftrightarrow> label \<in> set matches"
  by (induction matches) auto

lemma dropIgnored_eq:
  "n \<le> length records \<Longrightarrow>
   dropIgnored trim ignored zone records n =
     (if list_all isCloudflareRecord (take n records)
      then Returned (filter (\<lambda>r. \<not> ignoredActual trim ignored zone r) (take n records)
                     @ drop n records)
      else Panic ''interface conversion'')"
proof (induction n arbitrary: records)
  case 0
  show ?case by simp
next
  case (Suc n)
  then have n: "n < length records" by simp
  have tk: "take (Suc n) records = take n records @ [records ! n]"
    using n by (simp add: take_Suc_conv_app_nth)
  have dr: "drop n records = records ! n # drop (Suc n) records"
    using n by (simp add: Cons_nth_drop_Suc)
  show ?case
  proof (cases "Original (records ! n)")
    case (CfOriginal e)
    show ?thesis
    proof (cases "labelMatches (trim (cf_Name e) zone) ignored")
      case True
      let ?rs = "take n records @ drop (Suc n) records"
      have len: "n \<le> length ?rs" using n by simp
      have t: "take n ?rs = take n records" using n by simp
      have d: "drop n ?rs = drop (Suc n) records" using n by simp
      have "dropIgnored trim ignored zone records (Suc n) = dropIgnored trim ignored zone ?rs n"
        using CfOriginal True by simp
      also have "\<dots> = (if list_all isCloudflareRecord (take n records)
          then Returned (filter (\<lambda>r. \<not> ignoredActual trim ignored zone r) (take n records)
                         @ drop (Suc n) records)
          else Panic ''interface conversion'')"
        using Suc.IH[OF len] unfolding t d .
      also have "\<dots> = (if list_all isCloudflareRecord (take (Suc n) records)
          then Returned (filter (\<lambda>r. \<not> ignoredActual trim ignored zone r) (take (Suc n) records)
                         @ drop (Suc n) records)
          else Panic ''interface conversion'')"
        unfolding tk using CfOriginal True
        by (simp add: ignoredActual_def isCloudflareRecord_def labelMatches_iff)
      finally show ?thesis .
    next
      case False
      have "dropIgnored trim ignored zone records (Suc n) = dropIgnored trim ignored zone records n"
        using CfOriginal False by simp
      also have "\<dots> = (if list_all isCloudflareRecord (take n records)
          then Returned (filter (\<lambda>r. \<not> ignoredActual trim ignored zone r) (take n records)
                         @ records ! n # drop (Suc n) records)
          else Panic ''interface conversion'')"
        using Suc.IH[of records] n unfolding dr by simp
      also have "\<dots> = (if list_all isCloudflareRecord (take (Suc n) records)
          then Returned (filter (\<lambda>r. \<not> ignoredActual trim ignored zone r) (take (Suc n) records)
                         @ drop (Suc n) records)
          else Panic ''interface conversion'')"
        unfolding tk using CfOriginal False
        by (simp add: ignoredActual_def isCloudflareRecord_def labelMatches_iff)
      finally show ?thesis .
    qed
  qed (simp_all add: tk isCloudflareRecord_def)
qed

lemma forced_Name: "Name (forced r) = Name r"
  by (simp add: forced_def Let_def)

lemma forceLoop_eq:
  "forceLoop ignored recs =
     (if \<exists>r\<in>set recs. labelMatches (Name r) ignored
      then Fatal ''FATAL: dnsconfig contains label that matches ignored_labels''
      else Returned (map forced recs))"
  by (induction recs) (auto simp: forceDesired_def Let_def forced_Name)

lemma forced_TTL: "meta (Metadata (forced r)) metaProxy \<noteq> ''off'' \<Longrightarrow> TTL (forced r) = 1"
  by (auto simp: forced_def Let_def split: if_splits)

lemma ovhDeleteLoop_Returned:
  "ovhDeleteLoop zone del acc = Returned cs \<longleftrightarrow>
     (\<exists>ds. list_all2 (\<lambda>d c. ovhDelete zone d = Returned c) del ds \<and> cs = acc @ ds)"
proof (induction del arbitrary: acc)
  case Nil
  show ?case by auto
next
  case (Cons d del)
  show ?case by (auto simp: obind_Returned Cons.IH list_all2_Cons1)
qed

lemma ovhCreateLoop_Returned:
  "ovhCreateLoop zone cr acc = Returned cs \<longleftrightarrow>
     (\<exists>ds. list_all2 (\<lambda>d c. ovhCreate zone d = Returned c) cr ds \<and> cs = acc @ ds)"
proof (induction cr arbitrary: acc)
  case Nil
  show ?case by auto
next
  case (Cons d cr)
  show ?case by (auto simp: obind_Returned Cons.IH list_all2_Cons1)
qed

lemma ovhModifyLoop_Returned:
  "ovhModifyLoop zone ms acc = Returned cs \<longleftrightarrow>
     (\<exists>ds. list_all2 (\<lambda>d c. ovhModify zone d = Returned c) ms ds \<and> cs = acc @ ds)"
proof (induction ms arbitrary: acc)
  case Nil
  show ?case by auto
next
  case (Cons d ms)
  show ?case by (auto simp: obind_Returned Cons.IH list_all2_Cons1)
qed

lemma ovhDelete_category: "ovhDelete zone d = Returned c \<Longrightarrow> categoryOf (F c) = DeleteC"
  by (auto simp: ovhDelete_def split: option.splits original.splits)

lemma ovhCreate_category: "ovhCreate zone d = Returned c \<Longrightarrow> categoryOf (F c) = CreateC"
  by (auto simp: ovhCreate_def)

lemma ovhModify_category: "ovhModify zone d = Returned c \<Longrightarrow> categoryOf (F c) = ModifyC"
  by (auto simp: ovhModify_def split: option.splits original.splits)

lemma ovhBuildPlan_categories:
  assumes "ovhBuildPlan zone del create modify = Returned plan"
  shows "map (\<lambda>c. categoryOf (F c)) plan =
     replicate (length del) DeleteC @ replicate (length create) CreateC
       @ replicate (length modify) ModifyC"
proof -
  from assms obtain ds crs ms where
    ds: "list_all2 (\<lambda>d c. ovhDelete zone d = Returned c) del ds" and
    crs: "list_all2 (\<lambda>d c. ovhCreate zone d = Returned c) create crs" and
    ms: "list_all2 (\<lambda>d c. ovhModify zone d = Returned c) modify ms" and
    plan: "plan = (ds @ crs) @ ms"
    by (auto simp: ovhBuildPlan_def obind_Returned ovhDeleteLoop_Returned
        ovhCreateLoop_Returned ovhModifyLoop_Returned)
  show ?thesis
    unfolding plan map_append
    using all2_category[OF ds ovhDelete_category] all2_category[OF crs ovhCreate_category]
      all2_category[OF ms ovhModify_category]
    by simp
qed

lemma categories_plan:
  assumes "map (\<lambda>c. categoryOf (F c)) plan =
     replicate a DeleteC @ replicate b CreateC @ replicate k ModifyC"
  shows "length plan = a + b + k" "\<forall>x\<in>set plan. categoryOf (F x) \<noteq> ZoneC"
    "categoryOf (F z) = ZoneC \<Longrightarrow> sorted (map categoryRank (plan @ [z]))"
    "sorted (map categoryRank plan)"
proof -
  show "length plan = a + b + k" using arg_cong[OF assms, of length] by simp
  have "set (map (\<lambda>c. categoryOf (F c)) plan) \<subseteq> {DeleteC, CreateC, ModifyC}"
    unfolding assms by auto
  then show "\<forall>x\<in>set plan. categoryOf (F x) \<noteq> ZoneC" by auto
  have m: "map categoryRank plan = map rank (map (\<lambda>c. categoryOf (F c)) plan)"
    by (simp add: categoryRank_def)
  show "sorted (map categoryRank plan)"
    unfolding m assms using sorted_rank_segments[of a b k 0] by simp
  show "sorted (map categoryRank (plan @ [z]))" if "categoryOf (F z) = ZoneC"
    using sorted_rank_segments[of a b k 1] that unfolding map_append m assms
    by (simp add: categoryRank_def)
qed

lemma preprocessConfig_frame:
  assumes "preprocessConfig L c dc = Inr dc'"
  shows "dc_Name dc' = dc_Name dc" "dc_Metadata dc' = dc_Metadata dc"
    "map Name (Records dc') = map Name (Records dc)"
proof -
  from preprocessConfig_spec[OF assms] obtain dp recs where
    len: "length (Records dc') = length (Records dc)" and
    eq: "dc' = dc\<lparr>Records := Records dc'\<rparr>" and
    each: "\<forall>i<length (Records dc).
              (\<exists>p'. normalizeRecord (manageRedirects c) dp
                       (1 + length (filter isRedirect (drop (Suc i) (Records dc))))
                       (Records dc ! i) = Inr (recs ! i, p')) \<and>
              transformRecord L (recs ! i) = Inr (Records dc' ! i)"
    by blast
  show "dc_Name dc' = dc_Name dc" by (subst eq) simp
  show "dc_Metadata dc' = dc_Metadata dc" by (subst eq) simp
  show "map Name (Records dc') = map Name (Records dc)"
  proof (rule nth_equalityI)
    show "length (map Name (Records dc')) = length (map Name (Records dc))" using len by simp
  next
    fix i assume "i < length (map Name (Records dc'))"
    then have i: "i < length (Records dc)" using len by simp
    from each i obtain p' where
      n: "normalizeRecord (manageRedirects c) dp
            (1 + length (filter isRedirect (drop (Suc i) (Records dc)))) (Records dc ! i)
          = Inr (recs ! i, p')"
      and t: "transformRecord L (recs ! i) = Inr (Records dc' ! i)" by blast
    show "map Name (Records dc') ! i = map Name (Records dc) ! i"
      using normalizeRecord_frame[OF n] transformRecord_frame[OF t] i len by simp
  qed
qed

lemma cloudflareDiff_Returned:
  assumes "cloudflareDiff L M env c dc0 zid = Returned (dc2, parts)"
  shows "\<exists>dc1 records.
      preprocessConfig L c dc0 = Inr dc1
    \<and> actualRecords M env c zid (dc_Name dc0) = Returned records
    \<and> (\<forall>r\<in>set (Records dc1). \<not> labelMatches (Name r) (ignoredLabels c))
    \<and> dc2 = snd (checkNSModifications (dc1\<lparr>Records := map forced (Records dc1)\<rparr>))
    \<and> IncrementalDiff getProxyMetadata (Records dc2) (map (PostProcessRecord M) records)
        = Returned parts"
proof -
  from assms obtain dc1 where pc: "preprocessConfig L c dc0 = Inr dc1"
    by (auto simp: cloudflareDiff_unfold split: sum.splits)
  note nm = preprocessConfig_frame(1)[OF pc]
  from assms pc obtain records recs where
    ar: "actualRecords M env c zid (dc_Name dc0) = Returned records" and
    fl: "forceLoop (ignoredLabels c) (Records dc1) = Returned recs" and
    dc2: "dc2 = snd (checkNSModifications (dc1\<lparr>Records := recs\<rparr>))" and
    diff: "IncrementalDiff getProxyMetadata (Records dc2) (map (PostProcessRecord M) records)
        = Returned parts"
    by (auto simp: cloudflareDiff_unfold obind_Returned nm Let_def)
  from fl have "\<forall>r\<in>set (Records dc1). \<not> labelMatches (Name r) (ignoredLabels c)"
    and "recs = map forced (Records dc1)"
    by (auto simp: forceLoop_eq split: if_splits)
  then show ?thesis using pc ar dc2 diff by blast
qed

lemma cloudflareDiff_Metadata:
  assumes "cloudflareDiff L M env c dc0 zid = Returned (dc2, parts)"
  shows "dc_Metadata dc2 = dc_Metadata dc0"
proof -
  from cloudflareDiff_Returned[OF assms] obtain dc1 where
    pc: "preprocessConfig L c dc0 = Inr dc1" and
    dc2: "dc2 = snd (checkNSModifications (dc1\<lparr>Records := map forced (Records dc1)\<rparr>))"
    by blast
  show ?thesis using preprocessConfig_frame(2)[OF pc] dc2 by (simp add: checkNSModifications_frame)
qed

lemma addUniversalSSL_eq:
  "addUniversalSSL answer dc zid plan =
     (if meta (dc_Metadata dc) metaUniversalSSL \<noteq> []
         \<and> (\<exists>actual. answer = Inr actual
               \<and> actual \<noteq> (meta (dc_Metadata dc) metaUniversalSSL \<noteq> ''off''))
      then plan @ [universalSSLCorrection zid (meta (dc_Metadata dc) metaUniversalSSL \<noteq> ''off'')]
      else plan)"
  by (auto simp: addUniversalSSL_def checkUniversalSSL_def Let_def split: sum.splits)

text \<open>
  What the two passes append to the record-level plan. When OVH's
  \<^verbatim>\<open>GetDomainCorrections\<close> returns, its list is the record-level plan (one correction for
  each deletion, creation and modification of the diff), followed by the \<open>REFRESH zone\<close>
  correction exactly when that plan is not empty. When Cloudflare's returns, its list is
  the record-level plan, followed by the Universal SSL correction exactly when a value is
  configured, the zone's setting could be read, and the setting is not the value as
  \<^verbatim>\<open>checkUniversalSSL\<close> decodes it: off for the value \<open>off\<close>, on for every other value.
  No record-level correction is a zone-level one.
\<close>

lemma zone_level_plan:
  "(ovh_GetDomainCorrections M fetchRecords p dc = Returned cs \<longrightarrow>
      (\<exists>zone unchanged create del modify plan.
          ovhDiff M fetchRecords p dc = Returned (zone, unchanged, create, del, modify)
        \<and> ovhBuildPlan zone del create modify = Returned plan
        \<and> length plan = length del + length create + length modify
        \<and> (\<forall>x\<in>set plan. categoryOf (F x) \<noteq> ZoneC)
        \<and> cs = (if plan = [] then [] else plan @ [refreshCorrection zone])))
   \<and> (cloudflare_GetDomainCorrections L M env c dc = Returned cs' \<longrightarrow>
      (\<exists>zid dc1 dc2 unchanged create del modify plan.
          lookupZone env c (dc_Name dc) = Returned zid
        \<and> preprocessConfig L c dc = Inr dc1
        \<and> cloudflareDiff L M env c dc zid = Returned (dc2, unchanged, create, del, modify)
        \<and> buildPlan zid del create modify = Returned plan
        \<and> length plan = length del + length create + length modify
        \<and> (\<forall>x\<in>set plan. categoryOf (F x) \<noteq> ZoneC)
        \<and> cs' = (if meta (dc_Metadata dc) metaUniversalSSL \<noteq> []
                    \<and> (\<exists>actual. getUniversalSSL env zid = Inr actual
                          \<and> actual \<noteq> (meta (dc_Metadata dc) metaUniversalSSL \<noteq> ''off''))
                 then plan @ [universalSSLCorrection zid
                                (meta (dc_Metadata dc) metaUniversalSSL \<noteq> ''off'')]
                 else plan)))"
proof (intro conjI impI)
  assume "ovh_GetDomainCorrections M fetchRecords p dc = Returned cs"
  then obtain zone u cr dl md plan where
    d: "ovhDiff M fetchRecords p dc = Returned (zone, u, cr, dl, md)" and
    b: "ovhBuildPlan zone dl cr md = Returned plan" and
    cs: "cs = addRefresh zone plan"
    by (auto simp: ovh_GetDomainCorrections_unfold obind_Returned)
  note cat = categories_plan[OF ovhBuildPlan_categories[OF b]]
  have "cs = (if plan = [] then [] else plan @ [refreshCorrection zone])"
    using cs by (simp add: addRefresh_def)
  then show "\<exists>zone unchanged create del modify plan.
          ovhDiff M fetchRecords p dc = Returned (zone, unchanged, create, del, modify)
        \<and> ovhBuildPlan zone del create modify = Returned plan
        \<and> length plan = length del + length create + length modify
        \<and> (\<forall>x\<in>set plan. categoryOf (F x) \<noteq> ZoneC)
        \<and> cs = (if plan = [] then [] else plan @ [refreshCorrection zone])"
    using d b cat(1,2) by blast
next
  assume "cloudflare_GetDomainCorrections L M env c dc = Returned cs'"
  then obtain zid dc2 u cr dl md plan where
    z: "lookupZone env c (dc_Name dc) = Returned zid" and
    d: "cloudflareDiff L M env c dc zid = Returned (dc2, u, cr, dl, md)" and
    b: "buildPlan zid dl cr md = Returned plan" and
    cs: "cs' = addUniversalSSL (getUniversalSSL env zid) dc2 zid plan"
    by (auto simp: cloudflare_GetDomainCorrections_unfold obind_Returned)
  from cloudflareDiff_Returned[OF d] obtain dc1 where pc: "preprocessConfig L c dc = Inr dc1"
    by blast
  note cat = categories_plan[OF buildPlan_categories[OF b]]
  have "cs' = (if meta (dc_Metadata dc) metaUniversalSSL \<noteq> []
                    \<and> (\<exists>actual. getUniversalSSL env zid = Inr actual
                          \<and> actual \<noteq> (meta (dc_Metadata dc) metaUniversalSSL \<noteq> ''off''))
                 then plan @ [universalSSLCorrection zid
                                (meta (dc_Metadata dc) metaUniversalSSL \<noteq> ''off'')]
                 else plan)"
    unfolding cs addUniversalSSL_eq cloudflareDiff_Metadata[OF d] ..
  then show "\<exists>zid dc1 dc2 unchanged create del modify plan.
          lookupZone env c (dc_Name dc) = Returned zid
        \<and> preprocessConfig L c dc = Inr dc1
        \<and> cloudflareDiff L M env c dc zid = Returned (dc2, unchanged, create, del, modify)
        \<and> buildPlan zid del create modify = Returned plan
        \<and> length plan = length del + length create + length modify
        \<and> (\<forall>x\<in>set plan. categoryOf (F x) \<noteq> ZoneC)
        \<and> cs' = (if meta (dc_Metadata dc) metaUniversalSSL \<noteq> []
                    \<and> (\<exists>actual. getUniversalSSL env zid = Inr actual
                          \<and> actual \<noteq> (meta (dc_Metadata dc) metaUniversalSSL \<noteq> ''off''))
                 then plan @ [universalSSLCorrection zid
                                (meta (dc_Metadata dc) metaUniversalSSL \<noteq> ''off'')]
                 else plan)"
    using z pc d b cat(1,2) by blast
qed

text \<open>
  For a configuration that \<^verbatim>\<open>preprocessConfig\<close> accepts and whose Universal SSL value,
  when it means off, is written \<open>off\<close>, the value that \<^verbatim>\<open>checkUniversalSSL\<close> decodes is
  the configured one: the correction is appended exactly when the zone's setting differs
  from the configured value, and it sets the configured value.
\<close>

lemma universalSSL_decoding:
  assumes pc: "preprocessConfig L c dc = Inr dc1"
    and lower: "ToLower (meta (dc_Metadata dc) metaUniversalSSL) = ''off''
                  \<longrightarrow> meta (dc_Metadata dc) metaUniversalSSL = ''off''"
  shows "(meta (dc_Metadata dc) metaUniversalSSL \<noteq> []
            \<and> (\<exists>actual. answer = Inr actual
                  \<and> actual \<noteq> (meta (dc_Metadata dc) metaUniversalSSL \<noteq> ''off'')))
         = universalSSLDiffers answer dc"
    and "meta (dc_Metadata dc) metaUniversalSSL \<noteq> [] \<Longrightarrow>
           configuredUniversalSSL dc = Some (meta (dc_Metadata dc) metaUniversalSSL \<noteq> ''off'')"
proof -
  let ?u = "meta (dc_Metadata dc) metaUniversalSSL"
  from pc have "\<not> badUniversalSSL dc"
    by (auto simp: preprocessConfig_def split: sum.splits if_splits)
  then have valid: "?u = [] \<or> ToLower ?u = ''on'' \<or> ToLower ?u = ''off''"
    by (auto simp: badUniversalSSL_def Let_def)
  have on: "(ToLower ?u = ''on'') = (?u \<noteq> ''off'')" if "?u \<noteq> []"
  proof (cases "ToLower ?u = ''on''")
    case True
    then have "?u \<noteq> ''off''" using ToLower_proxy_words(2) by auto
    then show ?thesis using True by simp
  next
    case False
    then have "ToLower ?u = ''off''" using valid that by simp
    then have "?u = ''off''" using lower by simp
    then show ?thesis using False by simp
  qed
  show "(?u \<noteq> [] \<and> (\<exists>actual. answer = Inr actual \<and> actual \<noteq> (?u \<noteq> ''off'')))
         = universalSSLDiffers answer dc"
    using on by (cases answer)
      (auto simp: universalSSLDiffers_def configuredUniversalSSL_def Let_def)
  show "?u \<noteq> [] \<Longrightarrow> configuredUniversalSSL dc = Some (?u \<noteq> ''off'')"
    using on by (simp add: configuredUniversalSSL_def Let_def)
qed

lemmas pass_defs =
  cloudflare_GetDomainCorrections_unfold cloudflareDiff_unfold lookupZone_def actualRecords_def
  forceDesired_def forced_def checkNSModifications_def IncrementalDiff_def isReturned_def
  getProxyMetadata_def buildPlan_def deleteCorrection_def createCorrections_def
  modifyCorrection_def deleteRec_def createRec_def addUniversalSSL_def checkUniversalSSL_def
  universalSSLCorrection_def corrKey_def recKey_def Sprint_def
  ovh_GetDomainCorrections_unfold ovhDiff_unfold ovh_nativeToRecord_def emptyRecord_def
  ovhBuildPlan_def ovhDelete_def ovhCreate_def ovhModify_def addRefresh_def
  refreshCorrection_def

lemmas answer_defs =
  plainModels_def ovhAccount_def ovhNative_def cfAnswers_def cfActual_def cfNative_def
  sslZone_def

lemma ovh_pass_one_delete:
  "ovh_GetDomainCorrections plainModels (\<lambda>zone. Inr [ovhNative]) ovhAccount (zoneOf []) =
     Returned [\<lparr>Msg = ''DELETE A www.example.com 192.0.2.1 ttl=3600'',
                F = DeleteRecordFunc 7 ''example.com''\<rparr>,
               \<lparr>Msg = ''REFRESH zone example.com'', F = RefreshZone ''example.com''\<rparr>]"
  by (simp add: pass_defs answer_defs input_defs Let_def String_def content_def showNat.simps
      digit_def)

lemma ovh_pass_empty:
  "ovh_GetDomainCorrections plainModels (\<lambda>zone. Inr []) ovhAccount (zoneOf []) = Returned []"
  by (simp add: pass_defs answer_defs input_defs Let_def)

lemma cloudflare_pass_delete_and_ssl:
  "cloudflare_GetDomainCorrections noConversions plainModels (cfAnswers [cfActual] False)
     cfApi sslZone =
     Returned [deleteRec cfNative ''zone1'', universalSSLCorrection ''zone1'' True]"
  by (simp add: pass_defs normalizer_defs input_defs answer_defs ToLower_proxy_words)

lemma cloudflare_pass_empty:
  "cloudflare_GetDomainCorrections noConversions plainModels (cfAnswers [] True) cfApi sslZone =
     Returned []"
  by (simp add: pass_defs normalizer_defs input_defs answer_defs ToLower_proxy_words)

text \<open>
  C6. OVH appends \<open>REFRESH zone\<close> exactly when the record-level plan is not empty, and
  Cloudflare appends the Universal SSL correction exactly when the zone's setting differs
  from a configured value written in lower case (\<open>zone_level_plan\<close>,
  \<open>universalSSL_decoding\<close>). The claim fails for an \<open>off\<close> written otherwise.
  \<^verbatim>\<open>preprocessConfig\<close> lowers the case of the value to validate it and keeps the value as
  written; \<^verbatim>\<open>checkUniversalSSL\<close> compares the value as written with \<open>off\<close>. The zone
  below has no records and is configured with \<open>OFF\<close>. Its configuration is accepted. When
  the zone's setting is off, nothing differs and nothing is to be done, and the pass
  returns the correction that enables Universal SSL. When the zone's setting is on, it
  differs from the configured value, and the pass returns no correction.
\<close>

theorem universalSSL_uppercase_off:
  "preprocessConfig noConversions cfApi sslOffZone = Inr sslOffZone
   \<and> configuredUniversalSSL sslOffZone = Some False
   \<and> \<not> universalSSLDiffers (getUniversalSSL (cfAnswers [] False) ''zone1'') sslOffZone
   \<and> cloudflare_GetDomainCorrections noConversions plainModels (cfAnswers [] False) cfApi
       sslOffZone
     = Returned [\<lparr>Msg = ''Universal SSL will be enabled for this domain.'',
                  F = ChangeUniversalSSL ''zone1'' True\<rparr>]
   \<and> universalSSLDiffers (getUniversalSSL (cfAnswers [] True) ''zone1'') sslOffZone
   \<and> cloudflare_GetDomainCorrections noConversions plainModels (cfAnswers [] True) cfApi
       sslOffZone
     = Returned []"
  by (simp add: pass_defs normalizer_defs input_defs answer_defs sslOffZone_def
      universalSSLDiffers_def configuredUniversalSSL_def ToLower_proxy_words Let_def)

lemma actualRecords_Returned:
  assumes "actualRecords M env c zid zone = Returned actual"
  shows "\<exists>records prs. getRecordsForDomain env zid zone = Returned records
     \<and> list_all isCloudflareRecord records
     \<and> (if manageRedirects c then getPageRules env zid zone = Returned prs else prs = [])
     \<and> actual = filter (\<lambda>r. \<not> ignoredActual (TrimDomainName M) (ignoredLabels c) zone r) records @ prs"
proof -
  from assms obtain records kept where
    g: "getRecordsForDomain env zid zone = Returned records" and
    d: "dropIgnored (TrimDomainName M) (ignoredLabels c) zone records (length records) = Returned kept" and
    p: "(if manageRedirects c
         then obind (getPageRules env zid zone) (\<lambda>prs. Returned (kept @ prs))
         else Returned kept) = Returned actual"
    by (auto simp: actualRecords_def obind_Returned)
  from d have cf: "list_all isCloudflareRecord records"
    and kept: "kept = filter (\<lambda>r. \<not> ignoredActual (TrimDomainName M) (ignoredLabels c) zone r) records"
    by (auto simp: dropIgnored_eq split: if_splits)
  show ?thesis
  proof (cases "manageRedirects c")
    case True
    with p obtain prs where "getPageRules env zid zone = Returned prs" "actual = kept @ prs"
      by (auto simp: obind_Returned)
    then show ?thesis using g cf kept True by auto
  next
    case False
    with p have "actual = kept @ []" by simp
    then show ?thesis using g cf kept False by (intro exI[of _ records] exI[of _ "[]"]) simp
  qed
qed

text \<open>
  C7. When the Cloudflare pass reaches the differ, the actual records handed to it are
  the fetched records without those whose trimmed label is on the ignore list (followed
  by the page rules, which are fetched apart and not filtered); every record that the
  diff deletes, modifies or leaves unchanged is one of these, so no ignored record is
  ever deleted or modified, and no record that the diff creates or modifies carries an
  ignored label. A desired record whose label is on the ignore list is no matter of the
  normalizer: \<^verbatim>\<open>preprocessConfig\<close> does not read the ignore list. Such a record never
  lets the pass return corrections. The pass ends in the loop over the desired records,
  which calls \<^verbatim>\<open>log.Fatalf\<close>, once the zone lookup, \<^verbatim>\<open>preprocessConfig\<close> and the
  fetch of the actual records have succeeded; when the fetch fails, the pass returns the
  error of the fetch.
\<close>

theorem ignored_labels:
  "(cloudflareDiff L M env c dc zid = Returned (dc2, unchanged, create, del, modify) \<longrightarrow>
      (\<exists>records prs.
          getRecordsForDomain env zid (dc_Name dc) = Returned records
        \<and> (if manageRedirects c then getPageRules env zid (dc_Name dc) = Returned prs
            else prs = [])
        \<and> IncrementalDiff getProxyMetadata (Records dc2)
             (map (PostProcessRecord M)
                (filter (\<lambda>r. \<not> ignoredActual (TrimDomainName M) (ignoredLabels c) (dc_Name dc) r)
                   records @ prs))
            = Returned (unchanged, create, del, modify)
        \<and> (\<forall>x\<in>set del \<union> set modify \<union> set unchanged.
              \<exists>a. Existing x = Some (PostProcessRecord M a)
                \<and> (a \<in> set prs \<or>
                    a \<in> set records
                      \<and> \<not> ignoredActual (TrimDomainName M) (ignoredLabels c) (dc_Name dc) a))
        \<and> (\<forall>x\<in>set create \<union> set modify \<union> set unchanged.
              \<exists>d. Desired x = Some d \<and> Name d \<notin> set (ignoredLabels c))))
   \<and> preprocessConfig L (c\<lparr>ignoredLabels := labels\<rparr>) dc = preprocessConfig L c dc
   \<and> ((\<exists>r\<in>set (Records dc). Name r \<in> set (ignoredLabels c)) \<longrightarrow>
        (\<forall>cs. cloudflare_GetDomainCorrections L M env c dc \<noteq> Returned cs)
      \<and> (lookupZone env c (dc_Name dc) = Returned zid
           \<and> preprocessConfig L c dc = Inr dc1
           \<and> actualRecords M env c zid (dc_Name dc) = Returned actual
         \<longrightarrow> cloudflare_GetDomainCorrections L M env c dc =
               Fatal ''FATAL: dnsconfig contains label that matches ignored_labels'')
      \<and> (lookupZone env c (dc_Name dc) = Returned zid
           \<and> preprocessConfig L c dc = Inr dc1
           \<and> getRecordsForDomain env zid (dc_Name dc) = Failed err
         \<longrightarrow> cloudflare_GetDomainCorrections L M env c dc = Failed err))"
proof (intro conjI impI)
  assume d: "cloudflareDiff L M env c dc zid = Returned (dc2, unchanged, create, del, modify)"
  from cloudflareDiff_Returned[OF d] obtain dc1 actual where
    pc: "preprocessConfig L c dc = Inr dc1" and
    ar: "actualRecords M env c zid (dc_Name dc) = Returned actual" and
    nolab: "\<forall>r\<in>set (Records dc1). \<not> labelMatches (Name r) (ignoredLabels c)" and
    dc2: "dc2 = snd (checkNSModifications (dc1\<lparr>Records := map forced (Records dc1)\<rparr>))" and
    diff: "IncrementalDiff getProxyMetadata (Records dc2) (map (PostProcessRecord M) actual)
        = Returned (unchanged, create, del, modify)"
    by blast
  from actualRecords_Returned[OF ar] obtain records prs where
    g: "getRecordsForDomain env zid (dc_Name dc) = Returned records" and
    pr: "if manageRedirects c then getPageRules env zid (dc_Name dc) = Returned prs else prs = []" and
    actual: "actual = filter (\<lambda>r. \<not> ignoredActual (TrimDomainName M) (ignoredLabels c) (dc_Name dc) r) records @ prs"
    by blast
  note mem = IncrementalDiff_members[OF diff]
  have ex: "\<exists>a. Existing x = Some (PostProcessRecord M a)
                \<and> (a \<in> set prs \<or>
                    a \<in> set records
                      \<and> \<not> ignoredActual (TrimDomainName M) (ignoredLabels c) (dc_Name dc) a)"
    if "x \<in> set del \<union> set modify \<union> set unchanged" for x
  proof -
    have "\<exists>a\<in>set actual. Existing x = Some (PostProcessRecord M a)"
      using that mem by auto
    then show ?thesis unfolding actual by auto
  qed
  have names: "\<forall>d\<in>set (Records dc2). Name d \<notin> set (ignoredLabels c)"
    using nolab unfolding dc2
    by (auto simp: checkNSModifications_Records forced_Name labelMatches_iff)
  have de: "\<exists>d. Desired x = Some d \<and> Name d \<notin> set (ignoredLabels c)"
    if "x \<in> set create \<union> set modify \<union> set unchanged" for x
  proof -
    have "\<exists>d\<in>set (Records dc2). Desired x = Some d"
      using that mem by auto
    then show ?thesis using names by auto
  qed
  show "\<exists>records prs.
          getRecordsForDomain env zid (dc_Name dc) = Returned records
        \<and> (if manageRedirects c then getPageRules env zid (dc_Name dc) = Returned prs
            else prs = [])
        \<and> IncrementalDiff getProxyMetadata (Records dc2)
             (map (PostProcessRecord M)
                (filter (\<lambda>r. \<not> ignoredActual (TrimDomainName M) (ignoredLabels c) (dc_Name dc) r)
                   records @ prs))
            = Returned (unchanged, create, del, modify)
        \<and> (\<forall>x\<in>set del \<union> set modify \<union> set unchanged.
              \<exists>a. Existing x = Some (PostProcessRecord M a)
                \<and> (a \<in> set prs \<or>
                    a \<in> set records
                      \<and> \<not> ignoredActual (TrimDomainName M) (ignoredLabels c) (dc_Name dc) a))
        \<and> (\<forall>x\<in>set create \<union> set modify \<union> set unchanged.
              \<exists>d. Desired x = Some d \<and> Name d \<notin> set (ignoredLabels c))"
    using g pr diff[unfolded actual] ex de by (intro exI[of _ records] exI[of _ prs]) blast
next
  show "preprocessConfig L (c\<lparr>ignoredLabels := labels\<rparr>) dc = preprocessConfig L c dc"
    by (simp add: preprocessConfig_def split: sum.splits)
next
  assume bad: "\<exists>r\<in>set (Records dc). Name r \<in> set (ignoredLabels c)"
  show "\<forall>cs. cloudflare_GetDomainCorrections L M env c dc \<noteq> Returned cs"
  proof (intro allI notI)
    fix cs assume "cloudflare_GetDomainCorrections L M env c dc = Returned cs"
    then obtain zid' dc2 parts where "cloudflareDiff L M env c dc zid' = Returned (dc2, parts)"
      by (auto simp: cloudflare_GetDomainCorrections_unfold obind_Returned)
    from cloudflareDiff_Returned[OF this] obtain dc1' where
      pc: "preprocessConfig L c dc = Inr dc1'" and
      nolab: "\<forall>r\<in>set (Records dc1'). \<not> labelMatches (Name r) (ignoredLabels c)"
      by blast
    have "set (map Name (Records dc1')) = set (map Name (Records dc))"
      using preprocessConfig_frame(3)[OF pc] by simp
    then show False
      using bad nolab unfolding labelMatches_iff
      by (metis (no_types, lifting) image_iff list.set_map)
  qed
next
  assume bad: "\<exists>r\<in>set (Records dc). Name r \<in> set (ignoredLabels c)"
    and "lookupZone env c (dc_Name dc) = Returned zid
           \<and> preprocessConfig L c dc = Inr dc1
           \<and> actualRecords M env c zid (dc_Name dc) = Returned actual"
  then have z: "lookupZone env c (dc_Name dc) = Returned zid"
    and pc: "preprocessConfig L c dc = Inr dc1"
    and ar: "actualRecords M env c zid (dc_Name dc) = Returned actual" by auto
  have "set (map Name (Records dc1)) = set (map Name (Records dc))"
    using preprocessConfig_frame(3)[OF pc] by simp
  then have "\<exists>r\<in>set (Records dc1). labelMatches (Name r) (ignoredLabels c)"
    using bad unfolding labelMatches_iff
    by (metis (no_types, lifting) image_iff list.set_map)
  then have "forceLoop (ignoredLabels c) (Records dc1) =
      Fatal ''FATAL: dnsconfig contains label that matches ignored_labels''"
    by (simp add: forceLoop_eq)
  then show "cloudflare_GetDomainCorrections L M env c dc =
               Fatal ''FATAL: dnsconfig contains label that matches ignored_labels''"
    using z pc ar preprocessConfig_frame(1)[OF pc]
    by (simp add: cloudflare_GetDomainCorrections_unfold cloudflareDiff_unfold)
next
  assume "lookupZone env c (dc_Name dc) = Returned zid
           \<and> preprocessConfig L c dc = Inr dc1
           \<and> getRecordsForDomain env zid (dc_Name dc) = Failed err"
  then have z: "lookupZone env c (dc_Name dc) = Returned zid"
    and pc: "preprocessConfig L c dc = Inr dc1"
    and g: "getRecordsForDomain env zid (dc_Name dc) = Failed err" by auto
  show "cloudflare_GetDomainCorrections L M env c dc = Failed err"
    using z pc g preprocessConfig_frame(1)[OF pc]
    by (simp add: cloudflare_GetDomainCorrections_unfold cloudflareDiff_unfold actualRecords_def)
qed

lemma cloudflareDiff_drops_ignored:
  "cloudflareDiff noConversions plainModels (cfAnswers [cfActual, cfSkipped] True) cfIgnoring
     (zoneOf []) ''zone1''
   = Returned (zoneOf [], [], [], [\<lparr>Existing = Some cfActual, Desired = None\<rparr>], [])"
  by (simp add: pass_defs normalizer_defs input_defs answer_defs cfSkipped_def cfIgnoring_def)

lemma ignored_label_normalized:
  "preprocessConfig noConversions cfIgnoring
     (zoneOf [desiredRecord ''A'' ''skip'' ''192.0.2.1'' 300])
   = Inr (zoneOf [withProxy ''off'' (desiredRecord ''A'' ''skip'' ''192.0.2.1'' 1)])"
  by (simp add: normalizer_defs input_defs cfIgnoring_def)

lemma cloudflare_pass_fatal:
  "cloudflare_GetDomainCorrections noConversions plainModels
     (cfAnswers [cfActual, cfSkipped] True) cfIgnoring
     (zoneOf [desiredRecord ''A'' ''skip'' ''192.0.2.1'' 300])
   = Fatal ''FATAL: dnsconfig contains label that matches ignored_labels''"
  by (simp add: pass_defs normalizer_defs input_defs answer_defs cfSkipped_def cfIgnoring_def)

lemma cloudflare_pass_fetch_fails:
  "cloudflare_GetDomainCorrections noConversions plainModels cfFetchFails cfIgnoring
     (zoneOf [desiredRecord ''A'' ''skip'' ''192.0.2.1'' 300])
   = Failed (External ''connection refused'')"
  by (simp add: pass_defs normalizer_defs input_defs answer_defs cfFetchFails_def
      cfIgnoring_def)

theorem ignored_labels_witness:
  "ignoredActual (TrimDomainName plainModels) (ignoredLabels cfIgnoring) ''example.com''
     cfSkipped
   \<and> cloudflareDiff noConversions plainModels (cfAnswers [cfActual, cfSkipped] True) cfIgnoring
       (zoneOf []) ''zone1''
     = Returned (zoneOf [], [], [], [\<lparr>Existing = Some cfActual, Desired = None\<rparr>], [])
   \<and> Name (desiredRecord ''A'' ''skip'' ''192.0.2.1'' 300) \<in> set (ignoredLabels cfIgnoring)
   \<and> cloudflare_GetDomainCorrections noConversions plainModels
       (cfAnswers [cfActual, cfSkipped] True) cfIgnoring
       (zoneOf [desiredRecord ''A'' ''skip'' ''192.0.2.1'' 300])
     = Fatal ''FATAL: dnsconfig contains label that matches ignored_labels''
   \<and> cloudflare_GetDomainCorrections noConversions plainModels cfFetchFails cfIgnoring
       (zoneOf [desiredRecord ''A'' ''skip'' ''192.0.2.1'' 300])
     = Failed (External ''connection refused'')"
proof -
  let ?bad = "zoneOf [desiredRecord ''A'' ''skip'' ''192.0.2.1'' 300]"
  let ?bad1 = "zoneOf [withProxy ''off'' (desiredRecord ''A'' ''skip'' ''192.0.2.1'' 1)]"
  let ?env = "cfAnswers [cfActual, cfSkipped] True"
  let ?fatal = "Fatal ''FATAL: dnsconfig contains label that matches ignored_labels''
                  :: Correction list outcome"
  have a: "ignoredActual (TrimDomainName plainModels) (ignoredLabels cfIgnoring) ''example.com''
      cfSkipped"
    by (simp add: ignoredActual_def cfSkipped_def cfIgnoring_def plainModels_def cfNative_def)
  have b: "Name (desiredRecord ''A'' ''skip'' ''192.0.2.1'' 300) \<in> set (ignoredLabels cfIgnoring)"
    by (simp add: desiredRecord_def cfIgnoring_def)
  then have bad: "\<exists>r\<in>set (Records ?bad). Name r \<in> set (ignoredLabels cfIgnoring)"
    by (simp add: zoneOf_def)
  have z: "lookupZone ?env cfIgnoring (dc_Name ?bad) = Returned ''zone1''"
    "lookupZone cfFetchFails cfIgnoring (dc_Name ?bad) = Returned ''zone1''"
    by (simp_all add: lookupZone_def cfIgnoring_def cfApi_def zoneOf_def)
  have ar: "actualRecords plainModels ?env cfIgnoring ''zone1'' (dc_Name ?bad)
      = Returned [cfActual]"
    by (simp add: actualRecords_def answer_defs cfSkipped_def cfIgnoring_def cfApi_def
        zoneOf_def labelMatches_iff)
  have g: "getRecordsForDomain cfFetchFails ''zone1'' (dc_Name ?bad)
      = Failed (External ''connection refused'')"
    by (simp add: cfFetchFails_def)
  have fatal: "cloudflare_GetDomainCorrections noConversions plainModels ?env cfIgnoring ?bad
      = ?fatal"
    using ignored_labels[of noConversions plainModels ?env cfIgnoring ?bad "''zone1''" _ _ _ _ _
        _ ?bad1 "[cfActual]"] bad z(1) ignored_label_normalized ar
    by blast
  have failed: "cloudflare_GetDomainCorrections noConversions plainModels cfFetchFails
      cfIgnoring ?bad = Failed (External ''connection refused'')"
    using ignored_labels[of noConversions plainModels cfFetchFails cfIgnoring ?bad "''zone1''"
        _ _ _ _ _ _ ?bad1 _ "External ''connection refused''"] bad z(2)
      ignored_label_normalized g
    by blast
  show ?thesis
    using a b fatal failed cloudflareDiff_drops_ignored
      ignored_labels[of noConversions plainModels ?env cfIgnoring "zoneOf []" "''zone1''"
        "zoneOf []" "[]" "[]" "[\<lparr>Existing = Some cfActual, Desired = None\<rparr>]" "[]"]
    by simp
qed

text \<open>
  C7, as the claim has it, fails: the label on the ignore list raises no error in the
  normalizer. For a zone whose one desired record has the ignored label \<open>skip\<close>,
  \<^verbatim>\<open>preprocessConfig\<close> returns the normalized zone; the pass goes on to fetch the actual
  records, returns the error of the fetch when the fetch fails, and otherwise ends with
  \<^verbatim>\<open>log.Fatalf\<close>, which is no returned error.
\<close>

theorem ignored_label_passes_normalization:
  "Name (desiredRecord ''A'' ''skip'' ''192.0.2.1'' 300) \<in> set (ignoredLabels cfIgnoring)
   \<and> preprocessConfig noConversions cfIgnoring
       (zoneOf [desiredRecord ''A'' ''skip'' ''192.0.2.1'' 300])
     = Inr (zoneOf [withProxy ''off'' (desiredRecord ''A'' ''skip'' ''192.0.2.1'' 1)])
   \<and> cloudflare_GetDomainCorrections noConversions plainModels cfFetchFails cfIgnoring
       (zoneOf [desiredRecord ''A'' ''skip'' ''192.0.2.1'' 300])
     = Failed (External ''connection refused'')
   \<and> cloudflare_GetDomainCorrections noConversions plainModels
       (cfAnswers [cfActual, cfSkipped] True) cfIgnoring
       (zoneOf [desiredRecord ''A'' ''skip'' ''192.0.2.1'' 300])
     = Fatal ''FATAL: dnsconfig contains label that matches ignored_labels''"
  by (simp add: pass_defs normalizer_defs input_defs answer_defs cfSkipped_def cfIgnoring_def
      cfFetchFails_def)

lemma setProxy_TTL_indep:
  "setProxy dp (r\<lparr>TTL := t\<rparr>) =
     (case setProxy dp r of Inl e \<Rightarrow> Inl e | Inr r' \<Rightarrow> Inr (r'\<lparr>TTL := t\<rparr>))"
  by (auto simp: setProxy_def Let_def split: sum.splits)

lemma encodeRedirect_TTL_indep:
  "encodeRedirect m p (r\<lparr>TTL := t\<rparr>) =
     (case encodeRedirect m p r of Inl e \<Rightarrow> Inl e | Inr (r', p') \<Rightarrow> Inr (r'\<lparr>TTL := t\<rparr>, p'))"
  by (auto simp: encodeRedirect_def Let_def isRedirect_def)

lemma normalizeRecord_TTL_indep:
  "normalizeRecord m dp p (r\<lparr>TTL := t\<rparr>) =
     (case normalizeRecord m dp p r of
        Inl e \<Rightarrow> Inl e
      | Inr (r', p') \<Rightarrow> Inr (r'\<lparr>TTL := normalizeTTL t\<rparr>, p'))"
  by (auto simp: normalizeRecord_def setProxy_TTL_indep encodeRedirect_TTL_indep
      split: sum.splits)

lemma transformRecord_TTL_indep:
  "transformRecord L (r\<lparr>TTL := t\<rparr>) =
     (case transformRecord L r of Inl e \<Rightarrow> Inl e | Inr r' \<Rightarrow> Inr (r'\<lparr>TTL := t\<rparr>))"
  by (auto simp: transformRecord_def split: option.splits sum.splits)

lemma ttlVariant_update:
  "list_all2 ttlVariant recs recs2 \<Longrightarrow> ttlVariant r r2 \<Longrightarrow>
     list_all2 ttlVariant (recs[i := r]) (recs2[i := r2])"
  by (simp add: list_all2_update_cong)

lemma normalizeLoop_TTL_indep:
  "list_all2 ttlVariant recs recs2 \<Longrightarrow> n \<le> length recs \<Longrightarrow>
     (case normalizeLoop m dp prio recs n of
        Inl e \<Rightarrow> normalizeLoop m dp prio recs2 n = Inl e
      | Inr rs \<Rightarrow> (\<exists>rs2. normalizeLoop m dp prio recs2 n = Inr rs2 \<and> list_all2 ttlVariant rs rs2))"
proof (induction n arbitrary: prio recs recs2)
  case 0
  then show ?case by simp
next
  case (Suc n)
  then have n: "n < length recs" by simp
  from Suc.prems(1) n obtain t where t: "recs2 ! n = (recs ! n)\<lparr>TTL := t\<rparr>"
    by (auto simp: list_all2_conv_all_nth ttlVariant_def)
  show ?case
  proof (cases "normalizeRecord m dp prio (recs ! n)")
    case (Inl e)
    then show ?thesis using t by (simp add: normalizeRecord_TTL_indep)
  next
    case (Inr a)
    obtain r p' where a: "a = (r, p')" by (cases a)
    have s2: "normalizeRecord m dp prio (recs2 ! n) = Inr (r\<lparr>TTL := normalizeTTL t\<rparr>, p')"
      using Inr a t by (simp add: normalizeRecord_TTL_indep)
    have "ttlVariant r (r\<lparr>TTL := normalizeTTL t\<rparr>)" unfolding ttlVariant_def by blast
    then have rel: "list_all2 ttlVariant (recs[n := r]) (recs2[n := r\<lparr>TTL := normalizeTTL t\<rparr>])"
      using Suc.prems(1) by (intro ttlVariant_update)
    have "n \<le> length (recs[n := r])" using n by simp
    note ih = Suc.IH[OF rel this, of p']
    have e1: "normalizeLoop m dp prio recs (Suc n) = normalizeLoop m dp p' (recs[n := r]) n"
      using Inr a by simp
    have e2: "normalizeLoop m dp prio recs2 (Suc n)
        = normalizeLoop m dp p' (recs2[n := r\<lparr>TTL := normalizeTTL t\<rparr>]) n"
      using s2 by simp
    show ?thesis unfolding e1 e2 using ih .
  qed
qed

lemma transformLoop_TTL_indep:
  "list_all2 ttlVariant recs recs2 \<Longrightarrow>
     (case transformLoop L recs of
        Inl e \<Rightarrow> transformLoop L recs2 = Inl e
      | Inr rs \<Rightarrow> (\<exists>rs2. transformLoop L recs2 = Inr rs2 \<and> list_all2 ttlVariant rs rs2))"
proof (induction recs recs2 rule: list_all2_induct)
  case Nil
  show ?case by simp
next
  case (Cons r recs r2 recs2)
  from Cons(1) obtain t where t: "r2 = r\<lparr>TTL := t\<rparr>" by (auto simp: ttlVariant_def)
  show ?case
  proof (cases "transformRecord L r")
    case (Inl e)
    then show ?thesis using t by (simp add: transformRecord_TTL_indep)
  next
    case (Inr r')
    then have r2: "transformRecord L r2 = Inr (r'\<lparr>TTL := t\<rparr>)"
      using t by (simp add: transformRecord_TTL_indep)
    show ?thesis
    proof (cases "transformLoop L recs")
      case (Inl e)
      then show ?thesis using Cons(3) Inr r2 by simp
    next
      case (Inr rs)
      with Cons(3) obtain rs2 where "transformLoop L recs2 = Inr rs2" "list_all2 ttlVariant rs rs2"
        by auto
      then show ?thesis using Inr \<open>transformRecord L r = Inr r'\<close> r2
        by (auto simp: ttlVariant_def)
    qed
  qed
qed

lemma preprocessConfig_TTL_indep:
  assumes pc: "preprocessConfig L c dc = Inr dc1"
    and rel: "list_all2 ttlVariant (Records dc) recs'"
  shows "\<exists>recs1'. preprocessConfig L c (dc\<lparr>Records := recs'\<rparr>) = Inr (dc1\<lparr>Records := recs1'\<rparr>)
     \<and> list_all2 ttlVariant (Records dc1) recs1'"
proof -
  from pc obtain dp recs where
    dp: "defaultProxy dc = Inr dp" and ssl: "\<not> badUniversalSSL dc" and
    loop: "normalizeLoop (manageRedirects c) dp 1 (Records dc) (length (Records dc)) = Inr recs"
    and tr: "transformLoop L recs = Inr (Records dc1)" and eq: "dc1 = dc\<lparr>Records := Records dc1\<rparr>"
    by (auto simp: preprocessConfig_def split: sum.splits if_splits)
  have len: "length recs' = length (Records dc)" using rel by (simp add: list_all2_lengthD)
  from normalizeLoop_TTL_indep[OF rel, of "length (Records dc)" "manageRedirects c" dp 1] loop
  obtain rs2 where l2: "normalizeLoop (manageRedirects c) dp 1 recs' (length (Records dc)) = Inr rs2"
    and r2: "list_all2 ttlVariant recs rs2" by auto
  from transformLoop_TTL_indep[OF r2, of L] tr
  obtain recs1' where t2: "transformLoop L rs2 = Inr recs1'"
    and r3: "list_all2 ttlVariant (Records dc1) recs1'" by auto
  have "dc\<lparr>Records := recs1'\<rparr> = dc1\<lparr>Records := recs1'\<rparr>" by (subst eq) simp
  then have "preprocessConfig L c (dc\<lparr>Records := recs'\<rparr>) = Inr (dc1\<lparr>Records := recs1'\<rparr>)"
    using dp ssl l2 t2 len
    by (simp add: preprocessConfig_def defaultProxy_def badUniversalSSL_def)
  then show ?thesis using r3 by blast
qed

lemma forced_TTL_indep:
  "meta (Metadata r) metaProxy \<noteq> ''off'' \<Longrightarrow> forced (r\<lparr>TTL := t\<rparr>) = forced r"
  by (simp add: forced_def Let_def)

lemma ttlVariant_Name: "list_all2 ttlVariant xs ys \<Longrightarrow> map Name ys = map Name xs"
  by (induction xs ys rule: list_all2_induct) (auto simp: ttlVariant_def)

lemma forceLoop_cong:
  assumes "map Name ys = map Name xs" "map forced ys = map forced xs"
  shows "forceLoop ignored ys = forceLoop ignored xs"
proof -
  have "set (map Name ys) = set (map Name xs)" using assms(1) by simp
  then have "(\<exists>r\<in>set ys. labelMatches (Name r) ignored) = (\<exists>r\<in>set xs. labelMatches (Name r) ignored)"
    by (metis (no_types, lifting) image_iff list.set_map)
  then show ?thesis using assms(2) by (simp add: forceLoop_eq)
qed

text \<open>
  C10. When the Cloudflare pass reaches the differ, the desired records handed to it are
  the normalized records after the loop that forces them (and without the apex NS
  records), and each of them whose \<open>cloudflare_proxy\<close> is not \<open>off\<close> has TTL 1. The
  TTL that the user gave to a proxied record has no effect on the pass: changing the TTLs
  of records that are proxied after \<^verbatim>\<open>preprocessConfig\<close>, and nothing else, leaves the
  outcome of \<^verbatim>\<open>GetDomainCorrections\<close> as it was, so such a TTL never produces a
  correction.
\<close>

theorem proxied_TTL_forced:
  "(cloudflareDiff L M env c dc zid = Returned (dc2, parts) \<longrightarrow>
      (\<exists>dc1 actual.
          preprocessConfig L c dc = Inr dc1
        \<and> Records dc2 = filter (\<lambda>r. \<not> (Type r = ''NS'' \<and> NameFQDN r = dc_Name dc))
                           (map forced (Records dc1))
        \<and> IncrementalDiff getProxyMetadata (Records dc2) actual = Returned parts)
      \<and> (\<forall>r\<in>set (Records dc2). meta (Metadata r) metaProxy \<noteq> ''off'' \<longrightarrow> TTL r = 1))
   \<and> (preprocessConfig L c dc = Inr dc1 \<and> length recs' = length (Records dc)
        \<and> (\<forall>i<length (Records dc).
              \<exists>t. recs' ! i = (Records dc ! i)\<lparr>TTL := t\<rparr>
                \<and> (t \<noteq> TTL (Records dc ! i)
                     \<longrightarrow> meta (Metadata (Records dc1 ! i)) metaProxy \<noteq> ''off''))
      \<longrightarrow> cloudflare_GetDomainCorrections L M env c (dc\<lparr>Records := recs'\<rparr>)
            = cloudflare_GetDomainCorrections L M env c dc)"
proof (intro conjI impI)
  assume d: "cloudflareDiff L M env c dc zid = Returned (dc2, parts)"
  from cloudflareDiff_Returned[OF d] obtain dc1 actual where
    pc: "preprocessConfig L c dc = Inr dc1" and
    dc2: "dc2 = snd (checkNSModifications (dc1\<lparr>Records := map forced (Records dc1)\<rparr>))" and
    diff: "IncrementalDiff getProxyMetadata (Records dc2) (map (PostProcessRecord M) actual)
        = Returned parts"
    by blast
  have recs: "Records dc2 = filter (\<lambda>r. \<not> (Type r = ''NS'' \<and> NameFQDN r = dc_Name dc))
                           (map forced (Records dc1))"
    unfolding dc2 using preprocessConfig_frame(1)[OF pc] by (simp add: checkNSModifications_Records)
  show "\<exists>dc1 actual.
          preprocessConfig L c dc = Inr dc1
        \<and> Records dc2 = filter (\<lambda>r. \<not> (Type r = ''NS'' \<and> NameFQDN r = dc_Name dc))
                           (map forced (Records dc1))
        \<and> IncrementalDiff getProxyMetadata (Records dc2) actual = Returned parts"
    using pc recs diff by blast
  show "\<forall>r\<in>set (Records dc2). meta (Metadata r) metaProxy \<noteq> ''off'' \<longrightarrow> TTL r = 1"
    unfolding recs by (auto simp: forced_TTL)
next
  assume "preprocessConfig L c dc = Inr dc1 \<and> length recs' = length (Records dc)
        \<and> (\<forall>i<length (Records dc).
              \<exists>t. recs' ! i = (Records dc ! i)\<lparr>TTL := t\<rparr>
                \<and> (t \<noteq> TTL (Records dc ! i)
                     \<longrightarrow> meta (Metadata (Records dc1 ! i)) metaProxy \<noteq> ''off''))"
  then have pc: "preprocessConfig L c dc = Inr dc1"
    and len: "length recs' = length (Records dc)"
    and var: "\<forall>i<length (Records dc).
              \<exists>t. recs' ! i = (Records dc ! i)\<lparr>TTL := t\<rparr>
                \<and> (t \<noteq> TTL (Records dc ! i)
                     \<longrightarrow> meta (Metadata (Records dc1 ! i)) metaProxy \<noteq> ''off'')"
    by auto
  let ?dc' = "dc\<lparr>Records := recs'\<rparr>"
  have rel: "list_all2 ttlVariant (Records dc) recs'"
    using len var by (auto simp: list_all2_conv_all_nth ttlVariant_def)
  from preprocessConfig_TTL_indep[OF pc rel] obtain recs1' where
    pc': "preprocessConfig L c ?dc' = Inr (dc1\<lparr>Records := recs1'\<rparr>)" and
    rel1: "list_all2 ttlVariant (Records dc1) recs1'" by blast
  have ttl1: "map TTL (Records dc1) = map (\<lambda>r. normalizeTTL (TTL r)) (Records dc)"
    using preprocessConfig_TTL[OF pc] .
  have ttl1': "map TTL recs1' = map (\<lambda>r. normalizeTTL (TTL r)) recs'"
    using preprocessConfig_TTL[OF pc'] by simp
  have len1: "length (Records dc1) = length (Records dc)" "length recs1' = length (Records dc)"
    using arg_cong[OF ttl1, of length] arg_cong[OF ttl1', of length] len by simp_all
  have names: "map Name recs1' = map Name (Records dc1)" using ttlVariant_Name[OF rel1] .
  have forced_eq: "map forced recs1' = map forced (Records dc1)"
  proof (rule nth_equalityI)
    show "length (map forced recs1') = length (map forced (Records dc1))" using len1 by simp
  next
    fix i assume "i < length (map forced recs1')"
    then have i: "i < length (Records dc)" using len1 by simp
    from var i obtain t where t: "recs' ! i = (Records dc ! i)\<lparr>TTL := t\<rparr>"
      and px: "t \<noteq> TTL (Records dc ! i)
                     \<longrightarrow> meta (Metadata (Records dc1 ! i)) metaProxy \<noteq> ''off''" by blast
    from rel1 i len1 obtain t1 where t1: "recs1' ! i = (Records dc1 ! i)\<lparr>TTL := t1\<rparr>"
      by (auto simp: list_all2_conv_all_nth ttlVariant_def)
    have a: "TTL (recs1' ! i) = normalizeTTL t"
      using arg_cong[OF ttl1', of "\<lambda>xs. xs ! i"] i len len1 t by simp
    have b: "TTL (Records dc1 ! i) = normalizeTTL (TTL (Records dc ! i))"
      using arg_cong[OF ttl1, of "\<lambda>xs. xs ! i"] i len1 by simp
    have "forced (recs1' ! i) = forced (Records dc1 ! i)"
    proof (cases "t = TTL (Records dc ! i)")
      case True
      then have "TTL (recs1' ! i) = TTL (Records dc1 ! i)" using a b by simp
      then have "recs1' ! i = Records dc1 ! i" using t1 by simp
      then show ?thesis by simp
    next
      case False
      then show ?thesis using px t1 by (simp add: forced_TTL_indep)
    qed
    then show "map forced recs1' ! i = map forced (Records dc1) ! i" using i len1 by simp
  qed
  have fl: "forceLoop (ignoredLabels c) recs1' = forceLoop (ignoredLabels c) (Records dc1)"
    using forceLoop_cong[OF names forced_eq] .
  have "cloudflareDiff L M env c ?dc' zid = cloudflareDiff L M env c dc zid" for zid
    using pc pc' fl by (simp add: cloudflareDiff_unfold)
  then show "cloudflare_GetDomainCorrections L M env c ?dc'
            = cloudflare_GetDomainCorrections L M env c dc"
    by (simp add: cloudflare_GetDomainCorrections_unfold)
qed

lemma proxied_zone_normalized:
  "preprocessConfig noConversions cfApi
     (zoneOf [withProxy ''on'' (desiredRecord ''A'' ''www'' ''192.0.2.1'' 3600)])
   = Inr (zoneOf [withProxy ''on'' (desiredRecord ''A'' ''www'' ''192.0.2.1'' 3600)])"
  by (simp add: normalizer_defs input_defs ToLower_proxy_words)

lemma proxied_zone_diff:
  "cloudflareDiff noConversions plainModels (cfAnswers [cfProxied] True) cfApi
     (zoneOf [withProxy ''on'' (desiredRecord ''A'' ''www'' ''192.0.2.1'' 3600)]) ''zone1''
   = Returned (zoneOf [withProxy ''on'' (desiredRecord ''A'' ''www'' ''192.0.2.1'' 1)],
       [\<lparr>Existing = Some cfProxied,
         Desired = Some (withProxy ''on'' (desiredRecord ''A'' ''www'' ''192.0.2.1'' 1))\<rparr>],
       [], [], [])"
  by (simp add: pass_defs normalizer_defs input_defs answer_defs cfProxied_def
      ToLower_proxy_words)

theorem proxied_TTL_forced_witness:
  "preprocessConfig noConversions cfApi
     (zoneOf [withProxy ''on'' (desiredRecord ''A'' ''www'' ''192.0.2.1'' 3600)])
   = Inr (zoneOf [withProxy ''on'' (desiredRecord ''A'' ''www'' ''192.0.2.1'' 3600)])
   \<and> cloudflareDiff noConversions plainModels (cfAnswers [cfProxied] True) cfApi
       (zoneOf [withProxy ''on'' (desiredRecord ''A'' ''www'' ''192.0.2.1'' 3600)]) ''zone1''
     = Returned (zoneOf [withProxy ''on'' (desiredRecord ''A'' ''www'' ''192.0.2.1'' 1)],
         [\<lparr>Existing = Some cfProxied,
           Desired = Some (withProxy ''on'' (desiredRecord ''A'' ''www'' ''192.0.2.1'' 1))\<rparr>],
         [], [], [])
   \<and> TTL (withProxy ''on'' (desiredRecord ''A'' ''www'' ''192.0.2.1'' 1)) = 1
   \<and> cloudflare_GetDomainCorrections noConversions plainModels (cfAnswers [cfProxied] True)
       cfApi (zoneOf [withProxy ''on'' (desiredRecord ''A'' ''www'' ''192.0.2.1'' 7200)])
     = cloudflare_GetDomainCorrections noConversions plainModels (cfAnswers [cfProxied] True)
         cfApi (zoneOf [withProxy ''on'' (desiredRecord ''A'' ''www'' ''192.0.2.1'' 3600)])"
proof -
  let ?dc = "zoneOf [withProxy ''on'' (desiredRecord ''A'' ''www'' ''192.0.2.1'' 3600)]"
  let ?recs' = "[withProxy ''on'' (desiredRecord ''A'' ''www'' ''192.0.2.1'' 7200)]"
  have var: "\<forall>i<length (Records ?dc).
              \<exists>t. ?recs' ! i = (Records ?dc ! i)\<lparr>TTL := t\<rparr>
                \<and> (t \<noteq> TTL (Records ?dc ! i)
                     \<longrightarrow> meta (Metadata (Records ?dc ! i)) metaProxy \<noteq> ''off'')"
    by (simp add: input_defs meta_def metaProxy_def)
  have len: "length ?recs' = length (Records ?dc)" by (simp add: zoneOf_def)
  have "cloudflare_GetDomainCorrections noConversions plainModels (cfAnswers [cfProxied] True)
          cfApi (?dc\<lparr>Records := ?recs'\<rparr>)
        = cloudflare_GetDomainCorrections noConversions plainModels (cfAnswers [cfProxied] True)
          cfApi ?dc"
    using proxied_TTL_forced[of noConversions plainModels "cfAnswers [cfProxied] True" cfApi
        ?dc _ _ _ ?dc ?recs'] proxied_zone_normalized len var by blast
  moreover have "?dc\<lparr>Records := ?recs'\<rparr>
      = zoneOf [withProxy ''on'' (desiredRecord ''A'' ''www'' ''192.0.2.1'' 7200)]"
    by (simp add: zoneOf_def)
  ultimately show ?thesis
    using proxied_zone_normalized proxied_zone_diff by (simp add: input_defs)
qed

section \<open>Properties of the conversion of native records\<close>

lemma ovh_nativeToRecord_cases:
  "(\<exists>x. ovh_nativeToRecord M r origin = Returned x)
   \<or> ovh_nativeToRecord M r origin = Panic ''unparsable record received from ovh''"
  by (auto simp: ovh_nativeToRecord_def Let_def split: sum.splits)

lemma convertLoop_eq:
  "convertLoop M origin records acc =
     (if \<forall>r\<in>set records. isReturned (ovh_nativeToRecord M r origin)
      then Returned (acc @ List.map_filter (converted M origin) records)
      else Panic ''unparsable record received from ovh'')"
proof (induction records arbitrary: acc)
  case Nil
  show ?case by (simp add: map_filter_simps)
next
  case (Cons r records)
  from ovh_nativeToRecord_cases[of M r origin] show ?case
  proof
    assume "\<exists>x. ovh_nativeToRecord M r origin = Returned x"
    then obtain x where x: "ovh_nativeToRecord M r origin = Returned x" by blast
    have ret: "isReturned (ovh_nativeToRecord M r origin)" using x by (simp add: isReturned_def)
    show ?thesis
    proof (cases x)
      case None
      then have c: "converted M origin r = None" using x by (simp add: converted_def)
      have "convertLoop M origin (r # records) acc = convertLoop M origin records acc"
        using x None by simp
      then show ?thesis using Cons.IH[of acc] ret c by (simp add: map_filter_simps)
    next
      case (Some rec)
      then have c: "converted M origin r = Some rec" using x by (simp add: converted_def)
      have "convertLoop M origin (r # records) acc = convertLoop M origin records (acc @ [rec])"
        using x Some by simp
      then show ?thesis using Cons.IH[of "acc @ [rec]"] ret c by (simp add: map_filter_simps)
    qed
  next
    assume "ovh_nativeToRecord M r origin = Panic ''unparsable record received from ovh''"
    then show ?thesis by (simp add: isReturned_def)
  qed
qed

lemma cloudflare_nativeToRecord_cases:
  "(\<exists>rc. cloudflare_nativeToRecord M c0 domain = Returned rc)
   \<or> (\<exists>msg. cloudflare_nativeToRecord M c0 domain = Panic msg)"
  by (auto simp: cloudflare_nativeToRecord_def Let_def split: sum.splits option.splits)

text \<open>
  C8, as the code has it. A native record that cannot be parsed makes
  \<^verbatim>\<open>nativeToRecord\<close> panic. For OVH the panic ends \<^verbatim>\<open>GetDomainCorrections\<close>: whenever
  the conversion of one fetched record panics, the pass ends in that panic, so it returns
  neither an error value nor corrections computed from the records that did parse (OVH
  leaves out \<open>SOA\<close> records only). Cloudflare's \<^verbatim>\<open>nativeToRecord\<close> returns a record or
  panics; it has no error to return.
\<close>

theorem unparsable_record_panics:
  "(ovh_FieldType r \<noteq> ''SOA''
      \<and> PopulateFromString M
           (if ovh_FieldType r = ''SPF'' \<or> ovh_FieldType r = ''DKIM'' then ''TXT''
            else ovh_FieldType r)
           (ovh_Target r) origin
           (SetLabel M (ovh_SubDomain r) origin
              (emptyRecord (word_of_int (ovh_TTL r)) (OvhOriginal r))) = Inl err
      \<longrightarrow> ovh_nativeToRecord M r origin = Panic ''unparsable record received from ovh'')
   \<and> (zones p (dc_Name (Punycode M dc)) = Some True
        \<and> fetchRecords (dc_Name (Punycode M dc)) = Inr records
        \<and> r' \<in> set records
        \<and> ovh_nativeToRecord M r' (dc_Name (Punycode M dc)) = Panic msg
      \<longrightarrow> ovh_GetDomainCorrections M fetchRecords p dc
            = Panic ''unparsable record received from ovh'')
   \<and> ((\<exists>rc. cloudflare_nativeToRecord M c0 domain = Returned rc)
        \<or> (\<exists>msg. cloudflare_nativeToRecord M c0 domain = Panic msg))
   \<and> (cf_Type c0 \<noteq> ''MX'' \<and> cf_Type c0 \<noteq> ''SRV'' \<and> cf_Type c0 \<noteq> ''SPF''
        \<and> cf_Type c0 \<noteq> ''CNAME'' \<and> cf_Type c0 \<noteq> ''NS''
        \<and> PopulateFromString M (cf_Type c0) (cf_Content c0) domain
             (SetLabelFromFQDN M (cf_Name c0) domain
                (emptyRecord (cf_TTL c0) (CfOriginal c0))) = Inl err'
      \<longrightarrow> cloudflare_nativeToRecord M c0 domain
            = Panic ''unparsable record received from cloudflare'')"
proof (intro conjI impI)
  assume "ovh_FieldType r \<noteq> ''SOA''
      \<and> PopulateFromString M
           (if ovh_FieldType r = ''SPF'' \<or> ovh_FieldType r = ''DKIM'' then ''TXT''
            else ovh_FieldType r)
           (ovh_Target r) origin
           (SetLabel M (ovh_SubDomain r) origin
              (emptyRecord (word_of_int (ovh_TTL r)) (OvhOriginal r))) = Inl err"
  then show "ovh_nativeToRecord M r origin = Panic ''unparsable record received from ovh''"
    by (simp add: ovh_nativeToRecord_def Let_def)
next
  assume a: "zones p (dc_Name (Punycode M dc)) = Some True
        \<and> fetchRecords (dc_Name (Punycode M dc)) = Inr records
        \<and> r' \<in> set records
        \<and> ovh_nativeToRecord M r' (dc_Name (Punycode M dc)) = Panic msg"
  then have "\<not> isReturned (ovh_nativeToRecord M r' (dc_Name (Punycode M dc)))" "r' \<in> set records"
    by (simp_all add: isReturned_def)
  then have "\<not> (\<forall>r\<in>set records. isReturned (ovh_nativeToRecord M r (dc_Name (Punycode M dc))))"
    by blast
  then have "convertLoop M (dc_Name (Punycode M dc)) records []
      = Panic ''unparsable record received from ovh''"
    by (simp add: convertLoop_eq)
  then show "ovh_GetDomainCorrections M fetchRecords p dc
            = Panic ''unparsable record received from ovh''"
    using a by (simp add: ovh_GetDomainCorrections_unfold ovhDiff_unfold Let_def)
next
  show "(\<exists>rc. cloudflare_nativeToRecord M c0 domain = Returned rc)
        \<or> (\<exists>msg. cloudflare_nativeToRecord M c0 domain = Panic msg)"
    by (rule cloudflare_nativeToRecord_cases)
next
  assume "cf_Type c0 \<noteq> ''MX'' \<and> cf_Type c0 \<noteq> ''SRV'' \<and> cf_Type c0 \<noteq> ''SPF''
        \<and> cf_Type c0 \<noteq> ''CNAME'' \<and> cf_Type c0 \<noteq> ''NS''
        \<and> PopulateFromString M (cf_Type c0) (cf_Content c0) domain
             (SetLabelFromFQDN M (cf_Name c0) domain
                (emptyRecord (cf_TTL c0) (CfOriginal c0))) = Inl err'"
  then show "cloudflare_nativeToRecord M c0 domain
            = Panic ''unparsable record received from cloudflare''"
    by (simp add: cloudflare_nativeToRecord_def Let_def)
qed

theorem unparsable_record_panics_witness:
  "ovh_nativeToRecord plainModels (ovhNative\<lparr>ovh_ID := 8, ovh_Target := []\<rparr>) ''example.com''
     = Panic ''unparsable record received from ovh''
   \<and> ovh_GetDomainCorrections plainModels
       (\<lambda>zone. Inr [ovhNative, ovhNative\<lparr>ovh_ID := 8, ovh_Target := []\<rparr>]) ovhAccount
       (zoneOf [])
     = Panic ''unparsable record received from ovh''
   \<and> cloudflare_nativeToRecord plainModels (cfNative\<lparr>cf_Content := []\<rparr>) ''example.com''
     = Panic ''unparsable record received from cloudflare''"
proof -
  let ?bad = "ovhNative\<lparr>ovh_ID := 8, ovh_Target := []\<rparr>"
  let ?fetch = "\<lambda>zone :: string. Inr [ovhNative, ?bad] :: error + ovhRecord list"
  note inst = unparsable_record_panics[of ?bad plainModels "''example.com''"
      "External ''empty target''" ovhAccount "zoneOf []" ?fetch "[ovhNative, ?bad]" ?bad
      "''unparsable record received from ovh''" "cfNative\<lparr>cf_Content := []\<rparr>" "''example.com''"
      "External ''empty target''"]
  have a: "ovh_nativeToRecord plainModels ?bad ''example.com''
     = Panic ''unparsable record received from ovh''"
    using inst by (simp add: answer_defs emptyRecord_def)
  have b: "ovh_GetDomainCorrections plainModels ?fetch ovhAccount (zoneOf [])
     = Panic ''unparsable record received from ovh''"
    using inst a by (simp add: answer_defs zoneOf_def)
  have c: "cloudflare_nativeToRecord plainModels (cfNative\<lparr>cf_Content := []\<rparr>) ''example.com''
     = Panic ''unparsable record received from cloudflare''"
    using inst by (simp add: answer_defs emptyRecord_def)
  show ?thesis using a b c by simp
qed

text \<open>
  C8, as the claim has it, fails: the failure is no returned error. An OVH record with an
  empty target, which the parser rejects, ends OVH's \<^verbatim>\<open>GetDomainCorrections\<close> in a
  panic; a Cloudflare \<open>SRV\<close> record without data and an \<open>MX\<close> record whose priority is
  no number make Cloudflare's \<^verbatim>\<open>nativeToRecord\<close> panic.
\<close>

theorem unparsable_record_is_no_returned_error:
  "PopulateFromString plainModels ''A''
      (ovh_Target (ovhNative\<lparr>ovh_ID := 8, ovh_Target := []\<rparr>)) ''example.com''
      (SetLabel plainModels ''www'' ''example.com''
         (emptyRecord 0 (OvhOriginal (ovhNative\<lparr>ovh_ID := 8, ovh_Target := []\<rparr>))))
     = Inl (External ''empty target'')
   \<and> ovh_GetDomainCorrections plainModels
       (\<lambda>zone. Inr [ovhNative, ovhNative\<lparr>ovh_ID := 8, ovh_Target := []\<rparr>]) ovhAccount
       (zoneOf [])
     = Panic ''unparsable record received from ovh''
   \<and> cloudflare_nativeToRecord plainModels (cfNative\<lparr>cf_Type := ''SRV''\<rparr>) ''example.com''
     = Panic ''nil pointer dereference''
   \<and> Int64 plainModels ''high'' = None
   \<and> cloudflare_nativeToRecord plainModels
       (cfNative\<lparr>cf_Type := ''MX'', cf_Priority := ''high''\<rparr>) ''example.com''
     = Panic ''error decoding priority from cloudflare record''"
  by (simp add: pass_defs answer_defs input_defs cloudflare_nativeToRecord_def Let_def
      digitValue_def)











section \<open>The order of the corrections\<close>







end
